theory Spec2Isabelle
  imports Complex_Main "HOL-Library.Word"
begin

unbundle bit_operations_syntax

section \<open>Python primitives used by the backend\<close>

text \<open>
  Python strings are modelled by their UTF-8 encoding (\<open>string\<close> is a list of 8-bit
  characters), so \<^verbatim>\<open>s.encode()\<close> is the identity and a string is ASCII exactly when
  every character is below 128. A clock reading (\<^verbatim>\<open>datetime.utcnow().timestamp()\<close>) is
  a real number. Audio samples are floating-point numbers: the model keeps their
  rounding, their infinities and NaN (section on the conversion to 16-bit PCM).
\<close>

text \<open>\<^verbatim>\<open>s.startswith(p)\<close>\<close>

definition startswith :: "string \<Rightarrow> string \<Rightarrow> bool" where
  "startswith s p = (take (length p) s = p)"

text \<open>\<^verbatim>\<open>s.endswith(p)\<close>\<close>

definition endswith :: "string \<Rightarrow> string \<Rightarrow> bool" where
  "endswith s p = (length p \<le> length s \<and> drop (length s - length p) s = p)"

text \<open>\<^verbatim>\<open>sub in s\<close> for strings\<close>

fun contains :: "string \<Rightarrow> string \<Rightarrow> bool" where
  "contains [] sub = (sub = [])"
| "contains (c # cs) sub = (startswith (c # cs) sub \<or> contains cs sub)"

text \<open>\<^verbatim>\<open>s.split(sep)[-1]\<close> for a one-character separator: what follows the last separator.\<close>

definition split_last :: "char \<Rightarrow> string \<Rightarrow> string" where
  "split_last sep s = rev (takeWhile (\<lambda>c. c \<noteq> sep) (rev s))"

text \<open>\<^verbatim>\<open>os.path.basename(p)\<close> (posixpath): \<^verbatim>\<open>p[p.rfind('/') + 1:]\<close>.\<close>

definition basename :: "string \<Rightarrow> string" where
  "basename p = rev (takeWhile (\<lambda>c. c \<noteq> CHR ''/'') (rev p))"

text \<open>\<^verbatim>\<open>os.path.join(a, b)\<close> (posixpath), for two components.\<close>

definition os_path_join :: "string \<Rightarrow> string \<Rightarrow> string" where
  "os_path_join a b =
     (if startswith b ''/'' then b
      else if a = [] \<or> endswith a ''/'' then a @ b
      else a @ ''/'' @ b)"

text \<open>\<^verbatim>\<open>str(n)\<close> for an integer: decimal digits, a minus sign for negative numbers.\<close>

definition digit_char :: "nat \<Rightarrow> char" where
  "digit_char d = ''0123456789'' ! d"

fun str_nat :: "nat \<Rightarrow> string" where
  "str_nat n = (if n < 10 then [digit_char n] else str_nat (n div 10) @ [digit_char (n mod 10)])"

declare str_nat.simps [simp del]

definition str_int :: "int \<Rightarrow> string" where
  "str_int i = (if i < 0 then CHR ''-'' # str_nat (nat (- i)) else str_nat (nat i))"

text \<open>\<^verbatim>\<open>int(x)\<close> for a float: truncation towards zero.\<close>

definition py_int :: "real \<Rightarrow> int" where
  "py_int x = (if 0 \<le> x then \<lfloor>x\<rfloor> else \<lceil>x\<rceil>)"

text \<open>
  Exceptions, as far as the handlers of the backend tell them apart. Each carries
  \<^verbatim>\<open>str(e)\<close>. \<open>Exception\<close> stands for any other instance of Python's class
  \<^verbatim>\<open>Exception\<close>. System-exiting exceptions (\<^verbatim>\<open>SystemExit\<close>, \<^verbatim>\<open>KeyboardInterrupt\<close>)
  end the process and are not modelled.
\<close>

datatype py_exception =
    SoftTimeLimitExceeded string
  | ValueError string
  | TypeError string
  | ZeroDivisionError string
  | Exception string

fun str_exc :: "py_exception \<Rightarrow> string" where
  "str_exc (SoftTimeLimitExceeded m) = m"
| "str_exc (ValueError m) = m"
| "str_exc (TypeError m) = m"
| "str_exc (ZeroDivisionError m) = m"
| "str_exc (Exception m) = m"

section \<open>Signed artifact links (main.py)\<close>

definition SECRET_KEY :: string where
  "SECRET_KEY = ''SECRET_KEY_GOES_HERE_CHANGE_IN_PROD''"

definition AUDIO_DIR :: string where
  "AUDIO_DIR = ''generated_audio''"

text \<open>
  \<^verbatim>\<open>hmac.new(key, msg, hashlib.sha256)\<close> is a library function; it is a parameter of
  the model, of the type of a keyed 256-bit digest. \<^verbatim>\<open>hexdigest()\<close> writes the digest
  as 64 lower-case hexadecimal digits, most significant first.
\<close>

type_synonym hmac_sha256 = "string \<Rightarrow> string \<Rightarrow> 256 word"

definition hex_digit :: "nat \<Rightarrow> char" where
  "hex_digit n = ''0123456789abcdef'' ! n"

definition hexdigest :: "256 word \<Rightarrow> string" where
  "hexdigest d = map (\<lambda>i. hex_digit (unat (drop_bit (4 * i) d AND 15))) (rev [0..<64])"

text \<open>
  \<^verbatim>\<open>
  def create_access_signature(filename: str, expires_timestamp: int) -> str:
      data = f"{filename}:{expires_timestamp}"
      return hmac.new(SECRET_KEY.encode(), data.encode(), hashlib.sha256).hexdigest()
  \<close>
\<close>

definition create_access_signature :: "hmac_sha256 \<Rightarrow> string \<Rightarrow> int \<Rightarrow> string" where
  "create_access_signature mac filename expires_timestamp =
     (let data = filename @ '':'' @ str_int expires_timestamp
      in hexdigest (mac SECRET_KEY data))"

text \<open>
  \<^verbatim>\<open>datetime.utcnow()\<close> is a naive date: the calendar fields of the time in UTC, with no
  zone attached. It is modelled by the number of seconds from 1970-01-01 00:00:00 to
  those fields, so that \<^verbatim>\<open>d + timedelta(minutes=60)\<close> is \<open>d + 60 * 60\<close>.
  \<^verbatim>\<open>d.timestamp()\<close> reads a naive date as a time of the machine's zone; the zone's
  rules belong to the machine, so the method is a parameter of the model. On a machine
  whose zone is UTC it is the identity.
\<close>

type_synonym timestamp_method = "real \<Rightarrow> real"

definition utc_timestamp :: timestamp_method where
  "utc_timestamp d = d"

text \<open>
  The same method on a machine whose zone is \<^verbatim>\<open>America/New_York\<close>, for the naive dates
  from November 2023 to November 2024. In that zone the clocks went from 02:00 (five
  hours behind UTC) to 03:00 (four hours behind) on 2024-03-10; \<open>1710039600\<close> is the
  naive date 2024-03-10 03:00:00. A date inside the hour that the clocks skipped is read
  with the offset from before the change.
\<close>

definition new_york_timestamp :: timestamp_method where
  "new_york_timestamp d = (if d < 1710039600 then d + 5 * 3600 else d + 4 * 3600)"

text \<open>
  The expiry that \<^verbatim>\<open>sign_path\<close> computes when \<^verbatim>\<open>datetime.utcnow()\<close> is \<open>utcnow\<close>:
  \<^verbatim>\<open>int((datetime.utcnow() + timedelta(minutes=60)).timestamp())\<close>.
\<close>

definition sign_expires :: "timestamp_method \<Rightarrow> real \<Rightarrow> int" where
  "sign_expires timestamp utcnow = py_int (timestamp (utcnow + 60 * 60))"

text \<open>
  \<^verbatim>\<open>
  def sign_path(path: str) -> str:
      if not path or not path.startswith("/static/"):
          return path
      filename = path.split("/")[-1]
      expires = int((datetime.utcnow() + timedelta(minutes=60)).timestamp())
      signature = create_access_signature(filename, expires)
      return f"{path}?expires={expires}&signature={signature}"
  \<close>
\<close>

definition sign_path :: "hmac_sha256 \<Rightarrow> timestamp_method \<Rightarrow> real \<Rightarrow> string \<Rightarrow> string" where
  "sign_path mac timestamp utcnow path =
     (if path = [] \<or> \<not> startswith path ''/static/'' then path
      else
        let filename = split_last CHR ''/'' path;
            expires = sign_expires timestamp utcnow;
            signature = create_access_signature mac filename expires
        in path @ ''?expires='' @ str_int expires @ ''&signature='' @ signature)"

text \<open>
  \<^verbatim>\<open>hmac.compare_digest(a, b)\<close> on two \<^verbatim>\<open>str\<close> arguments: a \<^verbatim>\<open>TypeError\<close> unless both
  are ASCII, otherwise whether they are equal.
\<close>

definition is_ascii :: "string \<Rightarrow> bool" where
  "is_ascii s = list_all (\<lambda>c. (of_char c :: nat) < 128) s"

definition compare_digest :: "string \<Rightarrow> string \<Rightarrow> py_exception + bool" where
  "compare_digest a b =
     (if is_ascii a \<and> is_ascii b then Inr (a = b)
      else Inl (TypeError ''comparing strings with non-ASCII characters is not supported''))"

text \<open>
  The file system as the gateway sees it: \<^verbatim>\<open>os.path.exists\<close>, \<^verbatim>\<open>os.path.abspath\<close>
  and \<^verbatim>\<open>os.path.commonpath\<close> are parameters.
\<close>

record filesystem =
  path_exists :: "string \<Rightarrow> bool"
  abspath :: "string \<Rightarrow> string"
  commonpath :: "string list \<Rightarrow> string"

text \<open>
  The outcome of a request: an \<^verbatim>\<open>HTTPException\<close> raised by the handler (status code
  and detail), or another exception that the handler does not catch (the framework
  answers 500).
\<close>

datatype http_error = HTTPException nat string | Unhandled py_exception

text \<open>
  The last part of \<^verbatim>\<open>get_audio_file\<close>, after the three checks of the link:
  \<^verbatim>\<open>
      file_path = os.path.join(AUDIO_DIR, filename)
      if os.path.commonpath([os.path.abspath(file_path), os.path.abspath(AUDIO_DIR)]) != os.path.abspath(AUDIO_DIR):
           raise HTTPException(status_code=403, detail="Invalid path")
      if not os.path.exists(file_path):
          raise HTTPException(status_code=404, detail="File not found")
      return FileResponse(file_path)
  \<close>
  \<open>Inr p\<close> is \<^verbatim>\<open>FileResponse(p)\<close>.
\<close>

definition serve_file :: "filesystem \<Rightarrow> string \<Rightarrow> http_error + string" where
  "serve_file fs filename =
     (let file_path = os_path_join AUDIO_DIR filename in
      if commonpath fs [abspath fs file_path, abspath fs AUDIO_DIR] \<noteq> abspath fs AUDIO_DIR
      then Inl (HTTPException 403 ''Invalid path'')
      else if \<not> path_exists fs file_path then Inl (HTTPException 404 ''File not found'')
      else Inr file_path)"

text \<open>
  \<^verbatim>\<open>
  @app.get("/static/{filename}")
  def get_audio_file(filename: str, expires: int = 0, signature: str = ""):
      if not expires or not signature:
           raise HTTPException(status_code=403, detail="Missing signature or expiry")
      if datetime.utcnow().timestamp() > expires:
          raise HTTPException(status_code=403, detail="Link expired")
      expected_signature = create_access_signature(filename, expires)
      if not hmac.compare_digest(signature, expected_signature):
          raise HTTPException(status_code=403, detail="Invalid signature")
      ...
  \<close>
  \<open>now\<close> is the value of \<^verbatim>\<open>datetime.utcnow().timestamp()\<close> at the request: the
  machine's \<^verbatim>\<open>timestamp()\<close> of the naive date that \<^verbatim>\<open>utcnow()\<close> returns.
\<close>

definition get_audio_file ::
  "filesystem \<Rightarrow> hmac_sha256 \<Rightarrow> real \<Rightarrow> string \<Rightarrow> int \<Rightarrow> string \<Rightarrow> http_error + string" where
  "get_audio_file fs mac now filename expires signature =
     (if expires = 0 \<or> signature = [] then
        Inl (HTTPException 403 ''Missing signature or expiry'')
      else if now > real_of_int expires then
        Inl (HTTPException 403 ''Link expired'')
      else
        (case compare_digest signature (create_access_signature mac filename expires) of
           Inl e \<Rightarrow> Inl (Unhandled e)
         | Inr same \<Rightarrow>
             if \<not> same then Inl (HTTPException 403 ''Invalid signature'')
             else serve_file fs filename))"

text \<open>Stand-ins for the two parameters, for evaluating the gateway at concrete requests.\<close>

definition demo_mac :: hmac_sha256 where
  "demo_mac key msg = word_of_nat (length key + 2 * length msg)"

definition demo_fs :: filesystem where
  "demo_fs = \<lparr>path_exists = (\<lambda>p. p = ''generated_audio/a.wav''),
              abspath = (\<lambda>p. ''/app/'' @ p),
              commonpath = (\<lambda>ps. ''/app/generated_audio'')\<rparr>"

section \<open>Job results and the result backend\<close>

text \<open>
  The dictionary that \<^verbatim>\<open>generate_audio_task\<close> returns. Its \<^verbatim>\<open>'status'\<close> entry is
  \<^verbatim>\<open>'completed'\<close>, \<^verbatim>\<open>'cancelled'\<close>, \<^verbatim>\<open>'timeout'\<close> or \<^verbatim>\<open>'error'\<close>; a completed result
  carries the fields of the history row, the other three a \<^verbatim>\<open>'message'\<close>.
\<close>

record audio_result =
  res_id :: nat
  res_text_input :: string
  res_file_path :: string
  res_model_name :: string
  res_speaker :: "string option"
  res_cfg_scale :: real
  res_inference_steps :: int
  res_duration :: real
  res_timestamp :: string

datatype task_result =
    Completed audio_result
  | Cancelled string
  | Timeout string
  | Error string

fun result_status :: "task_result \<Rightarrow> string" where
  "result_status (Completed r) = ''completed''"
| "result_status (Cancelled m) = ''cancelled''"
| "result_status (Timeout m) = ''timeout''"
| "result_status (Error m) = ''error''"

text \<open>
  The shared state store (Redis, through Celery's result backend). A job's record, kept
  under \<^verbatim>\<open>celery-task-meta-<id>\<close>, holds its state, and its \<^verbatim>\<open>info\<close>: the status
  note of a \<^verbatim>\<open>PROGRESS\<close> update, the returned dictionary of a finished task, and
  \<^verbatim>\<open>str(info)\<close> for the states that print it. Other keys map to a value and a time to
  live in seconds.
\<close>

record task_meta =
  tm_state :: string
  tm_progress_status :: "string option"
  tm_result :: "task_result option"
  tm_info_str :: string

record store =
  meta :: "string \<Rightarrow> task_meta option"
  keys :: "string \<Rightarrow> (string \<times> nat) option"

definition empty_store :: store where
  "empty_store = \<lparr>meta = (\<lambda>k. None), keys = (\<lambda>k. None)\<rparr>"

text \<open>
  \<^verbatim>\<open>AsyncResult(task_id, app=celery_app).state\<close>: the state of the job's record, and
  \<^verbatim>\<open>PENDING\<close> when the backend holds no record for the id (Celery keeps no list of the
  ids it issued: an id it has no record of counts as pending).
\<close>

definition async_state :: "store \<Rightarrow> string \<Rightarrow> string" where
  "async_state st task_id = (case meta st task_id of None \<Rightarrow> ''PENDING'' | Some m \<Rightarrow> tm_state m)"

definition async_info_str :: "store \<Rightarrow> string \<Rightarrow> string" where
  "async_info_str st task_id = (case meta st task_id of None \<Rightarrow> ''None'' | Some m \<Rightarrow> tm_info_str m)"

text \<open>\<^verbatim>\<open>client.setex(key, ttl, value)\<close>\<close>

definition setex :: "store \<Rightarrow> string \<Rightarrow> nat \<Rightarrow> string \<Rightarrow> store" where
  "setex st key ttl val = st\<lparr>keys := (keys st)(key \<mapsto> (val, ttl))\<rparr>"

section \<open>Status and cancellation endpoints (main.py)\<close>

record status_response =
  sr_task_id :: string
  sr_state :: string
  sr_status :: "string option"
  sr_result :: "task_result option"

text \<open>
  In a successful job's result the file path is signed:
  \<^verbatim>\<open>
  if isinstance(result, dict) and 'file_path' in result:
       result['file_path'] = sign_path(result['file_path'])
  \<close>
\<close>

fun sign_result ::
  "hmac_sha256 \<Rightarrow> timestamp_method \<Rightarrow> real \<Rightarrow> task_result \<Rightarrow> task_result" where
  "sign_result mac timestamp utcnow (Completed r) =
     Completed (r\<lparr>res_file_path := sign_path mac timestamp utcnow (res_file_path r)\<rparr>)"
| "sign_result mac timestamp utcnow r = r"

text \<open>
  \<^verbatim>\<open>
  async def get_task_status(task_id: str, ...):
      task_result = AsyncResult(task_id, app=celery_app)
      if task_result.state == 'PENDING':
          response = {'task_id': task_id, 'state': task_result.state,
                      'status': 'Task is waiting to start...'}
      elif task_result.state == 'PROGRESS':
          response = {..., 'status': task_result.info.get('status', '')}
      elif task_result.state == 'SUCCESS':
          ... response = {..., 'result': result}
      elif task_result.state == 'FAILURE':
          response = {..., 'status': str(task_result.info)}
      elif task_result.state == 'REVOKED':
          response = {..., 'status': 'Task was cancelled'}
      else:
          response = {..., 'status': str(task_result.info)}
      return response
  \<close>
  \<open>timestamp\<close> and \<open>utcnow\<close> are the machine's \<^verbatim>\<open>timestamp()\<close> and the value of
  \<^verbatim>\<open>datetime.utcnow()\<close> at the request; \<^verbatim>\<open>sign_path\<close> reads them.
\<close>

definition get_task_status ::
  "hmac_sha256 \<Rightarrow> timestamp_method \<Rightarrow> real \<Rightarrow> store \<Rightarrow> string \<Rightarrow> status_response" where
  "get_task_status mac timestamp utcnow st task_id =
     (let state = async_state st task_id;
          response = (\<lambda>status result.
            \<lparr>sr_task_id = task_id, sr_state = state, sr_status = status, sr_result = result\<rparr>)
      in
      if state = ''PENDING'' then response (Some ''Task is waiting to start...'') None
      else if state = ''PROGRESS'' then
        response (Some (case Option.bind (meta st task_id) tm_progress_status of
                          None \<Rightarrow> [] | Some s \<Rightarrow> s)) None
      else if state = ''SUCCESS'' then
        response None (map_option (sign_result mac timestamp utcnow)
                         (Option.bind (meta st task_id) tm_result))
      else if state = ''FAILURE'' then response (Some (async_info_str st task_id)) None
      else if state = ''REVOKED'' then response (Some ''Task was cancelled'') None
      else response (Some (async_info_str st task_id)) None)"

text \<open>A request to the workers: \<^verbatim>\<open>celery_app.control.revoke(task_id, terminate, signal)\<close>.\<close>

datatype control_command = Revoke string bool string

record cancel_response =
  cr_task_id :: string
  cr_status :: string
  cr_message :: string

text \<open>
  \<^verbatim>\<open>
  async def cancel_task(task_id: str, ...):
      task_result = AsyncResult(task_id, app=celery_app)
      if task_result.state not in ['SUCCESS', 'FAILURE', 'REVOKED']:
          try:
               celery_app.backend.client.setex(f"task_cancelled:{task_id}", 3600, "1")
          except Exception as e:
               print(f"Error setting cancellation flag: {e}")
          celery_app.control.revoke(task_id, terminate=True, signal='SIGTERM')
          return {"task_id": task_id, "status": "cancelled",
                  "message": "Task cancellation requested"}
      else:
          return {"task_id": task_id, "status": task_result.state,
                  "message": f"Task is in {task_result.state} state and cannot be cancelled"}
  \<close>
  \<open>setex_error\<close> is the exception of the \<^verbatim>\<open>setex\<close> call, if the store raises one. The
  function returns the store, the requests sent to the workers, and the response.
\<close>

definition cancel_task ::
  "py_exception option \<Rightarrow> store \<Rightarrow> string \<Rightarrow> store \<times> control_command list \<times> cancel_response" where
  "cancel_task setex_error st task_id =
     (let state = async_state st task_id in
      if state \<notin> set [''SUCCESS'', ''FAILURE'', ''REVOKED''] then
        (case setex_error of
           None \<Rightarrow> setex st (''task_cancelled:'' @ task_id) 3600 ''1''
         | Some e \<Rightarrow> st,
         [Revoke task_id True ''SIGTERM''],
         \<lparr>cr_task_id = task_id, cr_status = ''cancelled'',
          cr_message = ''Task cancellation requested''\<rparr>)
      else
        (st, [],
         \<lparr>cr_task_id = task_id, cr_status = state,
          cr_message = ''Task is in '' @ state @ '' state and cannot be cancelled''\<rparr>))"

section \<open>Effects of the worker process\<close>

text \<open>
  What a worker does to the world around it is recorded as a list of events, in order.
  A computation yields its events and either an exception or a value; \<open>and_then\<close>
  runs a second computation after a first one that did not raise, as one statement
  follows another inside a \<^verbatim>\<open>try\<close> block. The result of a call that leaves the program
  (a library, the file system, the store, the database) is a parameter.
\<close>

type_synonym handle = nat

text \<open>An entry of \<^verbatim>\<open>LOADED_MODELS\<close>: the dictionary with the keys \<^verbatim>\<open>model\<close>,
  \<^verbatim>\<open>processor\<close>, \<^verbatim>\<open>type\<close> and \<^verbatim>\<open>subtype\<close>.\<close>

record loaded_obj =
  lo_model :: handle
  lo_processor :: "handle option"
  lo_type :: string
  lo_subtype :: "string option"

text \<open>A row of the table \<^verbatim>\<open>audio_history\<close> (models.py), before the database numbers it.\<close>

record AudioHistory =
  ah_text_input :: string
  ah_file_path :: string
  ah_model_name :: string
  ah_speaker :: "string option"
  ah_cfg_scale :: real
  ah_inference_steps :: int
  ah_duration :: real
  ah_timestamp :: string
  ah_user_id :: int

datatype event =
    UpdateState string string
  | CacheCleared
  | EmptyCache string
  | LoadProcessor string
  | LoadModel string string
  | LoadPipeline string string
  | CacheStored string
  | BackendGet string
  | PathExists string
  | ListDir string
  | TorchLoad string
  | Synthesize bool
  | PipeCall
  | ClientExists string
  | AsyncResultState string
  | WavWrite string nat "16 word list"
  | DbAdd AudioHistory
  | DbClose
  | PrintTraceback

type_synonym 'a comp = "event list \<times> (py_exception + 'a)"

definition ret :: "'a \<Rightarrow> 'a comp" where
  "ret x = ([], Inr x)"

definition raise :: "py_exception \<Rightarrow> 'a comp" where
  "raise e = ([], Inl e)"

definition emit :: "event \<Rightarrow> unit comp" where
  "emit ev = ([ev], Inr ())"

definition call :: "event \<Rightarrow> py_exception + 'a \<Rightarrow> 'a comp" where
  "call ev r = ([ev], r)"

definition and_then :: "'a comp \<Rightarrow> ('a \<Rightarrow> 'b comp) \<Rightarrow> 'b comp" where
  "and_then m f =
     (case m of
        (es, Inl e) \<Rightarrow> (es, Inl e)
      | (es, Inr x) \<Rightarrow> (case f x of (es', r) \<Rightarrow> (es @ es', r)))"

section \<open>The model cache (main.py)\<close>

text \<open>
  \<^verbatim>\<open>LOADED_MODELS\<close> is a dictionary from model names to entries; it is modelled by an
  association list in insertion order.
\<close>

type_synonym model_cache = "(string \<times> loaded_obj) list"

text \<open>\<^verbatim>\<open>d[k] = v\<close>\<close>

fun dict_set :: "'k \<Rightarrow> 'v \<Rightarrow> ('k \<times> 'v) list \<Rightarrow> ('k \<times> 'v) list" where
  "dict_set k v [] = [(k, v)]"
| "dict_set k v ((k', v') # d) = (if k' = k then (k, v) # d else (k', v') # dict_set k v d)"

definition MODELS_DIR :: string where
  "MODELS_DIR = ''local_models''"

text \<open>
  The machine and the libraries, as \<^verbatim>\<open>load_model_pipeline\<close> sees them. The loaders
  take the arguments that the code passes: whether the streaming (realtime) classes are
  used, the model path, the \<^verbatim>\<open>torch_dtype\<close>, the \<^verbatim>\<open>device_map\<close> and the
  \<^verbatim>\<open>attn_implementation\<close>. \<open>model_from_pretrained\<close> stands for \<^verbatim>\<open>from_pretrained\<close>
  followed by \<^verbatim>\<open>model.to("mps")\<close> on that device; \<open>pipeline_retry\<close> is the second
  call of \<^verbatim>\<open>pipeline\<close>, on the CPU.
\<close>

record loader_env =
  cuda_is_available :: bool
  mps_is_available :: bool
  VIBEVOICE_AVAILABLE :: bool
  current_dir :: string
  models_path_exists :: "string \<Rightarrow> bool"
  processor_from_pretrained :: "bool \<Rightarrow> string \<Rightarrow> py_exception + handle"
  model_from_pretrained ::
    "bool \<Rightarrow> string \<Rightarrow> string \<Rightarrow> string option \<Rightarrow> string \<Rightarrow> py_exception + handle"
  model_eval :: "handle \<Rightarrow> py_exception option"
  pipeline :: "string \<Rightarrow> string \<Rightarrow> py_exception + handle"
  pipeline_retry :: "string \<Rightarrow> py_exception + handle"

text \<open>
  \<^verbatim>\<open>
  def get_compute_device():
      if torch.backends.mps.is_available():
          return "mps"
      elif torch.cuda.is_available():
          return "cuda"
      return "cpu"
  \<close>
\<close>

definition get_compute_device :: "loader_env \<Rightarrow> string" where
  "get_compute_device env =
     (if mps_is_available env then ''mps''
      else if cuda_is_available env then ''cuda''
      else ''cpu'')"

text \<open>
  The release of the accelerator's memory after \<^verbatim>\<open>LOADED_MODELS.clear()\<close>:
  \<^verbatim>\<open>
  if torch.cuda.is_available():
      torch.cuda.empty_cache()
  elif torch.backends.mps.is_available():
      torch.mps.empty_cache()
  \<close>
\<close>

definition release_events :: "loader_env \<Rightarrow> event list" where
  "release_events env =
     (if cuda_is_available env then [EmptyCache ''cuda'']
      else if mps_is_available env then [EmptyCache ''mps'']
      else [])"

text \<open>
  \<^verbatim>\<open>
  model_path = os.path.join(MODELS_DIR, model_name)
  if not os.path.exists(model_path):
       model_path = os.path.join(current_dir, MODELS_DIR, model_name)
       if not os.path.exists(model_path):
           print(f"Model path not found: {model_path}")
  \<close>
\<close>

definition resolve_model_path :: "loader_env \<Rightarrow> string \<Rightarrow> string" where
  "resolve_model_path env model_name =
     (let model_path = os_path_join MODELS_DIR model_name in
      if \<not> models_path_exists env model_path
      then os_path_join (os_path_join (current_dir env) MODELS_DIR) model_name
      else model_path)"

text \<open>\<^verbatim>\<open>"Realtime" in model_name or "0.5B" in model_name\<close>\<close>

definition is_realtime_name :: "string \<Rightarrow> bool" where
  "is_realtime_name model_name = (contains model_name ''Realtime'' \<or> contains model_name ''0.5B'')"

text \<open>
  The body of the \<^verbatim>\<open>try\<close> block of the custom VibeVoice loader. Both branches
  (streaming and standard classes) have the same shape:
  \<^verbatim>\<open>
  processor = ...Processor.from_pretrained(model_path)
  try:
      model = ...Inference.from_pretrained(model_path, torch_dtype=load_dtype,
                  device_map=device_map, attn_implementation=attn_impl)
      if device == "mps": model.to("mps")
  except Exception as e:
      if attn_impl == 'flash_attention_2':
          model = ...Inference.from_pretrained(model_path, torch_dtype=load_dtype,
                      device_map=device if device != "mps" else None,
                      attn_implementation='sdpa')
          if device == "mps": model.to("mps")
      else:
          raise e
  model_type_tag = "vibevoice_streaming"      # or "vibevoice_standard"
  ...
  model.eval()
  \<close>
\<close>

definition load_vibevoice :: "loader_env \<Rightarrow> string \<Rightarrow> string \<Rightarrow> string \<Rightarrow> loaded_obj comp" where
  "load_vibevoice env model_name model_path device =
     (let load_dtype = (if device = ''cuda'' then ''bfloat16'' else ''float32'');
          device_map = (if device = ''mps'' then None
                        else if device = ''cuda'' then Some ''cuda'' else Some ''cpu'');
          attn_impl = (if device = ''cuda'' then ''flash_attention_2'' else ''sdpa'');
          is_realtime = is_realtime_name model_name
      in
      and_then (call (LoadProcessor model_path)
                  (processor_from_pretrained env is_realtime model_path)) (\<lambda>processor.
      and_then
        (case model_from_pretrained env is_realtime model_path load_dtype device_map attn_impl of
           Inr model \<Rightarrow> ([LoadModel model_path attn_impl], Inr model)
         | Inl e \<Rightarrow>
             if attn_impl = ''flash_attention_2'' then
               ([LoadModel model_path attn_impl, LoadModel model_path ''sdpa''],
                model_from_pretrained env is_realtime model_path load_dtype
                  (if device \<noteq> ''mps'' then Some device else None) ''sdpa'')
             else ([LoadModel model_path attn_impl], Inl e)) (\<lambda>model.
      and_then
        (case model_eval env model of None \<Rightarrow> ret () | Some e \<Rightarrow> raise e) (\<lambda>_.
      ret \<lparr>lo_model = model, lo_processor = Some processor, lo_type = ''vibevoice'',
           lo_subtype = Some (if is_realtime then ''vibevoice_streaming''
                              else ''vibevoice_standard'')\<rparr>))))"

text \<open>
  The fallback for other models:
  \<^verbatim>\<open>
  try:
      pipe = pipeline("text-to-speech", model=model_path, device=device)
      LOADED_MODELS[model_name] = {"model": pipe, "type": "pipeline"}
      return LOADED_MODELS[model_name]
  except Exception as e:
      pipe = pipeline("text-to-speech", model=model_path, device="cpu")
      LOADED_MODELS[model_name] = {"model": pipe, "type": "pipeline"}
      return LOADED_MODELS[model_name]
  \<close>
\<close>

definition load_pipeline :: "loader_env \<Rightarrow> string \<Rightarrow> string \<Rightarrow> loaded_obj comp" where
  "load_pipeline env model_path device =
     (let entry = (\<lambda>pipe. \<lparr>lo_model = pipe, lo_processor = None, lo_type = ''pipeline'',
                          lo_subtype = None\<rparr>)
      in
      case pipeline env model_path device of
        Inr pipe \<Rightarrow> ([LoadPipeline model_path device], Inr (entry pipe))
      | Inl e \<Rightarrow>
          ([LoadPipeline model_path device, LoadPipeline model_path ''cpu''],
           map_sum id entry (pipeline_retry env model_path)))"

text \<open>
  \<^verbatim>\<open>
  def load_model_pipeline(model_name: str):
      if model_name in LOADED_MODELS:
          return LOADED_MODELS[model_name]
      if len(LOADED_MODELS) > 0:
          LOADED_MODELS.clear()
          ... (release of the accelerator's memory)
      ... (model path, device)
      if "VibeVoice" in model_name and VIBEVOICE_AVAILABLE:
          try:
               ... (custom loader)
               LOADED_MODELS[model_name] = {...}
               return LOADED_MODELS[model_name]
          except Exception as e:
               raise Exception(f"Failed to load VibeVoice model: {e}")
      ... (pipeline fallback)
  \<close>
  The function returns the cache after the call, the events of the call, and the
  handle or the exception.
\<close>

definition load_model_pipeline ::
  "loader_env \<Rightarrow> string \<Rightarrow> model_cache \<Rightarrow> model_cache \<times> loaded_obj comp" where
  "load_model_pipeline env model_name LOADED_MODELS =
     (case map_of LOADED_MODELS model_name of
        Some obj \<Rightarrow> (LOADED_MODELS, [], Inr obj)
      | None \<Rightarrow>
          (let evicted = (if length LOADED_MODELS > 0
                          then ([], CacheCleared # release_events env)
                          else (LOADED_MODELS, []));
               model_path = resolve_model_path env model_name;
               device = get_compute_device env
           in
           if contains model_name ''VibeVoice'' \<and> VIBEVOICE_AVAILABLE env then
             (case load_vibevoice env model_name model_path device of
                (es, Inr obj) \<Rightarrow>
                  (dict_set model_name obj (fst evicted),
                   snd evicted @ es @ [CacheStored model_name], Inr obj)
              | (es, Inl e) \<Rightarrow>
                  (fst evicted, snd evicted @ es,
                   Inl (Exception (''Failed to load VibeVoice model: '' @ str_exc e))))
           else
             (case load_pipeline env model_path device of
                (es, Inr obj) \<Rightarrow>
                  (dict_set model_name obj (fst evicted),
                   snd evicted @ es @ [CacheStored model_name], Inr obj)
              | (es, Inl e) \<Rightarrow> (fst evicted, snd evicted @ es, Inl e))))"

text \<open>
  The caches that a worker process can hold: \<^verbatim>\<open>LOADED_MODELS = {}\<close> when the module is
  loaded, and nothing but \<^verbatim>\<open>load_model_pipeline\<close> writes to it afterwards.
\<close>

inductive reachable_cache :: "model_cache \<Rightarrow> bool" where
  initial: "reachable_cache []"
| after_load:
    "reachable_cache c \<Longrightarrow> load_model_pipeline env model_name c = (c', es, r) \<Longrightarrow>
       reachable_cache c'"

text \<open>The events of a load from disk: the calls of \<^verbatim>\<open>from_pretrained\<close> and \<^verbatim>\<open>pipeline\<close>.\<close>

fun is_load_event :: "event \<Rightarrow> bool" where
  "is_load_event (LoadProcessor p) = True"
| "is_load_event (LoadModel p a) = True"
| "is_load_event (LoadPipeline p d) = True"
| "is_load_event ev = False"

section \<open>Conversion to 16-bit PCM (tasks.py)\<close>

text \<open>
  A sample of the audio array: a number of the array's floating-point format, an
  infinity, or NaN. (After \<^verbatim>\<open>audio.cpu().float().numpy()\<close> the format is IEEE binary32.)
  The two zeros of the format are one value here, \<open>Finite 0\<close>: the conversion does not
  tell them apart.
\<close>

datatype sample = Finite real | PosInf | NegInf | NaN

text \<open>
  The arithmetic of the format. The exact result of an operation is rounded to a number
  of the format (\<open>fround\<close>), and a rounded result beyond the largest number of the format
  (\<open>fmax\<close>) is an infinity. The format belongs to the array that the model returns, so it
  is a parameter.
\<close>

record float_format =
  fround :: "real \<Rightarrow> real"
  fmax :: real

definition to_format :: "float_format \<Rightarrow> real \<Rightarrow> sample" where
  "to_format fmt x =
     (let y = fround fmt x in
      if fmax fmt < y then PosInf
      else if y < - fmax fmt then NegInf
      else Finite y)"

text \<open>\<^verbatim>\<open>np.abs\<close> on one sample\<close>

fun np_abs :: "sample \<Rightarrow> sample" where
  "np_abs (Finite x) = Finite \<bar>x\<bar>"
| "np_abs PosInf = PosInf"
| "np_abs NegInf = PosInf"
| "np_abs NaN = NaN"

text \<open>
  \<^verbatim>\<open>np.max(a)\<close>: NaN if the array holds a NaN, else its largest element; numpy raises a
  \<^verbatim>\<open>ValueError\<close> on an array without elements.
\<close>

definition finite_values :: "sample list \<Rightarrow> real list" where
  "finite_values a = concat (map (\<lambda>s. case s of Finite x \<Rightarrow> [x] | _ \<Rightarrow> []) a)"

definition np_max :: "sample list \<Rightarrow> py_exception + sample" where
  "np_max a =
     (if a = [] then
        Inl (ValueError ''zero-size array to reduction operation maximum which has no identity'')
      else Inr (if NaN \<in> set a then NaN
                else if PosInf \<in> set a then PosInf
                else if finite_values a = [] then NegInf
                else Finite (Max (set (finite_values a)))))"

text \<open>\<^verbatim>\<open>np.max(np.abs(audio_data))\<close>\<close>

definition peak :: "sample list \<Rightarrow> py_exception + sample" where
  "peak audio_data = np_max (map np_abs audio_data)"

text \<open>\<^verbatim>\<open>m > 0\<close>: false for NaN.\<close>

fun greater_than_zero :: "sample \<Rightarrow> bool" where
  "greater_than_zero (Finite x) = (0 < x)"
| "greater_than_zero PosInf = True"
| "greater_than_zero NegInf = False"
| "greater_than_zero NaN = False"

text \<open>
  \<^verbatim>\<open>x / m\<close> for one sample and a divisor other than zero: the rounded quotient of two
  numbers, and the rules of IEEE arithmetic for the infinities and NaN.
\<close>

fun np_divide :: "float_format \<Rightarrow> sample \<Rightarrow> sample \<Rightarrow> sample" where
  "np_divide fmt (Finite x) (Finite m) = to_format fmt (x / m)"
| "np_divide fmt (Finite x) PosInf = Finite 0"
| "np_divide fmt (Finite x) NegInf = Finite 0"
| "np_divide fmt PosInf (Finite m) = (if 0 < m then PosInf else NegInf)"
| "np_divide fmt NegInf (Finite m) = (if 0 < m then NegInf else PosInf)"
| "np_divide fmt PosInf PosInf = NaN"
| "np_divide fmt PosInf NegInf = NaN"
| "np_divide fmt NegInf PosInf = NaN"
| "np_divide fmt NegInf NegInf = NaN"
| "np_divide fmt NaN m = NaN"
| "np_divide fmt (Finite x) NaN = NaN"
| "np_divide fmt PosInf NaN = NaN"
| "np_divide fmt NegInf NaN = NaN"

text \<open>
  \<^verbatim>\<open>audio_data / m\<close>. With \<open>m = 0\<close> numpy would not raise: it would warn and fill the
  array with NaN and infinities. The model marks that case by an error value of its
  own, so that a theorem can say it never occurs.
\<close>

definition divide_samples ::
  "float_format \<Rightarrow> sample list \<Rightarrow> sample \<Rightarrow> py_exception + sample list" where
  "divide_samples fmt audio_data m =
     (if m = Finite 0 then Inl (ZeroDivisionError ''divide by zero encountered in divide'')
      else Inr (map (\<lambda>x. np_divide fmt x m) audio_data))"

text \<open>\<^verbatim>\<open>x * 32767\<close> for one sample: 32767 is a number of the array's format.\<close>

fun times_32767 :: "float_format \<Rightarrow> sample \<Rightarrow> sample" where
  "times_32767 fmt (Finite x) = to_format fmt (x * 32767)"
| "times_32767 fmt PosInf = PosInf"
| "times_32767 fmt NegInf = NegInf"
| "times_32767 fmt NaN = NaN"

text \<open>
  \<^verbatim>\<open>x.astype(np.int16)\<close> for one sample: the fraction of a number is cut off. When the
  integer does not fit into 16 bits, and for an infinity and NaN, the conversion is
  undefined in C and numpy yields what the machine yields: \<open>cast_invalid\<close>, a parameter.
\<close>

definition astype_int16 :: "(sample \<Rightarrow> 16 word) \<Rightarrow> sample \<Rightarrow> 16 word" where
  "astype_int16 cast_invalid s =
     (case s of
        Finite y \<Rightarrow> if - 32769 < y \<and> y < 32768 then word_of_int (py_int y) else cast_invalid s
      | _ \<Rightarrow> cast_invalid s)"

text \<open>
  \<^verbatim>\<open>
  if np.max(np.abs(audio_data)) > 0:
      audio_data = audio_data / np.max(np.abs(audio_data))
  audio_data = (audio_data * 32767).astype(np.int16)
  \<close>
\<close>

definition to_pcm16 ::
  "float_format \<Rightarrow> (sample \<Rightarrow> 16 word) \<Rightarrow> sample list \<Rightarrow> py_exception + 16 word list" where
  "to_pcm16 fmt cast_invalid audio_data =
     (case peak audio_data of
        Inl e \<Rightarrow> Inl e
      | Inr m \<Rightarrow>
          (case (if greater_than_zero m then divide_samples fmt audio_data m
                 else Inr audio_data) of
             Inl e \<Rightarrow> Inl e
           | Inr normalized \<Rightarrow>
               Inr (map (\<lambda>x. astype_int16 cast_invalid (times_32767 fmt x)) normalized)))"

text \<open>
  What the theorems on the conversion ask of the format: rounding is monotone and
  symmetric, it leaves 1 and 32767 as they are (they are numbers of the format), and
  32767 is within the range. IEEE binary32 and binary64, rounding to nearest, are such
  formats; binary16 is not (32767 is no number of it).
\<close>

definition rounds_to_nearest :: "float_format \<Rightarrow> bool" where
  "rounds_to_nearest fmt \<longleftrightarrow>
     mono (fround fmt) \<and> (\<forall>x. fround fmt (- x) = - fround fmt x)
     \<and> fround fmt 1 = 1 \<and> fround fmt 32767 = 32767 \<and> 32767 \<le> fmax fmt"

text \<open>The largest absolute value of a list of numbers: the peak of an array of numbers.\<close>

definition max_abs :: "real list \<Rightarrow> real" where
  "max_abs xs = Max (set (map abs xs))"

text \<open>
  Stand-ins for the two parameters, for evaluating the conversion: a format that rounds
  nothing within the range of binary32, and a machine whose undefined conversions
  yield 0.
\<close>

definition demo_format :: float_format where
  "demo_format = \<lparr>fround = (\<lambda>x. x), fmax = 340282346638528859811704183484516925440\<rparr>"

definition demo_cast :: "sample \<Rightarrow> 16 word" where
  "demo_cast s = 0"

section \<open>The worker task (tasks.py)\<close>

text \<open>
  The arguments of the synthesis call. On both paths the call stands for the lines from
  \<^verbatim>\<open>processor(...)\<close> (with \<^verbatim>\<open>text.strip()\<close>) to \<^verbatim>\<open>model.generate(...)\<close>;
  \<open>sq_stop_check\<close> says whether \<^verbatim>\<open>stop_check_fn\<close> is handed to \<^verbatim>\<open>generate\<close>. The
  result is \<^verbatim>\<open>outputs.speech_outputs\<close>, each entry flattened to its samples.
\<close>

record synth_request =
  sq_model :: loaded_obj
  sq_realtime :: bool
  sq_text :: string
  sq_cached_prompt :: "handle option"
  sq_voice_samples :: "string list"
  sq_cfg_scale :: real
  sq_num_steps :: int
  sq_stop_check :: bool

text \<open>
  The surroundings of one run of the task: \<^verbatim>\<open>self.request.id\<close>, the directory of
  \<^verbatim>\<open>tasks.py\<close>, and the result of every call that leaves the program.
  \<open>import_transformers\<close> is the exception of the imports at the head of the function
  (\<^verbatim>\<open>from transformers import ...\<close>), if they raise one. \<open>round_duration n r\<close> is
  \<^verbatim>\<open>round(n / r, 2)\<close> for two integers, as Python's binary floating-point arithmetic
  computes it. \<open>np_format\<close> and \<open>cast_invalid\<close> are the floating-point format of the
  audio array and the machine's result of an undefined conversion to 16 bits.
\<close>

record task_env =
  request_id :: "string option"
  import_transformers :: "py_exception option"
  backend_dir :: string
  backend_get :: "string \<Rightarrow> py_exception + string option"
  voice_file_exists :: "string \<Rightarrow> bool"
  listdir :: "string \<Rightarrow> py_exception + string list"
  torch_load :: "string \<Rightarrow> py_exception + handle"
  synthesize :: "synth_request \<Rightarrow> py_exception + sample list list"
  pipe_call :: "handle \<Rightarrow> string \<Rightarrow> py_exception + sample list \<times> nat"
  client_exists :: "string \<Rightarrow> py_exception + bool"
  async_result_state :: "string \<Rightarrow> py_exception + string"
  round_duration :: "nat \<Rightarrow> nat \<Rightarrow> real"
  np_format :: float_format
  cast_invalid :: "sample \<Rightarrow> 16 word"
  uuid4 :: string
  utcnow_isoformat :: string
  wavfile_write :: "string \<Rightarrow> nat \<Rightarrow> 16 word list \<Rightarrow> py_exception option"
  db_commit :: "AudioHistory \<Rightarrow> py_exception + nat"

text \<open>A stage of the task either returns from the task or hands a value to the next stage.\<close>

datatype 'a flow = Return task_result | Continue 'a

text \<open>\<^verbatim>\<open>if self.request.id\<close>: the id when it is neither \<^verbatim>\<open>None\<close> nor empty.\<close>

definition own_id :: "task_env \<Rightarrow> string option" where
  "own_id env = (case request_id env of None \<Rightarrow> None | Some i \<Rightarrow> if i = [] then None else Some i)"

text \<open>\<^verbatim>\<open>f"{speaker}"\<close> for an optional string\<close>

definition str_opt :: "string option \<Rightarrow> string" where
  "str_opt s = (case s of None \<Rightarrow> ''None'' | Some x \<Rightarrow> x)"

text \<open>
  The check before synthesis:
  \<^verbatim>\<open>
  if self.request.id and celery_app.backend.get(f'celery-task-meta-{self.request.id}'):
      task_meta = celery_app.backend.get(f'celery-task-meta-{self.request.id}')
      if task_meta and b'REVOKED' in task_meta:
          return {'status': 'cancelled', 'message': 'Task was cancelled'}
  \<close>
  The value is whether the task returns here.
\<close>

definition revoked_before_synthesis :: "task_env \<Rightarrow> bool comp" where
  "revoked_before_synthesis env =
     (case own_id env of
        None \<Rightarrow> ret False
      | Some i \<Rightarrow>
          and_then (call (BackendGet (''celery-task-meta-'' @ i))
                      (backend_get env (''celery-task-meta-'' @ i))) (\<lambda>first.
          if first = None \<or> first = Some [] then ret False
          else
            and_then (call (BackendGet (''celery-task-meta-'' @ i))
                        (backend_get env (''celery-task-meta-'' @ i))) (\<lambda>task_meta.
            ret (case task_meta of
                   None \<Rightarrow> False
                 | Some b \<Rightarrow> b \<noteq> [] \<and> contains b ''REVOKED''))))"

text \<open>
  \<^verbatim>\<open>
  # Security: Validate speaker name to prevent path traversal
  if speaker and os.path.basename(speaker) != speaker:
      raise ValueError(f"Invalid speaker name: {speaker}")
  \<close>
\<close>

definition validate_speaker :: "string option \<Rightarrow> unit comp" where
  "validate_speaker speaker =
     (case speaker of
        None \<Rightarrow> ret ()
      | Some s \<Rightarrow>
          if s \<noteq> [] \<and> basename s \<noteq> s then raise (ValueError (''Invalid speaker name: '' @ s))
          else ret ())"

text \<open>
  The voice of the streaming model: the cached prompt
  \<^verbatim>\<open>VibeVoice1.5/demo/voices/streaming_model/<speaker>.pt\<close>, or a \<^verbatim>\<open>ValueError\<close>.
\<close>

definition resolve_voice_realtime :: "task_env \<Rightarrow> string option \<Rightarrow> handle comp" where
  "resolve_voice_realtime env speaker =
     (case speaker of
        None \<Rightarrow> raise (ValueError ''Speaker/voice must be specified for VibeVoice Realtime model'')
      | Some s \<Rightarrow>
          if s = [] then
            raise (ValueError ''Speaker/voice must be specified for VibeVoice Realtime model'')
          else
            (let voice_dir = os_path_join (backend_dir env)
                               ''VibeVoice1.5/demo/voices/streaming_model'';
                 voice_file = os_path_join voice_dir (s @ ''.pt'')
             in
             and_then (call (PathExists voice_file) (Inr (voice_file_exists env voice_file)))
               (\<lambda>found.
                  if found then call (TorchLoad voice_file) (torch_load env voice_file)
                  else raise (ValueError (''Voice file not found: '' @ voice_file)))))"

text \<open>
  The voice of the standard model: \<^verbatim>\<open>VibeVoice1.5/demo/voices/<speaker>.wav\<close> if it
  exists, else the first file of the directory that starts with the speaker's name and
  ends with \<^verbatim>\<open>.wav\<close>, else a \<^verbatim>\<open>ValueError\<close>; no voice sample without a speaker.
\<close>

definition resolve_voice_standard :: "task_env \<Rightarrow> string option \<Rightarrow> string list comp" where
  "resolve_voice_standard env speaker =
     (case speaker of
        None \<Rightarrow> ret []
      | Some s \<Rightarrow>
          if s = [] then ret []
          else
            (let voice_dir = os_path_join (backend_dir env) ''VibeVoice1.5/demo/voices'';
                 voice_file = os_path_join voice_dir (s @ ''.wav'')
             in
             and_then (call (PathExists voice_file) (Inr (voice_file_exists env voice_file)))
               (\<lambda>found.
                  if found then ret [voice_file]
                  else
                    and_then (call (ListDir voice_dir) (listdir env voice_dir)) (\<lambda>files.
                    case find (\<lambda>f. startswith f s \<and> endswith f ''.wav'') files of
                      Some f \<Rightarrow> ret [os_path_join voice_dir f]
                    | None \<Rightarrow>
                        raise (ValueError (''Voice file for speaker '' @ s @ '' not found.''))))))"

text \<open>
  The check after synthesis:
  \<^verbatim>\<open>
  if self.request.id and celery_app.backend.client.exists(f"task_cancelled:{self.request.id}"):
       return {'status': 'cancelled', 'message': 'Task was cancelled during generation'}
  \<close>
\<close>

definition cancelled_during_generation :: "task_env \<Rightarrow> bool comp" where
  "cancelled_during_generation env =
     (case own_id env of
        None \<Rightarrow> ret False
      | Some i \<Rightarrow> call (ClientExists (''task_cancelled:'' @ i))
                    (client_exists env (''task_cancelled:'' @ i)))"

text \<open>
  \<^verbatim>\<open>
  if outputs.speech_outputs and len(outputs.speech_outputs) > 0:
      audio = outputs.speech_outputs[0]
      ...
      audio_data = audio.flatten()
      sampling_rate = 24000
  else:
      raise ValueError("No audio generated.")
  \<close>
\<close>

definition first_speech_output :: "sample list list \<Rightarrow> (sample list \<times> nat) comp" where
  "first_speech_output speech_outputs =
     (case speech_outputs of
        [] \<Rightarrow> raise (ValueError ''No audio generated.'')
      | audio # rest \<Rightarrow> ret (audio, 24000))"

text \<open>
  The branch \<^verbatim>\<open>if loaded_obj["type"] == "vibevoice"\<close>, up to the return of
  \<^verbatim>\<open>model.generate\<close>: the speaker's name is checked, the voice is looked up, and the
  model synthesizes, with \<^verbatim>\<open>inference_steps or 5\<close> steps.
\<close>

definition synthesize_vibevoice ::
  "task_env \<Rightarrow> loaded_obj \<Rightarrow> string \<Rightarrow> string \<Rightarrow> string option \<Rightarrow> real \<Rightarrow> int
     \<Rightarrow> sample list list comp" where
  "synthesize_vibevoice env loaded text model_name speaker cfg_scale inference_steps =
     and_then (validate_speaker speaker) (\<lambda>_.
     if is_realtime_name model_name then
       and_then (resolve_voice_realtime env speaker) (\<lambda>prefilled_outputs.
       call (Synthesize True)
         (synthesize env
            \<lparr>sq_model = loaded, sq_realtime = True, sq_text = text,
             sq_cached_prompt = Some prefilled_outputs, sq_voice_samples = [],
             sq_cfg_scale = cfg_scale,
             sq_num_steps = (if inference_steps = 0 then 5 else inference_steps),
             sq_stop_check = True\<rparr>))
     else
       and_then (resolve_voice_standard env speaker) (\<lambda>voice_samples.
       call (Synthesize False)
         (synthesize env
            \<lparr>sq_model = loaded, sq_realtime = False, sq_text = text,
             sq_cached_prompt = None, sq_voice_samples = voice_samples,
             sq_cfg_scale = cfg_scale,
             sq_num_steps = (if inference_steps = 0 then 5 else inference_steps),
             sq_stop_check = False\<rparr>)))"

text \<open>
  The whole branch: after the synthesis the cancellation marker is checked, and the
  first output is taken.
\<close>

definition run_vibevoice ::
  "task_env \<Rightarrow> loaded_obj \<Rightarrow> string \<Rightarrow> string \<Rightarrow> string option \<Rightarrow> real \<Rightarrow> int
     \<Rightarrow> (sample list \<times> nat) flow comp" where
  "run_vibevoice env loaded text model_name speaker cfg_scale inference_steps =
     and_then (synthesize_vibevoice env loaded text model_name speaker cfg_scale inference_steps)
       (\<lambda>speech_outputs.
     and_then (cancelled_during_generation env) (\<lambda>cancelled.
     if cancelled then ret (Return (Cancelled ''Task was cancelled during generation''))
     else and_then (first_speech_output speech_outputs) (\<lambda>audio. ret (Continue audio))))"

text \<open>
  The other branch:
  \<^verbatim>\<open>
  pipe = loaded_obj["model"]
  output = pipe(text)
  audio_data = output["audio"]
  sampling_rate = output["sampling_rate"]
  \<close>
\<close>

definition run_pipeline ::
  "task_env \<Rightarrow> loaded_obj \<Rightarrow> string \<Rightarrow> (sample list \<times> nat) flow comp" where
  "run_pipeline env loaded text =
     and_then (call PipeCall (pipe_call env (lo_model loaded) text)) (\<lambda>output.
     ret (Continue output))"

text \<open>
  The check before saving; the bare \<^verbatim>\<open>except\<close> swallows every exception of the read:
  \<^verbatim>\<open>
  if self.request.id:
      try:
          task_result = celery_app.AsyncResult(self.request.id)
          if task_result.state == 'REVOKED':
              return {'status': 'cancelled', 'message': 'Task was cancelled'}
      except:
          pass
  \<close>
\<close>

definition revoked_before_saving :: "task_env \<Rightarrow> bool comp" where
  "revoked_before_saving env =
     (case own_id env of
        None \<Rightarrow> ret False
      | Some i \<Rightarrow>
          ([AsyncResultState i],
           Inr (case async_result_state env i of
                  Inl e \<Rightarrow> False
                | Inr state \<Rightarrow> state = ''REVOKED'')))"

text \<open>
  The database session: the row is added and committed, the session is closed in the
  \<^verbatim>\<open>finally\<close> clause, and the result is built from the stored row.
\<close>

definition store_history :: "task_env \<Rightarrow> AudioHistory \<Rightarrow> task_result comp" where
  "store_history env db_item =
     (case db_commit env db_item of
        Inl e \<Rightarrow> ([DbAdd db_item, DbClose], Inl e)
      | Inr new_id \<Rightarrow>
          ([DbAdd db_item, DbClose],
           Inr (Completed
             \<lparr>res_id = new_id, res_text_input = ah_text_input db_item,
              res_file_path = ah_file_path db_item, res_model_name = ah_model_name db_item,
              res_speaker = ah_speaker db_item, res_cfg_scale = ah_cfg_scale db_item,
              res_inference_steps = ah_inference_steps db_item,
              res_duration = ah_duration db_item, res_timestamp = ah_timestamp db_item\<rparr>)))"

text \<open>
  From \<^verbatim>\<open>self.update_state(state='PROGRESS', meta={'status': 'Saving audio file...'})\<close>
  to \<^verbatim>\<open>return result\<close>: the duration \<^verbatim>\<open>round(n_frames / sampling_rate, 2)\<close> (a
  \<^verbatim>\<open>ZeroDivisionError\<close> for the rate 0), the conversion to 16-bit PCM, the audio file
  under a fresh name, and the history row.
\<close>

definition save_audio ::
  "task_env \<Rightarrow> string \<Rightarrow> string \<Rightarrow> string option \<Rightarrow> real \<Rightarrow> int \<Rightarrow> int \<Rightarrow> sample list \<Rightarrow> nat
     \<Rightarrow> task_result comp" where
  "save_audio env text model_name speaker cfg_scale inference_steps user_id audio_data
       sampling_rate =
     and_then (emit (UpdateState ''PROGRESS'' ''Saving audio file...'')) (\<lambda>_.
     and_then
       (if sampling_rate = 0 then raise (ZeroDivisionError ''division by zero'')
        else ret (round_duration env (length audio_data) sampling_rate)) (\<lambda>duration_sec.
     and_then ([], to_pcm16 (np_format env) (cast_invalid env) audio_data) (\<lambda>pcm.
     let filename = ''audio_'' @ uuid4 env @ ''.wav'';
         file_path = os_path_join AUDIO_DIR filename;
         web_path = ''/static/'' @ filename
     in
     and_then
       (case wavfile_write env file_path sampling_rate pcm of
          None \<Rightarrow> emit (WavWrite file_path sampling_rate pcm)
        | Some e \<Rightarrow> ([WavWrite file_path sampling_rate pcm], Inl e)) (\<lambda>_.
     store_history env
       \<lparr>ah_text_input = text, ah_file_path = web_path, ah_model_name = model_name,
        ah_speaker = speaker, ah_cfg_scale = cfg_scale, ah_inference_steps = inference_steps,
        ah_duration = duration_sec, ah_timestamp = utcnow_isoformat env,
        ah_user_id = user_id\<rparr>))))"

text \<open>The task after \<^verbatim>\<open>loaded_obj = load_model_pipeline(model_name)\<close> has returned.\<close>

definition after_load ::
  "task_env \<Rightarrow> loaded_obj \<Rightarrow> string \<Rightarrow> string \<Rightarrow> string option \<Rightarrow> real \<Rightarrow> int \<Rightarrow> int
     \<Rightarrow> task_result comp" where
  "after_load env loaded text model_name speaker cfg_scale inference_steps user_id =
     and_then (emit (UpdateState ''PROGRESS'' (''Configuring voice: '' @ str_opt speaker @ ''...'')))
       (\<lambda>_.
     and_then (revoked_before_synthesis env) (\<lambda>revoked.
     if revoked then ret (Cancelled ''Task was cancelled'')
     else
       and_then (emit (UpdateState ''PROGRESS'' ''Synthesizing audio...'')) (\<lambda>_.
       and_then
         (if lo_type loaded = ''vibevoice''
          then run_vibevoice env loaded text model_name speaker cfg_scale inference_steps
          else run_pipeline env loaded text) (\<lambda>outcome.
       case outcome of
         Return result \<Rightarrow> ret result
       | Continue (audio_data, sampling_rate) \<Rightarrow>
           and_then (revoked_before_saving env) (\<lambda>revoked.
           if revoked then ret (Cancelled ''Task was cancelled'')
           else save_audio env text model_name speaker cfg_scale inference_steps user_id
                  audio_data sampling_rate)))))"

text \<open>
  The body of the \<^verbatim>\<open>try\<close> block: the first progress note, the model from the cache,
  and the rest. It yields the cache after the run, the events, and the returned
  dictionary or the exception that leaves the block.
\<close>

definition task_body ::
  "task_env \<Rightarrow> loader_env \<Rightarrow> model_cache \<Rightarrow> string \<Rightarrow> string \<Rightarrow> string option \<Rightarrow> real \<Rightarrow> int
     \<Rightarrow> int \<Rightarrow> model_cache \<times> task_result comp" where
  "task_body env lenv LOADED_MODELS text model_name speaker cfg_scale inference_steps user_id =
     (case load_model_pipeline lenv model_name LOADED_MODELS of
        (cache, loading) \<Rightarrow>
          (cache,
           and_then (emit (UpdateState ''PROGRESS'' ''Loading model...'')) (\<lambda>_.
           and_then loading (\<lambda>loaded_obj.
           after_load env loaded_obj text model_name speaker cfg_scale inference_steps
             user_id))))"

text \<open>
  The two handlers at the end of the task:
  \<^verbatim>\<open>
  except SoftTimeLimitExceeded:
      return {'status': 'timeout', 'message': 'Task exceeded time limit'}
  except Exception as e:
      error_msg = f"Generation failed: {str(e)}"
      traceback.print_exc()
      return {'status': 'error', 'message': error_msg}
  \<close>
\<close>

fun on_exception :: "py_exception \<Rightarrow> event list \<times> task_result" where
  "on_exception (SoftTimeLimitExceeded m) = ([], Timeout ''Task exceeded time limit'')"
| "on_exception e = ([PrintTraceback], Error (''Generation failed: '' @ str_exc e))"

text \<open>
  \<^verbatim>\<open>generate_audio_task\<close> from its \<^verbatim>\<open>try\<close> statement on: the cache after the run,
  the events of the run, and the dictionary that the task returns. The run is that of a
  queued job: \<^verbatim>\<open>self.update_state\<close> is recorded as an event and its write to the
  result backend is taken to succeed, as are the imports inside the block
  (\<^verbatim>\<open>from main import ...\<close>).
\<close>

definition generate_audio_task ::
  "task_env \<Rightarrow> loader_env \<Rightarrow> model_cache \<Rightarrow> string \<Rightarrow> string \<Rightarrow> string option \<Rightarrow> real \<Rightarrow> int
     \<Rightarrow> int \<Rightarrow> model_cache \<times> event list \<times> task_result" where
  "generate_audio_task env lenv LOADED_MODELS text model_name speaker cfg_scale inference_steps
       user_id =
     (case task_body env lenv LOADED_MODELS text model_name speaker cfg_scale inference_steps
             user_id of
        (cache, es, Inr result) \<Rightarrow> (cache, es, result)
      | (cache, es, Inl e) \<Rightarrow> (cache, es @ fst (on_exception e), snd (on_exception e)))"

text \<open>
  The task from its first line. The imports at the head of the function stand before
  the \<^verbatim>\<open>try\<close> statement:
  \<^verbatim>\<open>
  from transformers import StoppingCriteria, StoppingCriteriaList
  from transformers.modeling_outputs import BaseModelOutputWithPast
  from transformers.cache_utils import DynamicCache
  \<close>
  An exception of theirs is caught by no handler of the task and leaves it (\<open>Inl\<close>).
\<close>

definition generate_audio_task_entry ::
  "task_env \<Rightarrow> loader_env \<Rightarrow> model_cache \<Rightarrow> string \<Rightarrow> string \<Rightarrow> string option \<Rightarrow> real \<Rightarrow> int
     \<Rightarrow> int \<Rightarrow> py_exception + model_cache \<times> event list \<times> task_result" where
  "generate_audio_task_entry env lenv LOADED_MODELS text model_name speaker cfg_scale
       inference_steps user_id =
     (case import_transformers env of
        Some e \<Rightarrow> Inl e
      | None \<Rightarrow>
          Inr (generate_audio_task env lenv LOADED_MODELS text model_name speaker cfg_scale
                 inference_steps user_id))"

text \<open>A store with a running job and a finished one, for evaluating the endpoints.\<close>

definition demo_store :: store where
  "demo_store =
     \<lparr>meta = (\<lambda>k.
        if k = ''job-1'' then
          Some \<lparr>tm_state = ''PROGRESS'', tm_progress_status = Some ''Synthesizing audio...'',
                tm_result = None, tm_info_str = ''{}''\<rparr>
        else if k = ''job-2'' then
          Some \<lparr>tm_state = ''SUCCESS'', tm_progress_status = None,
                tm_result = Some (Cancelled ''Task was cancelled''), tm_info_str = ''{}''\<rparr>
        else None),
      keys = (\<lambda>k. None)\<rparr>"

text \<open>A machine with a CUDA device where flash attention is missing, and two entries of the
  cache, for evaluating the loader.\<close>

definition demo_loader :: loader_env where
  "demo_loader =
     \<lparr>cuda_is_available = True, mps_is_available = False, VIBEVOICE_AVAILABLE = True,
      current_dir = ''/app'', models_path_exists = (\<lambda>p. True),
      processor_from_pretrained = (\<lambda>rt p. Inr 1),
      model_from_pretrained = (\<lambda>rt p dt dm attn.
         if attn = ''flash_attention_2'' then Inl (Exception ''flash_attn is not installed'')
         else Inr 2),
      model_eval = (\<lambda>m. None),
      pipeline = (\<lambda>p d. Inr 3),
      pipeline_retry = (\<lambda>p. Inr 3)\<rparr>"

definition demo_entry :: loaded_obj where
  "demo_entry = \<lparr>lo_model = 3, lo_processor = None, lo_type = ''pipeline'', lo_subtype = None\<rparr>"

definition demo_vibevoice_entry :: loaded_obj where
  "demo_vibevoice_entry = \<lparr>lo_model = 2, lo_processor = Some 1, lo_type = ''vibevoice'',
     lo_subtype = Some ''vibevoice_standard''\<rparr>"

section \<open>Kinds of events\<close>

text \<open>The look-ups of a voice file: \<^verbatim>\<open>os.path.exists\<close>, \<^verbatim>\<open>os.listdir\<close>, \<^verbatim>\<open>torch.load\<close>.\<close>

fun is_voice_lookup :: "event \<Rightarrow> bool" where
  "is_voice_lookup (PathExists p) = True"
| "is_voice_lookup (ListDir p) = True"
| "is_voice_lookup (TorchLoad p) = True"
| "is_voice_lookup ev = False"

text \<open>The calls of the model: \<^verbatim>\<open>model.generate\<close> and \<^verbatim>\<open>pipe(text)\<close>.\<close>

fun is_synthesis :: "event \<Rightarrow> bool" where
  "is_synthesis (Synthesize stop_check) = True"
| "is_synthesis PipeCall = True"
| "is_synthesis ev = False"

text \<open>The writes of an artifact: the audio file and the history row.\<close>

fun is_artifact_write :: "event \<Rightarrow> bool" where
  "is_artifact_write (WavWrite p r d) = True"
| "is_artifact_write (DbAdd row) = True"
| "is_artifact_write ev = False"

definition no_voice_lookup :: "event list \<Rightarrow> bool" where
  "no_voice_lookup es = list_all (\<lambda>ev. \<not> is_voice_lookup ev) es"

definition no_synthesis :: "event list \<Rightarrow> bool" where
  "no_synthesis es = list_all (\<lambda>ev. \<not> is_synthesis ev) es"

definition no_artifact_write :: "event list \<Rightarrow> bool" where
  "no_artifact_write es = list_all (\<lambda>ev. \<not> is_artifact_write ev) es"

text \<open>
  Surroundings for evaluating the task: a job with the id \<^verbatim>\<open>job-1\<close>, no record in the
  result backend, the cancellation marker present under every key, the voice
  \<^verbatim>\<open>en-Alice.wav\<close> on disk, a model that yields three samples, and a file system and a
  database that take every write. The duration is rounded to the nearest hundredth of
  the exact quotient (\<^verbatim>\<open>round(3 / 16000, 2)\<close> is \<^verbatim>\<open>0.0\<close>).
\<close>

definition demo_task_env :: task_env where
  "demo_task_env =
     \<lparr>request_id = Some ''job-1'', import_transformers = None, backend_dir = ''/app'',
      backend_get = (\<lambda>k. Inr None),
      voice_file_exists = (\<lambda>p. p = ''/app/VibeVoice1.5/demo/voices/en-Alice.wav''),
      listdir = (\<lambda>p. Inr []),
      torch_load = (\<lambda>p. Inr 4),
      synthesize = (\<lambda>q. Inr [[Finite (1 / 2), Finite (- 1), Finite (1 / 4)]]),
      pipe_call = (\<lambda>h t. Inr ([Finite (1 / 2), Finite (- 1), Finite (1 / 4)], 16000)),
      client_exists = (\<lambda>k. Inr True),
      async_result_state = (\<lambda>i. Inr ''STARTED''),
      round_duration = (\<lambda>n r. real_of_int \<lfloor>real n / real r * 100 + 1 / 2\<rfloor> / 100),
      np_format = demo_format, cast_invalid = demo_cast,
      uuid4 = ''6f1d'', utcnow_isoformat = ''2024-01-01T00:00:00'',
      wavfile_write = (\<lambda>p r d. None),
      db_commit = (\<lambda>row. Inr 42)\<rparr>"

text \<open>
  Variations. Celery raises the soft time limit as \<^verbatim>\<open>SoftTimeLimitExceeded()\<close>, whose
  \<^verbatim>\<open>str\<close> is empty. It strikes during the synthesis (\<open>demo_slow_env\<close>), while the
  processor of a VibeVoice model is loaded (\<open>demo_timeout_loader\<close>), or during the first
  call of \<^verbatim>\<open>pipeline\<close> (\<open>demo_retry_loader\<close>). On one machine the processor of a
  model cannot be loaded (\<open>demo_broken_loader\<close>), on another the accelerator is out of
  memory at the first call of \<^verbatim>\<open>pipeline\<close> (\<open>demo_small_loader\<close>), and in
  \<open>demo_import_env\<close> the import of \<^verbatim>\<open>transformers\<close> fails.
\<close>

definition demo_slow_env :: task_env where
  "demo_slow_env = demo_task_env\<lparr>synthesize := (\<lambda>q. Inl (SoftTimeLimitExceeded []))\<rparr>"

definition demo_broken_loader :: loader_env where
  "demo_broken_loader =
     demo_loader\<lparr>processor_from_pretrained := (\<lambda>rt p. Inl (Exception ''no such file''))\<rparr>"

definition demo_timeout_loader :: loader_env where
  "demo_timeout_loader =
     demo_loader\<lparr>processor_from_pretrained := (\<lambda>rt p. Inl (SoftTimeLimitExceeded []))\<rparr>"

definition demo_retry_loader :: loader_env where
  "demo_retry_loader = demo_loader\<lparr>pipeline := (\<lambda>p d. Inl (SoftTimeLimitExceeded []))\<rparr>"

definition demo_small_loader :: loader_env where
  "demo_small_loader = demo_loader\<lparr>pipeline := (\<lambda>p d. Inl (Exception ''CUDA out of memory''))\<rparr>"

definition demo_import_env :: task_env where
  "demo_import_env =
     demo_task_env\<lparr>import_transformers :=
       Some (Exception ''libcudart.so.12: cannot open shared object file'')\<rparr>"

text \<open>The exception that the first handler of the task catches.\<close>

fun is_soft_time_limit :: "py_exception \<Rightarrow> bool" where
  "is_soft_time_limit (SoftTimeLimitExceeded m) = True"
| "is_soft_time_limit e = False"

section \<open>Properties of the signed links\<close>

lemma hexdigest_length: "length (hexdigest d) = 64"
  by (simp add: hexdigest_def)

lemma hexdigest_nonempty: "hexdigest d \<noteq> []"
  using hexdigest_length [of d] by auto

lemma nibble_bound: "unat ((w :: 256 word) AND 15) < 16"
proof -
  have "w AND 15 \<le> 15" by (rule word_and_le1)
  then have "unat (w AND 15) \<le> unat (15 :: 256 word)" by (simp add: word_le_nat_alt)
  then show ?thesis by simp
qed

lemma hex_digit_ascii:
  assumes "n < 16"
  shows "(of_char (hex_digit n) :: nat) < 128"
proof -
  have all: "list_all (\<lambda>c. (of_char c :: nat) < 128) ''0123456789abcdef''" by simp
  have "n < length ''0123456789abcdef''" using assms by simp
  with all show ?thesis unfolding hex_digit_def list_all_length by blast
qed

lemma hexdigest_ascii: "is_ascii (hexdigest d)"
  by (simp add: is_ascii_def hexdigest_def list_all_iff hex_digit_ascii nibble_bound)

lemma signature_length: "length (create_access_signature mac filename expires) = 64"
  by (simp add: create_access_signature_def hexdigest_length)

lemma signature_nonempty: "create_access_signature mac filename expires \<noteq> []"
  by (simp add: create_access_signature_def hexdigest_nonempty)

lemma signature_ascii: "is_ascii (create_access_signature mac filename expires)"
  by (simp add: create_access_signature_def hexdigest_ascii)

lemma short_string_is_no_signature:
  assumes "length s \<noteq> 64"
  shows "s \<noteq> create_access_signature mac filename expires"
  using assms signature_length [of mac filename expires] by auto

lemma split_last_static:
  assumes "CHR ''/'' \<notin> set filename"
  shows "split_last CHR ''/'' (''/static/'' @ filename) = filename"
proof -
  have "takeWhile (\<lambda>c. c \<noteq> CHR ''/'') (rev filename @ rev ''/static/'')
      = rev filename @ takeWhile (\<lambda>c. c \<noteq> CHR ''/'') (rev ''/static/'')"
  proof (rule takeWhile_append2)
    fix x assume "x \<in> set (rev filename)"
    then show "x \<noteq> CHR ''/''" using assms by auto
  qed
  then show ?thesis by (simp add: split_last_def)
qed

lemma startswith_static: "startswith (''/static/'' @ filename) ''/static/''"
  by (simp add: startswith_def)

lemma sign_path_static:
  assumes "CHR ''/'' \<notin> set filename"
  shows "sign_path mac timestamp utcnow (''/static/'' @ filename) =
           ''/static/'' @ filename @ ''?expires='' @ str_int (sign_expires timestamp utcnow) @
           ''&signature='' @
           create_access_signature mac filename (sign_expires timestamp utcnow)"
  using split_last_static [OF assms] startswith_static [of filename]
  by (simp add: sign_path_def Let_def)

lemma own_signature_passes:
  assumes "expires \<noteq> 0" and "now \<le> real_of_int expires"
  shows "get_audio_file fs mac now filename expires
           (create_access_signature mac filename expires) = serve_file fs filename"
proof -
  have "compare_digest (create_access_signature mac filename expires)
          (create_access_signature mac filename expires) = Inr True"
    by (simp add: compare_digest_def signature_ascii)
  then show ?thesis
    using assms signature_nonempty [of mac filename expires]
    by (simp add: get_audio_file_def)
qed

text \<open>
  The round trip on a machine whose \<^verbatim>\<open>timestamp()\<close> does not read the date one hour
  ahead as an earlier time than the date itself: the request that follows the signing at
  once passes the three checks of the link and is answered by the file resolution. A
  machine on UTC is one (after 1970, where the expiry is not the timestamp 0).
\<close>

lemma sign_then_verify_steady:
  assumes "CHR ''/'' \<notin> set filename"
    and "sign_expires timestamp utcnow \<noteq> 0"
    and "timestamp utcnow \<le> real_of_int (sign_expires timestamp utcnow)"
  shows "get_audio_file fs mac (timestamp utcnow) filename (sign_expires timestamp utcnow)
           (create_access_signature mac filename (sign_expires timestamp utcnow)) =
         serve_file fs filename"
  using assms(2,3) by (rule own_signature_passes)

lemma sign_expires_utc:
  assumes "0 \<le> utcnow"
  shows "sign_expires utc_timestamp utcnow \<noteq> 0"
    and "utc_timestamp utcnow \<le> real_of_int (sign_expires utc_timestamp utcnow)"
  using assms unfolding sign_expires_def utc_timestamp_def py_int_def
  by (auto; linarith)+

lemma sign_then_verify_utc:
  assumes "CHR ''/'' \<notin> set filename" and "0 \<le> utcnow"
  shows "get_audio_file fs mac (utc_timestamp utcnow) filename
           (sign_expires utc_timestamp utcnow)
           (create_access_signature mac filename (sign_expires utc_timestamp utcnow)) =
         serve_file fs filename"
  using assms(1) sign_expires_utc [OF assms(2)] by (rule sign_then_verify_steady)

text \<open>
  Claim C1 (round trip of the artifact gateway). The code does not keep the claim. The
  comment in \<^verbatim>\<open>sign_path\<close> says "URL valid for 60 minutes", but the expiry is the
  machine's \<^verbatim>\<open>timestamp()\<close> of the naive UTC date one hour ahead, and \<^verbatim>\<open>get_audio_file\<close>
  compares it with the machine's \<^verbatim>\<open>timestamp()\<close> of the naive UTC date of the request.
  On a machine whose zone is \<^verbatim>\<open>America/New_York\<close>, when \<^verbatim>\<open>datetime.utcnow()\<close> is
  2024-03-10 02:30:00.5 (the naive date \<open>1710037800.5\<close>), that date lies in the hour that
  the clocks skipped and the date one hour ahead lies after it, so both are read as the
  same time, \<open>1710055800.5\<close>. The link for \<^verbatim>\<open>/static/a.wav\<close> carries the expiry
  \<open>1710055800\<close>, half a second before the clock reading of the signing itself, and the
  request with the filename, the expiry and the signature of that link, made at once, is
  answered 403 "Link expired", although the file exists under the artifact root.
\<close>

theorem sign_then_verify_skipped_hour:
  "new_york_timestamp (1710037800 + 1 / 2) = 1710055800 + 1 / 2
   \<and> sign_expires new_york_timestamp (1710037800 + 1 / 2) = 1710055800
   \<and> sign_path demo_mac new_york_timestamp (1710037800 + 1 / 2) ''/static/a.wav'' =
       ''/static/a.wav?expires=1710055800&signature='' @
          create_access_signature demo_mac ''a.wav'' 1710055800
   \<and> serve_file demo_fs ''a.wav'' = Inr ''generated_audio/a.wav''
   \<and> get_audio_file demo_fs demo_mac (new_york_timestamp (1710037800 + 1 / 2)) ''a.wav''
        1710055800 (create_access_signature demo_mac ''a.wav'' 1710055800) =
       Inl (HTTPException 403 ''Link expired'')"
proof -
  have n: "new_york_timestamp (1710037800 + 1 / 2) = 1710055800 + 1 / 2"
    by (simp add: new_york_timestamp_def)
  have e: "sign_expires new_york_timestamp (1710037800 + 1 / 2) = 1710055800"
    by (simp add: sign_expires_def new_york_timestamp_def py_int_def)
  have s: "str_int 1710055800 = ''1710055800''"
    by (simp add: str_int_def str_nat.simps digit_char_def)
  have "CHR ''/'' \<notin> set ''a.wav''" by simp
  from sign_path_static [OF this, of demo_mac new_york_timestamp "1710037800 + 1 / 2"]
  have p: "sign_path demo_mac new_york_timestamp (1710037800 + 1 / 2) ''/static/a.wav'' =
       ''/static/a.wav?expires=1710055800&signature='' @
          create_access_signature demo_mac ''a.wav'' 1710055800"
    unfolding e s by simp
  have f: "serve_file demo_fs ''a.wav'' = Inr ''generated_audio/a.wav''"
    by (simp add: serve_file_def demo_fs_def os_path_join_def AUDIO_DIR_def startswith_def
        endswith_def)
  have g: "get_audio_file demo_fs demo_mac (new_york_timestamp (1710037800 + 1 / 2)) ''a.wav''
        1710055800 (create_access_signature demo_mac ''a.wav'' 1710055800) =
       Inl (HTTPException 403 ''Link expired'')"
    unfolding n using signature_nonempty [of demo_mac "''a.wav''" 1710055800]
    by (simp add: get_audio_file_def)
  from n e p f g show ?thesis by simp
qed

text \<open>
  Claim C2 (rejection soundness of link verification), as the code has it. The claim
  as stated fails in three places: a request with \<open>expires = 0\<close> (or an empty signature)
  is answered "Missing signature or expiry", not "Link expired", whatever the clock
  reads; an expired link with a wrong signature is answered "Link expired", not "Invalid
  signature", because the expiry is checked first; and a signature with a character
  outside ASCII makes \<^verbatim>\<open>hmac.compare_digest\<close> raise a \<^verbatim>\<open>TypeError\<close>, which is no
  \<^verbatim>\<open>HTTPException\<close>.
\<close>

theorem verify_rejections_counterexample:
  "(1700000000 :: real) > real_of_int 0
   \<and> get_audio_file demo_fs demo_mac 1700000000 ''a.wav'' 0 ''0badc0de'' =
      Inl (HTTPException 403 ''Missing signature or expiry'')
   \<and> ''0badc0de'' \<noteq> create_access_signature demo_mac ''a.wav'' 1600000000
   \<and> get_audio_file demo_fs demo_mac 1700000000 ''a.wav'' 1600000000 ''0badc0de'' =
      Inl (HTTPException 403 ''Link expired'')
   \<and> [CHR 0xC3, CHR 0xA9] \<noteq> create_access_signature demo_mac ''a.wav'' 1800000000
   \<and> get_audio_file demo_fs demo_mac 1700000000 ''a.wav'' 1800000000 [CHR 0xC3, CHR 0xA9] =
      Inl (Unhandled (TypeError ''comparing strings with non-ASCII characters is not supported''))"
proof -
  have ne: "''0badc0de'' \<noteq> create_access_signature demo_mac ''a.wav'' 1600000000"
    by (rule short_string_is_no_signature) simp
  have ne': "[CHR 0xC3, CHR 0xA9] \<noteq> create_access_signature demo_mac ''a.wav'' 1800000000"
    by (rule short_string_is_no_signature) simp
  have "\<not> is_ascii [CHR 0xC3, CHR 0xA9]" by (simp add: is_ascii_def)
  then show ?thesis using ne ne' by (simp add: get_audio_file_def compare_digest_def)
qed

text \<open>
  Claim C2, amended. For a request that carries both parameters (\<open>expires \<noteq> 0\<close> and a
  signature that is not empty): if the clock is past the expiry, the answer is 403 "Link
  expired", whatever the signature, also the very one the system computes for that
  filename and expiry; if the clock is not past the expiry and the signature is an ASCII
  string other than \<open>hexdigest (mac SECRET_KEY "<filename>:<expires>")\<close>, the answer is 403
  "Invalid signature". For every request at all, past the expiry or with a signature
  other than the computed one, the outcome is an error: no file is served.
\<close>

theorem verify_rejections:
  "(expires \<noteq> 0 \<and> signature \<noteq> [] \<and> now > real_of_int expires \<longrightarrow>
      get_audio_file fs mac now filename expires signature =
        Inl (HTTPException 403 ''Link expired''))
   \<and> (expires \<noteq> 0 \<and> now > real_of_int expires \<longrightarrow>
      get_audio_file fs mac now filename expires (create_access_signature mac filename expires) =
        Inl (HTTPException 403 ''Link expired''))
   \<and> (expires \<noteq> 0 \<and> signature \<noteq> [] \<and> \<not> now > real_of_int expires \<and> is_ascii signature
        \<and> signature \<noteq> create_access_signature mac filename expires \<longrightarrow>
      get_audio_file fs mac now filename expires signature =
        Inl (HTTPException 403 ''Invalid signature''))
   \<and> (now > real_of_int expires \<or> signature \<noteq> create_access_signature mac filename expires \<longrightarrow>
      (\<exists>e. get_audio_file fs mac now filename expires signature = Inl e))"
  using signature_ascii [of mac filename expires] signature_nonempty [of mac filename expires]
  by (auto simp: get_audio_file_def compare_digest_def split: sum.splits)

theorem verify_rejections_witness:
  "get_audio_file demo_fs demo_mac 1700000000 ''a.wav'' 1600000000 ''0badc0de'' =
      Inl (HTTPException 403 ''Link expired'')
   \<and> get_audio_file demo_fs demo_mac 1700000000 ''a.wav'' 1600000000
        (create_access_signature demo_mac ''a.wav'' 1600000000) =
      Inl (HTTPException 403 ''Link expired'')
   \<and> get_audio_file demo_fs demo_mac 1700000000 ''a.wav'' 1800000000 ''0badc0de'' =
      Inl (HTTPException 403 ''Invalid signature'')"
proof -
  have ne: "''0badc0de'' \<noteq> create_access_signature demo_mac ''a.wav'' 1800000000"
    by (rule short_string_is_no_signature) simp
  have asc: "is_ascii ''0badc0de''" by (simp add: is_ascii_def)
  show ?thesis
    using verify_rejections [of 1600000000 "''0badc0de''" 1700000000 demo_fs demo_mac "''a.wav''"]
      verify_rejections [of 1800000000 "''0badc0de''" 1700000000 demo_fs demo_mac "''a.wav''"]
      ne asc
    by simp
qed

text \<open>
  Claim C10 (the missing-parameter guard). Whatever the filename, the clock and the
  other parameter are, a request with \<open>expires = 0\<close> is answered 403 "Missing signature or
  expiry", and so is a request with an empty signature; the expiry and signature checks
  are not reached. This holds also for the signature that the system itself computes
  for the filename and the expiry 0.
\<close>

theorem missing_parameter_guard:
  "get_audio_file fs mac now filename 0 signature =
     Inl (HTTPException 403 ''Missing signature or expiry'')
   \<and> get_audio_file fs mac now filename expires [] =
     Inl (HTTPException 403 ''Missing signature or expiry'')
   \<and> get_audio_file fs mac now filename 0 (create_access_signature mac filename 0) =
     Inl (HTTPException 403 ''Missing signature or expiry'')"
  by (simp add: get_audio_file_def)

section \<open>Properties of the status and cancellation endpoints\<close>

text \<open>
  Claim C8 (cancellation request). For a job whose state is none of \<^verbatim>\<open>SUCCESS\<close>,
  \<^verbatim>\<open>FAILURE\<close> and \<^verbatim>\<open>REVOKED\<close>, and a store that takes the write, \<^verbatim>\<open>cancel_task\<close>
  leaves the key \<^verbatim>\<open>task_cancelled:<id>\<close> in the store with the value \<^verbatim>\<open>"1"\<close> and a
  time to live of 3600 seconds (one hour), changes nothing else, sends the workers one
  request to revoke that id with termination by \<^verbatim>\<open>SIGTERM\<close>, and answers
  \<^verbatim>\<open>cancelled\<close>. (When the write raises, the handler only prints the error: the store
  is unchanged, the revocation and the answer are the same.) For a job in one of the three
  final states the store is unchanged, nothing is sent to the workers, and the answer
  reports that state.
\<close>

theorem cancel_request:
  "(async_state st task_id \<notin> set [''SUCCESS'', ''FAILURE'', ''REVOKED''] \<longrightarrow>
      cancel_task None st task_id =
        (st\<lparr>keys := (keys st)(''task_cancelled:'' @ task_id \<mapsto> (''1'', 3600))\<rparr>,
         [Revoke task_id True ''SIGTERM''],
         \<lparr>cr_task_id = task_id, cr_status = ''cancelled'',
          cr_message = ''Task cancellation requested''\<rparr>)
      \<and> cancel_task (Some e) st task_id =
        (st, [Revoke task_id True ''SIGTERM''],
         \<lparr>cr_task_id = task_id, cr_status = ''cancelled'',
          cr_message = ''Task cancellation requested''\<rparr>))
   \<and> (async_state st task_id \<in> set [''SUCCESS'', ''FAILURE'', ''REVOKED''] \<longrightarrow>
      cancel_task err st task_id =
        (st, [],
         \<lparr>cr_task_id = task_id, cr_status = async_state st task_id,
          cr_message = ''Task is in '' @ async_state st task_id @
                       '' state and cannot be cancelled''\<rparr>))"
  by (simp add: cancel_task_def setex_def Let_def)

theorem cancel_request_witness:
  "cancel_task None demo_store ''job-1'' =
     (demo_store\<lparr>keys := (keys demo_store)(''task_cancelled:job-1'' \<mapsto> (''1'', 3600))\<rparr>,
      [Revoke ''job-1'' True ''SIGTERM''],
      \<lparr>cr_task_id = ''job-1'', cr_status = ''cancelled'',
       cr_message = ''Task cancellation requested''\<rparr>)
   \<and> cancel_task (Some (Exception ''Connection refused'')) demo_store ''job-1'' =
     (demo_store, [Revoke ''job-1'' True ''SIGTERM''],
      \<lparr>cr_task_id = ''job-1'', cr_status = ''cancelled'',
       cr_message = ''Task cancellation requested''\<rparr>)
   \<and> cancel_task None demo_store ''job-2'' =
     (demo_store, [],
      \<lparr>cr_task_id = ''job-2'', cr_status = ''SUCCESS'',
       cr_message = ''Task is in SUCCESS state and cannot be cancelled''\<rparr>)"
proof -
  have s1: "async_state demo_store ''job-1'' = ''PROGRESS''"
    by (simp add: async_state_def demo_store_def)
  have s2: "async_state demo_store ''job-2'' = ''SUCCESS''"
    by (simp add: async_state_def demo_store_def)
  show ?thesis
    using cancel_request [of demo_store "''job-1''" "Exception ''Connection refused''" None]
      cancel_request [of demo_store "''job-2''" "Exception ''Connection refused''" None]
    by (simp add: s1 s2)
qed

text \<open>
  Claim C9 (status of an unknown id), as the code has it. The claim as stated fails:
  for an id without a record the endpoint answers with the state \<^verbatim>\<open>PENDING\<close>, the very
  answer it gives for a job whose record says \<^verbatim>\<open>PENDING\<close>. The code has no answer
  that says "not found".
\<close>

theorem unknown_id_counterexample:
  "meta empty_store ''0c6f2a9e'' = None
   \<and> sr_state (get_task_status demo_mac utc_timestamp 1700000000 empty_store ''0c6f2a9e'') =
       ''PENDING''
   \<and> get_task_status demo_mac utc_timestamp 1700000000 empty_store ''0c6f2a9e'' =
      get_task_status demo_mac utc_timestamp 1700000000
        (empty_store\<lparr>meta := (\<lambda>k. if k = ''0c6f2a9e'' then
            Some \<lparr>tm_state = ''PENDING'', tm_progress_status = None, tm_result = None,
                  tm_info_str = ''None''\<rparr> else None)\<rparr>) ''0c6f2a9e''"
  by (simp add: get_task_status_def async_state_def empty_store_def)

text \<open>
  Claim C9, amended. For every job id that has no record in the shared state store, the
  status operation returns no error and no "not found" status: it returns the status of a
  pending job, with the state \<^verbatim>\<open>PENDING\<close> and the note "Task is waiting to start...".
\<close>

theorem unknown_id_is_pending:
  "meta st task_id = None \<Longrightarrow>
     get_task_status mac timestamp utcnow st task_id =
       \<lparr>sr_task_id = task_id, sr_state = ''PENDING'',
        sr_status = Some ''Task is waiting to start...'', sr_result = None\<rparr>"
  by (simp add: get_task_status_def async_state_def)

theorem unknown_id_is_pending_witness:
  "get_task_status demo_mac utc_timestamp 1700000000 empty_store ''0c6f2a9e'' =
       \<lparr>sr_task_id = ''0c6f2a9e'', sr_state = ''PENDING'',
        sr_status = Some ''Task is waiting to start...'', sr_result = None\<rparr>"
  using unknown_id_is_pending [of empty_store "''0c6f2a9e''" demo_mac utc_timestamp 1700000000]
  by (simp add: empty_store_def)

section \<open>Properties of the model cache\<close>

lemma and_then_Inl: "and_then (es, Inl e) f = (es, Inl e)"
  by (simp add: and_then_def)

lemma and_then_Inr: "and_then (es, Inr x) f = (es @ fst (f x), snd (f x))"
  by (simp add: and_then_def split: prod.splits)

lemma fst_and_then:
  "fst (and_then m f) = fst m @ (case snd m of Inl e \<Rightarrow> [] | Inr x \<Rightarrow> fst (f x))"
  by (cases m; cases "snd m") (auto simp: and_then_Inl and_then_Inr)

lemma snd_and_then:
  "snd (and_then m f) = (case snd m of Inl e \<Rightarrow> Inl e | Inr x \<Rightarrow> snd (f x))"
  by (cases m; cases "snd m") (auto simp: and_then_Inl and_then_Inr)

lemma list_all_and_then:
  assumes "list_all P (fst m)" and "\<And>x. snd m = Inr x \<Longrightarrow> list_all P (fst (f x))"
  shows "list_all P (fst (and_then m f))"
  using assms by (cases "snd m") (auto simp: fst_and_then)

lemma load_vibevoice_events: "list_all is_load_event (fst (load_vibevoice env name path dev))"
  unfolding load_vibevoice_def Let_def
  apply (intro list_all_and_then)
     apply (simp_all add: call_def ret_def raise_def split: sum.splits option.splits)
  done

lemma load_pipeline_events: "list_all is_load_event (fst (load_pipeline env path dev))"
  by (simp add: load_pipeline_def Let_def split: sum.splits)

lemma load_hit:
  "map_of c name = Some obj \<Longrightarrow> load_model_pipeline env name c = (c, [], Inr obj)"
  by (simp add: load_model_pipeline_def)

lemma load_miss:
  assumes miss: "map_of c name = None"
  shows "\<exists>loads r. list_all is_load_event loads \<and>
           load_model_pipeline env name c =
             (case r of Inl e \<Rightarrow> [] | Inr obj \<Rightarrow> [(name, obj)],
              (if c = [] then [] else CacheCleared # release_events env) @ loads @
                (case r of Inl e \<Rightarrow> [] | Inr obj \<Rightarrow> [CacheStored name]),
              r)"
proof (cases "contains name ''VibeVoice'' \<and> VIBEVOICE_AVAILABLE env")
  case True
  obtain es1 r1 where l: "load_vibevoice env name (resolve_model_path env name)
      (get_compute_device env) = (es1, r1)" by force
  from load_vibevoice_events [of env name "resolve_model_path env name" "get_compute_device env"] l
  have ev: "list_all is_load_event es1" by simp
  show ?thesis
  proof (cases r1)
    case (Inl e)
    with miss True l ev show ?thesis
      by (intro exI [of _ es1] exI [of _ "Inl (Exception (''Failed to load VibeVoice model: '' @ str_exc e))"])
         (auto simp add: load_model_pipeline_def Let_def)
  next
    case (Inr obj)
    with miss True l ev show ?thesis
      by (intro exI [of _ es1] exI [of _ "Inr obj"])
         (auto simp add: load_model_pipeline_def Let_def)
  qed
next
  case False
  obtain es1 r1 where l: "load_pipeline env (resolve_model_path env name)
      (get_compute_device env) = (es1, r1)" by force
  from load_pipeline_events [of env "resolve_model_path env name" "get_compute_device env"] l
  have ev: "list_all is_load_event es1" by simp
  show ?thesis
  proof (cases r1)
    case (Inl e)
    with miss False l ev show ?thesis
      by (intro exI [of _ es1] exI [of _ "Inl e"])
         (auto simp add: load_model_pipeline_def Let_def)
  next
    case (Inr obj)
    with miss False l ev show ?thesis
      by (intro exI [of _ es1] exI [of _ "Inr obj"])
         (auto simp add: load_model_pipeline_def Let_def)
  qed
qed

lemma load_result_length:
  assumes "length c \<le> 1"
  shows "length (fst (load_model_pipeline env name c)) \<le> 1"
proof (cases "map_of c name")
  case (Some obj)
  then show ?thesis using assms by (simp add: load_hit)
next
  case None
  from load_miss [OF this, of env] show ?thesis
    by (auto split: sum.splits)
qed

lemma reachable_cache_length: "reachable_cache c \<Longrightarrow> length c \<le> 1"
proof (induction rule: reachable_cache.induct)
  case initial
  then show ?case by simp
next
  case (after_load c env model_name c' es r)
  from load_result_length [OF after_load.IH, of env model_name] after_load.hyps(2)
  show ?case by simp
qed

text \<open>
  Claim C4 (single residency of the model cache). Every cache that a worker process can
  reach holds at most one entry, before and after each call of \<^verbatim>\<open>load_model_pipeline\<close>.
  When the requested model is not in the cache, the call's events are, in this order: if
  the cache holds another entry, \<^verbatim>\<open>LOADED_MODELS.clear()\<close> and the release of the
  accelerator's memory (\<^verbatim>\<open>torch.cuda.empty_cache()\<close>, else \<^verbatim>\<open>torch.mps.empty_cache()\<close>,
  where such a device is available); then the loads from disk; and last, on success
  only, the store of the new entry. The cache then holds the new entry alone, and holds
  nothing when the load raised. When the requested model is in the cache, its entry is
  returned, the cache is unchanged, and the call has no event: nothing is evicted and
  nothing is loaded.
\<close>

theorem single_residency:
  "(reachable_cache c \<longrightarrow>
      length c \<le> 1 \<and> length (fst (load_model_pipeline env name c)) \<le> 1)
   \<and> (map_of c name = None \<longrightarrow>
      (\<exists>loads r. list_all is_load_event loads \<and>
         load_model_pipeline env name c =
           (case r of Inl e \<Rightarrow> [] | Inr obj \<Rightarrow> [(name, obj)],
            (if c = [] then [] else CacheCleared # release_events env) @ loads @
              (case r of Inl e \<Rightarrow> [] | Inr obj \<Rightarrow> [CacheStored name]),
            r)))
   \<and> (map_of c name = Some obj \<longrightarrow> load_model_pipeline env name c = (c, [], Inr obj))"
  using reachable_cache_length [of c] load_result_length [of c env name]
    load_miss [of c name env] load_hit [of c name obj env]
  by blast

lemma demo_first_load:
  "load_model_pipeline demo_loader ''tts-a'' [] =
     ([(''tts-a'', demo_entry)],
      [LoadPipeline ''local_models/tts-a'' ''cuda'', CacheStored ''tts-a''], Inr demo_entry)"
  by (simp add: load_model_pipeline_def demo_loader_def demo_entry_def Let_def
      load_pipeline_def resolve_model_path_def get_compute_device_def startswith_def
      os_path_join_def MODELS_DIR_def endswith_def)

lemma demo_second_load:
  "load_model_pipeline demo_loader ''VibeVoice-1.5B'' [(''tts-a'', demo_entry)] =
     ([(''VibeVoice-1.5B'', demo_vibevoice_entry)],
      [CacheCleared, EmptyCache ''cuda'', LoadProcessor ''local_models/VibeVoice-1.5B'',
       LoadModel ''local_models/VibeVoice-1.5B'' ''flash_attention_2'',
       LoadModel ''local_models/VibeVoice-1.5B'' ''sdpa'', CacheStored ''VibeVoice-1.5B''],
      Inr demo_vibevoice_entry)"
  by (simp add: load_model_pipeline_def demo_loader_def demo_vibevoice_entry_def Let_def
      load_vibevoice_def resolve_model_path_def get_compute_device_def startswith_def
      os_path_join_def MODELS_DIR_def endswith_def release_events_def is_realtime_name_def
      and_then_def call_def ret_def raise_def)

theorem single_residency_witness:
  "length (fst (load_model_pipeline demo_loader ''VibeVoice-1.5B'' [(''tts-a'', demo_entry)])) \<le> 1
   \<and> (\<exists>loads r. list_all is_load_event loads \<and>
         load_model_pipeline demo_loader ''VibeVoice-1.5B'' [(''tts-a'', demo_entry)] =
           (case r of Inl e \<Rightarrow> [] | Inr obj \<Rightarrow> [(''VibeVoice-1.5B'', obj)],
            (CacheCleared # release_events demo_loader) @ loads @
              (case r of Inl e \<Rightarrow> [] | Inr obj \<Rightarrow> [CacheStored ''VibeVoice-1.5B'']),
            r))
   \<and> load_model_pipeline demo_loader ''VibeVoice-1.5B'' [(''tts-a'', demo_entry)] =
        ([(''VibeVoice-1.5B'', demo_vibevoice_entry)],
         [CacheCleared, EmptyCache ''cuda'', LoadProcessor ''local_models/VibeVoice-1.5B'',
          LoadModel ''local_models/VibeVoice-1.5B'' ''flash_attention_2'',
          LoadModel ''local_models/VibeVoice-1.5B'' ''sdpa'', CacheStored ''VibeVoice-1.5B''],
         Inr demo_vibevoice_entry)
   \<and> load_model_pipeline demo_loader ''tts-a'' [(''tts-a'', demo_entry)] =
        ([(''tts-a'', demo_entry)], [], Inr demo_entry)"
proof -
  have "reachable_cache []" by (rule reachable_cache.initial)
  then have r: "reachable_cache [(''tts-a'', demo_entry)]"
    using demo_first_load by (rule reachable_cache.after_load)
  show ?thesis
    using single_residency [of "[(''tts-a'', demo_entry)]" demo_loader "''VibeVoice-1.5B''" demo_entry]
      single_residency [of "[(''tts-a'', demo_entry)]" demo_loader "''tts-a''" demo_entry] r
      demo_second_load
    by simp
qed

section \<open>Properties of the conversion to 16-bit PCM\<close>

lemma max_abs_ge: "x \<in> set xs \<Longrightarrow> \<bar>x\<bar> \<le> max_abs xs"
  unfolding max_abs_def by (rule Max_ge) auto

lemma max_abs_attained:
  assumes "xs \<noteq> []"
  shows "\<exists>x \<in> set xs. \<bar>x\<bar> = max_abs xs"
proof -
  have "Max (set (map abs xs)) \<in> set (map abs xs)"
    using assms by (intro Max_in) auto
  then show ?thesis unfolding max_abs_def by auto
qed

lemma max_abs_zero_iff:
  assumes "xs \<noteq> []"
  shows "max_abs xs = 0 \<longleftrightarrow> (\<forall>x \<in> set xs. x = 0)"
proof
  assume z: "max_abs xs = 0"
  show "\<forall>x \<in> set xs. x = 0"
  proof
    fix x assume "x \<in> set xs"
    then have "\<bar>x\<bar> \<le> 0" using max_abs_ge [of x xs] z by simp
    then show "x = 0" by simp
  qed
next
  assume all: "\<forall>x \<in> set xs. x = 0"
  from max_abs_attained [OF assms] obtain x where "x \<in> set xs" "\<bar>x\<bar> = max_abs xs"
    by blast
  with all show "max_abs xs = 0" by auto
qed

lemma max_abs_nonneg: "xs \<noteq> [] \<Longrightarrow> 0 \<le> max_abs xs"
  using max_abs_attained [of xs] by auto

lemma py_int_abs_le: "\<bar>y\<bar> \<le> real_of_int k \<Longrightarrow> \<bar>py_int y\<bar> \<le> k"
  unfolding py_int_def by (auto; linarith)

lemma sint_int16:
  assumes "\<bar>y\<bar> \<le> 32767"
  shows "sint (word_of_int (py_int y) :: 16 word) = py_int y"
proof -
  have b: "\<bar>py_int y\<bar> \<le> 32767" using py_int_abs_le [of y 32767] assms by simp
  have "signed_take_bit 15 (py_int y) = py_int y"
    by (rule signed_take_bit_int_eq_self) (use b in auto)
  then show ?thesis by (simp add: sint_sbintrunc')
qed

lemma finite_values_Finite: "finite_values (map Finite xs) = xs"
  by (induction xs) (simp_all add: finite_values_def)

lemma peak_of_numbers:
  assumes "xs \<noteq> []"
  shows "peak (map Finite xs) = Inr (Finite (max_abs xs))"
proof -
  have m: "map np_abs (map Finite xs) = map Finite (map abs xs)" by simp
  have "NaN \<notin> set (map Finite (map abs xs))" "PosInf \<notin> set (map Finite (map abs xs))"
    by auto
  then show ?thesis
    unfolding peak_def m np_max_def finite_values_Finite using assms
    by (simp add: max_abs_def)
qed

lemma fround_zero:
  assumes "rounds_to_nearest fmt"
  shows "fround fmt 0 = 0"
proof -
  have "fround fmt (- 0) = - fround fmt 0" using assms unfolding rounds_to_nearest_def by blast
  then show ?thesis by simp
qed

lemma fround_bounded:
  assumes r: "rounds_to_nearest fmt" and k: "fround fmt k = k" and x: "\<bar>x\<bar> \<le> k"
  shows "\<bar>fround fmt x\<bar> \<le> k"
proof -
  have m: "mono (fround fmt)" and s: "fround fmt (- k) = - fround fmt k"
    using r unfolding rounds_to_nearest_def by blast+
  have xk: "x \<le> k" "- k \<le> x" using x by linarith+
  have "fround fmt x \<le> fround fmt k" using m xk(1) by (rule monoD)
  then have u: "fround fmt x \<le> k" by (simp only: k)
  have "fround fmt (- k) \<le> fround fmt x" using m xk(2) by (rule monoD)
  then have l: "- k \<le> fround fmt x" by (simp only: s k)
  from u l show ?thesis by linarith
qed

lemma to_format_in_range:
  assumes r: "rounds_to_nearest fmt" and x: "\<bar>x\<bar> \<le> 32767"
  shows "to_format fmt x = Finite (fround fmt x)" and "\<bar>fround fmt x\<bar> \<le> 32767"
proof -
  have k: "fround fmt 32767 = 32767" and f: "32767 \<le> fmax fmt"
    using r unfolding rounds_to_nearest_def by blast+
  show b: "\<bar>fround fmt x\<bar> \<le> 32767" using r k x by (rule fround_bounded)
  then show "to_format fmt x = Finite (fround fmt x)"
    using f by (auto simp: to_format_def Let_def)
qed

lemma quotient_bounded:
  assumes "x \<in> set xs" and "0 < max_abs xs"
  shows "\<bar>x / max_abs xs\<bar> \<le> 1"
proof -
  have "\<bar>x\<bar> \<le> max_abs xs" using assms(1) by (rule max_abs_ge)
  then show ?thesis using assms(2) by (simp add: field_simps)
qed

text \<open>One sample of an array of numbers with a positive peak, through the conversion.\<close>

lemma sample_normalized:
  assumes r: "rounds_to_nearest fmt" and x: "x \<in> set xs" and m: "0 < max_abs xs"
  shows "astype_int16 cast (times_32767 fmt (np_divide fmt (Finite x) (Finite (max_abs xs)))) =
           word_of_int (py_int (fround fmt (fround fmt (x / max_abs xs) * 32767)))"
    and "\<bar>fround fmt (fround fmt (x / max_abs xs) * 32767)\<bar> \<le> 32767"
proof -
  define q where "q = fround fmt (x / max_abs xs)"
  have one: "fround fmt 1 = 1" using r unfolding rounds_to_nearest_def by blast
  have "\<bar>x / max_abs xs\<bar> \<le> 1" using x m by (rule quotient_bounded)
  then have q1: "\<bar>q\<bar> \<le> 1" unfolding q_def using r one by (intro fround_bounded) auto
  have d: "np_divide fmt (Finite x) (Finite (max_abs xs)) = Finite q"
    unfolding q_def using to_format_in_range(1) [OF r, of "x / max_abs xs"]
      \<open>\<bar>x / max_abs xs\<bar> \<le> 1\<close> by simp
  have s: "\<bar>q * 32767\<bar> \<le> 32767" using q1 by (simp add: abs_mult)
  have t: "times_32767 fmt (Finite q) = Finite (fround fmt (q * 32767))"
    using to_format_in_range(1) [OF r s] by simp
  have b: "\<bar>fround fmt (q * 32767)\<bar> \<le> 32767" using to_format_in_range(2) [OF r s] .
  then have "astype_int16 cast (Finite (fround fmt (q * 32767))) =
               word_of_int (py_int (fround fmt (q * 32767)))"
    by (auto simp: astype_int16_def)
  then show "astype_int16 cast (times_32767 fmt (np_divide fmt (Finite x) (Finite (max_abs xs)))) =
           word_of_int (py_int (fround fmt (fround fmt (x / max_abs xs) * 32767)))"
    unfolding d t by (simp only: q_def)
  from b show "\<bar>fround fmt (fround fmt (x / max_abs xs) * 32767)\<bar> \<le> 32767"
    by (simp only: q_def)
qed

lemma to_pcm16_silence:
  assumes r: "rounds_to_nearest fmt" and "xs \<noteq> []" and z: "\<forall>x \<in> set xs. x = 0"
  shows "to_pcm16 fmt cast (map Finite xs) = Inr (replicate (length xs) 0)"
proof -
  have m: "max_abs xs = 0" using assms max_abs_zero_iff by blast
  have "to_format fmt 0 = Finite 0"
    using to_format_in_range(1) [OF r, of 0] fround_zero [OF r] by simp
  then have "astype_int16 cast (times_32767 fmt (Finite 0)) = 0"
    by (simp add: astype_int16_def py_int_def)
  then have "map (\<lambda>x. astype_int16 cast (times_32767 fmt x)) (map Finite xs) =
               replicate (length xs) 0"
    using z by (intro replicate_eqI) auto
  then show ?thesis
    using peak_of_numbers [OF assms(2)] m by (simp add: to_pcm16_def)
qed

lemma to_pcm16_normalized:
  assumes r: "rounds_to_nearest fmt" and "xs \<noteq> []" and nz: "\<not> (\<forall>x \<in> set xs. x = 0)"
  shows "0 < max_abs xs"
    and "to_pcm16 fmt cast (map Finite xs) =
           Inr (map (\<lambda>x. word_of_int
                  (py_int (fround fmt (fround fmt (x / max_abs xs) * 32767)))) xs)"
proof -
  have "max_abs xs \<noteq> 0" using assms max_abs_zero_iff by blast
  then show pos: "0 < max_abs xs" using max_abs_nonneg [OF assms(2)] by simp
  have "map (\<lambda>x. astype_int16 cast (times_32767 fmt x))
          (map (\<lambda>x. np_divide fmt x (Finite (max_abs xs))) (map Finite xs)) =
        map (\<lambda>x. word_of_int (py_int (fround fmt (fround fmt (x / max_abs xs) * 32767)))) xs"
    using sample_normalized(1) [OF r _ pos] by (simp add: comp_def)
  then show "to_pcm16 fmt cast (map Finite xs) =
           Inr (map (\<lambda>x. word_of_int
                  (py_int (fround fmt (fround fmt (x / max_abs xs) * 32767)))) xs)"
    using peak_of_numbers [OF assms(2)] pos
    by (simp add: to_pcm16_def divide_samples_def)
qed

lemma greater_than_zero_not_zero: "greater_than_zero m \<Longrightarrow> m \<noteq> Finite 0"
  by (cases m) auto

lemma to_pcm16_never_divides_by_zero:
  "to_pcm16 fmt cast audio_data \<noteq> Inl (ZeroDivisionError msg)"
  by (auto simp: to_pcm16_def peak_def np_max_def divide_samples_def
      dest: greater_than_zero_not_zero split: sum.splits if_splits)

lemma full_range:
  assumes r: "rounds_to_nearest fmt" and "xs \<noteq> []" and m: "0 < max_abs xs"
  shows "\<exists>x \<in> set xs. \<bar>py_int (fround fmt (fround fmt (x / max_abs xs) * 32767))\<bar> = 32767"
proof -
  from max_abs_attained [OF assms(2)] obtain x
    where x: "x \<in> set xs" "\<bar>x\<bar> = max_abs xs" by blast
  have one: "fround fmt 1 = 1" and k: "fround fmt 32767 = 32767"
    and s: "\<And>y. fround fmt (- y) = - fround fmt y"
    using r unfolding rounds_to_nearest_def by blast+
  define q where "q = x / max_abs xs"
  have "q = 1 \<or> q = - 1"
    using x(2) m by (cases "0 \<le> x") (auto simp: q_def field_simps)
  then have "fround fmt (fround fmt q * 32767) = 32767 \<or>
             fround fmt (fround fmt q * 32767) = - 32767"
    using one k s [of 1] s [of 32767] by auto
  then have "\<bar>py_int (fround fmt (fround fmt q * 32767))\<bar> = 32767"
    by (auto simp: py_int_def)
  then have "\<bar>py_int (fround fmt (fround fmt (x / max_abs xs) * 32767))\<bar> = 32767"
    by (simp only: q_def)
  with x(1) show ?thesis by blast
qed

lemma demo_format_rounds: "rounds_to_nearest demo_format"
  by (simp add: rounds_to_nearest_def demo_format_def mono_def)

text \<open>
  Claim C6 (silence-safe PCM normalization), as the code has it. The claim as stated
  fails in two places. The array without samples: all of its samples are zero, but the
  code yields no 16-bit output for it, because \<^verbatim>\<open>np.max\<close> raises a \<^verbatim>\<open>ValueError\<close> on
  it. An array that holds a NaN: its peak is NaN, the guard \<^verbatim>\<open>> 0\<close> is false, and the
  array is not normalized although its samples are not all zero; the sample \<open>1 / 2\<close>, the
  largest number of the array, is written as 16383.
\<close>

theorem pcm_normalization_counterexample:
  "to_pcm16 demo_format demo_cast [] =
     Inl (ValueError ''zero-size array to reduction operation maximum which has no identity'')
   \<and> peak [NaN, Finite (1 / 2)] = Inr NaN
   \<and> to_pcm16 demo_format demo_cast [NaN, Finite (1 / 2)] = Inr [demo_cast NaN, 16383]
   \<and> to_pcm16 demo_format demo_cast [Finite (1 / 2)] = Inr [32767]"
proof -
  have a: "to_pcm16 demo_format demo_cast [] =
     Inl (ValueError ''zero-size array to reduction operation maximum which has no identity'')"
    by (simp add: to_pcm16_def peak_def np_max_def)
  have b: "peak [NaN, Finite (1 / 2)] = Inr NaN"
    by (simp add: peak_def np_max_def)
  have c: "to_pcm16 demo_format demo_cast [NaN, Finite (1 / 2)] = Inr [demo_cast NaN, 16383]"
    unfolding to_pcm16_def b
    by (simp add: astype_int16_def to_format_def demo_format_def py_int_def)
  have "peak [Finite (1 / 2)] = Inr (Finite (1 / 2))"
    by (simp add: peak_def np_max_def finite_values_def)
  then have d: "to_pcm16 demo_format demo_cast [Finite (1 / 2)] = Inr [32767]"
    unfolding to_pcm16_def
    by (simp add: divide_samples_def astype_int16_def to_format_def demo_format_def py_int_def)
  from a b c d show ?thesis by simp
qed

text \<open>
  Claim C6, amended. For every array of numbers (no infinity, no NaN) with at least one
  sample, in a floating-point format that rounds to nearest and holds 32767: if all
  samples are zero, the normalization is skipped and the 16-bit output is all zeros;
  otherwise the peak absolute sample is positive, each sample is divided by it, the
  rounded quotient is scaled by 32767 and rounded again, and the fraction is cut off;
  every such value lies within \<open>-32767 .. 32767\<close> and so is its own 16-bit value, and
  some sample reaches \<open>32767\<close> or \<open>-32767\<close>. For every array in every format, also the
  array without samples and arrays with infinities and NaN, the conversion never divides
  by zero.
\<close>

theorem pcm_normalization:
  "(rounds_to_nearest fmt \<and> xs \<noteq> [] \<and> (\<forall>x \<in> set xs. x = 0) \<longrightarrow>
      to_pcm16 fmt cast (map Finite xs) = Inr (replicate (length xs) 0))
   \<and> (rounds_to_nearest fmt \<and> xs \<noteq> [] \<and> \<not> (\<forall>x \<in> set xs. x = 0) \<longrightarrow>
      peak (map Finite xs) = Inr (Finite (max_abs xs))
      \<and> 0 < max_abs xs
      \<and> to_pcm16 fmt cast (map Finite xs) =
          Inr (map (\<lambda>x. word_of_int
                 (py_int (fround fmt (fround fmt (x / max_abs xs) * 32767)))) xs)
      \<and> (\<forall>x \<in> set xs.
            \<bar>py_int (fround fmt (fround fmt (x / max_abs xs) * 32767))\<bar> \<le> 32767
            \<and> sint (word_of_int
                 (py_int (fround fmt (fround fmt (x / max_abs xs) * 32767))) :: 16 word) =
              py_int (fround fmt (fround fmt (x / max_abs xs) * 32767)))
      \<and> (\<exists>x \<in> set xs.
            \<bar>py_int (fround fmt (fround fmt (x / max_abs xs) * 32767))\<bar> = 32767))
   \<and> to_pcm16 fmt cast audio_data \<noteq> Inl (ZeroDivisionError msg)"
proof (intro conjI impI)
  assume "rounds_to_nearest fmt \<and> xs \<noteq> [] \<and> (\<forall>x \<in> set xs. x = 0)"
  then have "rounds_to_nearest fmt" "xs \<noteq> []" "\<forall>x \<in> set xs. x = 0" by blast+
  then show "to_pcm16 fmt cast (map Finite xs) = Inr (replicate (length xs) 0)"
    by (rule to_pcm16_silence)
next
  assume a: "rounds_to_nearest fmt \<and> xs \<noteq> [] \<and> \<not> (\<forall>x \<in> set xs. x = 0)"
  then have r: "rounds_to_nearest fmt" and ne: "xs \<noteq> []"
    and nz: "\<not> (\<forall>x \<in> set xs. x = 0)" by blast+
  from ne show "peak (map Finite xs) = Inr (Finite (max_abs xs))" by (rule peak_of_numbers)
  from r ne nz show pos: "0 < max_abs xs" by (rule to_pcm16_normalized(1))
  from r ne nz show "to_pcm16 fmt cast (map Finite xs) =
          Inr (map (\<lambda>x. word_of_int
                 (py_int (fround fmt (fround fmt (x / max_abs xs) * 32767)))) xs)"
    by (rule to_pcm16_normalized(2))
  show "\<forall>x \<in> set xs.
            \<bar>py_int (fround fmt (fround fmt (x / max_abs xs) * 32767))\<bar> \<le> 32767
            \<and> sint (word_of_int
                 (py_int (fround fmt (fround fmt (x / max_abs xs) * 32767))) :: 16 word) =
              py_int (fround fmt (fround fmt (x / max_abs xs) * 32767))"
  proof
    fix x assume "x \<in> set xs"
    with r have b: "\<bar>fround fmt (fround fmt (x / max_abs xs) * 32767)\<bar> \<le> 32767"
      using pos by (intro sample_normalized(2))
    from sint_int16 [OF b]
      py_int_abs_le [of "fround fmt (fround fmt (x / max_abs xs) * 32767)" 32767] b
    show "\<bar>py_int (fround fmt (fround fmt (x / max_abs xs) * 32767))\<bar> \<le> 32767
            \<and> sint (word_of_int
                 (py_int (fround fmt (fround fmt (x / max_abs xs) * 32767))) :: 16 word) =
              py_int (fround fmt (fround fmt (x / max_abs xs) * 32767))"
      by simp
  qed
  from r ne pos show "\<exists>x \<in> set xs.
            \<bar>py_int (fround fmt (fround fmt (x / max_abs xs) * 32767))\<bar> = 32767"
    by (rule full_range)
next
  show "to_pcm16 fmt cast audio_data \<noteq> Inl (ZeroDivisionError msg)"
    by (rule to_pcm16_never_divides_by_zero)
qed

theorem pcm_normalization_witness:
  "to_pcm16 demo_format demo_cast [Finite 0, Finite 0, Finite 0] = Inr [0, 0, 0]
   \<and> to_pcm16 demo_format demo_cast [Finite (1 / 2), Finite (- 1), Finite (1 / 4)] =
       Inr [16383, - 32767, 8191]
   \<and> to_pcm16 demo_format demo_cast [] \<noteq>
       Inl (ZeroDivisionError ''divide by zero encountered in divide'')"
proof -
  have m: "max_abs [1 / 2, - 1, 1 / 4] = 1" by (simp add: max_abs_def)
  have z: "replicate (length [0, 0, 0 :: real]) (0 :: 16 word) = [0, 0, 0]"
    by (simp add: numeral_3_eq_3)
  have v: "map (\<lambda>x. word_of_int
             (py_int (fround demo_format (fround demo_format (x / 1) * 32767))))
             [1 / 2, - 1, 1 / 4] = [16383, - 32767, 8191 :: 16 word]"
    by (simp add: demo_format_def py_int_def)
  show ?thesis
    using pcm_normalization [of demo_format "[0, 0, 0]" demo_cast "[]"
        "''divide by zero encountered in divide''"]
      pcm_normalization [of demo_format "[1 / 2, - 1, 1 / 4]" demo_cast "[]"
        "''divide by zero encountered in divide''"]
      demo_format_rounds
    unfolding m z v by simp
qed

section \<open>Properties of the worker task\<close>

lemma and_then_ret: "and_then (ret x) f = f x"
  by (simp add: ret_def and_then_Inr)

lemma and_then_raise: "and_then (raise e) f = raise e"
  by (simp add: raise_def and_then_Inl)

lemma and_then_emit: "and_then (emit ev) f = (ev # fst (f ()), snd (f ()))"
  by (simp add: emit_def and_then_Inr)

lemma and_then_returns:
  "m = (es, Inr x) \<Longrightarrow> and_then m f = (es @ fst (f x), snd (f x))"
  by (simp add: and_then_Inr)

lemma and_then_raises:
  "m = (es, Inl e) \<Longrightarrow> and_then m f = (es, Inl e)"
  by (simp add: and_then_Inl)

subsection \<open>The events of each stage\<close>

lemma revoked_before_synthesis_events:
  assumes "\<And>k. P (BackendGet k)"
  shows "list_all P (fst (revoked_before_synthesis env))"
  unfolding revoked_before_synthesis_def
  by (auto simp: assms ret_def call_def fst_and_then split: option.splits sum.splits)

lemma cancelled_during_generation_events:
  assumes "\<And>k. P (ClientExists k)"
  shows "list_all P (fst (cancelled_during_generation env))"
  unfolding cancelled_during_generation_def
  by (auto simp: assms ret_def call_def split: option.splits)

lemma revoked_before_saving_events:
  assumes "\<And>k. P (AsyncResultState k)"
  shows "list_all P (fst (revoked_before_saving env))"
  unfolding revoked_before_saving_def
  by (auto simp: assms ret_def split: option.splits)

lemma validate_speaker_events: "fst (validate_speaker speaker) = []"
  by (simp add: validate_speaker_def ret_def raise_def split: option.splits)

lemma first_speech_output_events: "fst (first_speech_output outs) = []"
  by (simp add: first_speech_output_def ret_def raise_def split: list.splits)

lemma resolve_voice_realtime_events:
  assumes "\<And>p. P (PathExists p)" and "\<And>p. P (TorchLoad p)"
  shows "list_all P (fst (resolve_voice_realtime env speaker))"
  unfolding resolve_voice_realtime_def
  by (auto simp: assms ret_def raise_def call_def fst_and_then Let_def split: option.splits sum.splits)

lemma resolve_voice_standard_events:
  assumes "\<And>p. P (PathExists p)" and "\<And>p. P (ListDir p)"
  shows "list_all P (fst (resolve_voice_standard env speaker))"
  unfolding resolve_voice_standard_def
  by (auto simp: assms ret_def raise_def call_def fst_and_then Let_def split: option.splits sum.splits)

lemma synthesize_vibevoice_events:
  assumes "\<And>p. P (PathExists p)" and "\<And>p. P (TorchLoad p)" and "\<And>p. P (ListDir p)"
    and "\<And>b. P (Synthesize b)"
  shows "list_all P (fst (synthesize_vibevoice env loaded text model_name speaker cfg steps))"
  unfolding synthesize_vibevoice_def
  by (intro list_all_and_then)
     (auto simp: validate_speaker_events call_def assms
        intro!: list_all_and_then resolve_voice_realtime_events resolve_voice_standard_events)

lemma run_vibevoice_events:
  assumes "\<And>p. P (PathExists p)" and "\<And>p. P (TorchLoad p)" and "\<And>p. P (ListDir p)"
    and "\<And>b. P (Synthesize b)" and "\<And>k. P (ClientExists k)"
  shows "list_all P (fst (run_vibevoice env loaded text model_name speaker cfg steps))"
  unfolding run_vibevoice_def
  by (intro list_all_and_then synthesize_vibevoice_events cancelled_during_generation_events)
     (auto simp: assms ret_def first_speech_output_events fst_and_then split: sum.splits)

lemma run_pipeline_events:
  assumes "P PipeCall"
  shows "list_all P (fst (run_pipeline env loaded text))"
  unfolding run_pipeline_def
  by (auto simp: assms ret_def call_def fst_and_then split: sum.splits)

lemma store_history_events:
  assumes "\<And>row. P (DbAdd row)" and "P DbClose"
  shows "list_all P (fst (store_history env row))"
  by (simp add: store_history_def assms split: sum.splits)

lemma save_audio_events:
  assumes "\<And>s m. P (UpdateState s m)" and "\<And>p r d. P (WavWrite p r d)"
    and "\<And>row. P (DbAdd row)" and "P DbClose"
  shows "list_all P (fst (save_audio env text model_name speaker cfg steps user audio rate))"
  unfolding save_audio_def Let_def
  by (intro list_all_and_then store_history_events)
     (auto simp: assms emit_def ret_def raise_def split: option.splits)

lemma load_model_pipeline_events:
  assumes "P CacheCleared" and "\<And>d. P (EmptyCache d)" and "\<And>ev. is_load_event ev \<Longrightarrow> P ev"
    and "\<And>n. P (CacheStored n)"
  shows "list_all P (fst (snd (load_model_pipeline env name c)))"
proof (cases "map_of c name")
  case (Some obj)
  then show ?thesis by (simp add: load_hit)
next
  case None
  from load_miss [OF this, of env] obtain loads r where
    l: "list_all is_load_event loads" and
    eq: "load_model_pipeline env name c =
             (case r of Inl e \<Rightarrow> [] | Inr obj \<Rightarrow> [(name, obj)],
              (if c = [] then [] else CacheCleared # release_events env) @ loads @
                (case r of Inl e \<Rightarrow> [] | Inr obj \<Rightarrow> [CacheStored name]),
              r)" by blast
  have "list_all P loads" using l assms(3) by (auto simp: list_all_iff)
  moreover have "list_all P (release_events env)" by (simp add: release_events_def assms)
  ultimately show ?thesis by (simp add: eq assms split: sum.splits)
qed

lemma on_exception_events:
  assumes "P PrintTraceback"
  shows "list_all P (fst (on_exception e))"
  using assms by (cases e) simp_all

lemma no_synthesis_loader:
  "no_synthesis (fst (snd (load_model_pipeline lenv model_name cache)))"
  unfolding no_synthesis_def
  by (rule load_model_pipeline_events) (auto elim: is_load_event.elims)

lemma no_artifact_write_loader:
  "no_artifact_write (fst (snd (load_model_pipeline lenv model_name cache)))"
  unfolding no_artifact_write_def
  by (rule load_model_pipeline_events) (auto elim: is_load_event.elims)

subsection \<open>The shape of a run\<close>

lemma generate_audio_task_events:
  "fst (snd (generate_audio_task env lenv cache text model_name speaker cfg steps user)) =
     fst (snd (task_body env lenv cache text model_name speaker cfg steps user)) @
     (case snd (snd (task_body env lenv cache text model_name speaker cfg steps user)) of
        Inl e \<Rightarrow> fst (on_exception e) | Inr r \<Rightarrow> [])"
  by (simp add: generate_audio_task_def split: prod.splits sum.splits)

lemma generate_audio_task_result:
  "snd (snd (generate_audio_task env lenv cache text model_name speaker cfg steps user)) =
     (case snd (snd (task_body env lenv cache text model_name speaker cfg steps user)) of
        Inl e \<Rightarrow> snd (on_exception e) | Inr r \<Rightarrow> r)"
  by (simp add: generate_audio_task_def split: prod.splits sum.splits)

lemma generate_audio_task_list_all:
  assumes "list_all P (fst (snd (task_body env lenv cache text model_name speaker cfg steps user)))"
    and "P PrintTraceback"
  shows "list_all P
           (fst (snd (generate_audio_task env lenv cache text model_name speaker cfg steps user)))"
  using assms on_exception_events [of P]
  by (simp add: generate_audio_task_events split: sum.splits)

lemma task_body_after_load:
  assumes "load_model_pipeline lenv model_name cache = (cache', es0, Inr loaded)"
  shows "task_body env lenv cache text model_name speaker cfg steps user =
           (cache', UpdateState ''PROGRESS'' ''Loading model...'' # es0 @
              fst (after_load env loaded text model_name speaker cfg steps user),
            snd (after_load env loaded text model_name speaker cfg steps user))"
  by (simp add: task_body_def assms and_then_emit and_then_Inr)

lemma task_body_load_raises:
  assumes "load_model_pipeline lenv model_name cache = (cache', es0, Inl e)"
  shows "task_body env lenv cache text model_name speaker cfg steps user =
           (cache', UpdateState ''PROGRESS'' ''Loading model...'' # es0, Inl e)"
  by (simp add: task_body_def assms and_then_emit and_then_Inl)

lemma after_load_not_revoked:
  assumes "revoked_before_synthesis env = (es1, Inr False)"
  shows "after_load env loaded text model_name speaker cfg steps user =
     and_then
       (UpdateState ''PROGRESS'' (''Configuring voice: '' @ str_opt speaker @ ''...'') # es1 @
          [UpdateState ''PROGRESS'' ''Synthesizing audio...''], Inr ())
       (\<lambda>_. and_then
         (if lo_type loaded = ''vibevoice''
          then run_vibevoice env loaded text model_name speaker cfg steps
          else run_pipeline env loaded text) (\<lambda>outcome.
       case outcome of
         Return result \<Rightarrow> ret result
       | Continue (audio_data, sampling_rate) \<Rightarrow>
           and_then (revoked_before_saving env) (\<lambda>revoked.
           if revoked then ret (Cancelled ''Task was cancelled'')
           else save_audio env text model_name speaker cfg steps user
                  audio_data sampling_rate)))"
  by (simp add: after_load_def assms and_then_emit and_then_Inr)

lemma after_load_revoked:
  assumes "revoked_before_synthesis env = (es1, Inr True)"
  shows "after_load env loaded text model_name speaker cfg steps user =
     (UpdateState ''PROGRESS'' (''Configuring voice: '' @ str_opt speaker @ ''...'') # es1,
      Inr (Cancelled ''Task was cancelled''))"
  by (simp add: after_load_def assms and_then_emit and_then_Inr ret_def)

lemma task_cancelled_before_synthesis:
  assumes l: "load_model_pipeline lenv model_name cache = (cache', es0, Inr loaded)"
    and r: "revoked_before_synthesis env = (es1, Inr True)"
  shows "generate_audio_task env lenv cache text model_name speaker cfg steps user =
           (cache',
            UpdateState ''PROGRESS'' ''Loading model...'' # es0 @
            UpdateState ''PROGRESS'' (''Configuring voice: '' @ str_opt speaker @ ''...'') # es1,
            Cancelled ''Task was cancelled'')"
  unfolding generate_audio_task_def task_body_after_load [OF l] after_load_revoked [OF r]
  by simp

lemma task_after_branch:
  assumes l: "load_model_pipeline lenv model_name cache = (cache', es0, Inr loaded)"
    and r: "revoked_before_synthesis env = (es1, Inr False)"
    and b: "(if lo_type loaded = ''vibevoice''
             then run_vibevoice env loaded text model_name speaker cfg steps
             else run_pipeline env loaded text) = (es2, outcome)"
  shows "task_body env lenv cache text model_name speaker cfg steps user =
           (cache',
            and_then
              (UpdateState ''PROGRESS'' ''Loading model...'' # es0 @
               UpdateState ''PROGRESS'' (''Configuring voice: '' @ str_opt speaker @ ''...'') # es1 @
               UpdateState ''PROGRESS'' ''Synthesizing audio...'' # es2, outcome)
              (\<lambda>outcome.
                 case outcome of
                   Return result \<Rightarrow> ret result
                 | Continue (audio_data, sampling_rate) \<Rightarrow>
                     and_then (revoked_before_saving env) (\<lambda>revoked.
                     if revoked then ret (Cancelled ''Task was cancelled'')
                     else save_audio env text model_name speaker cfg steps user
                            audio_data sampling_rate)))"
  unfolding task_body_after_load [OF l] after_load_not_revoked [OF r] b
  by (cases outcome) (simp_all add: and_then_Inr and_then_Inl)

lemma task_branch_returns:
  assumes l: "load_model_pipeline lenv model_name cache = (cache', es0, Inr loaded)"
    and r: "revoked_before_synthesis env = (es1, Inr False)"
    and b: "(if lo_type loaded = ''vibevoice''
             then run_vibevoice env loaded text model_name speaker cfg steps
             else run_pipeline env loaded text) = (es2, Inr (Return result))"
  shows "generate_audio_task env lenv cache text model_name speaker cfg steps user =
           (cache',
            UpdateState ''PROGRESS'' ''Loading model...'' # es0 @
            UpdateState ''PROGRESS'' (''Configuring voice: '' @ str_opt speaker @ ''...'') # es1 @
            UpdateState ''PROGRESS'' ''Synthesizing audio...'' # es2,
            result)"
  unfolding generate_audio_task_def task_after_branch [OF l r b]
  by (simp add: and_then_Inr ret_def)

lemma task_branch_raises:
  assumes l: "load_model_pipeline lenv model_name cache = (cache', es0, Inr loaded)"
    and r: "revoked_before_synthesis env = (es1, Inr False)"
    and b: "(if lo_type loaded = ''vibevoice''
             then run_vibevoice env loaded text model_name speaker cfg steps
             else run_pipeline env loaded text) = (es2, Inl e)"
  shows "generate_audio_task env lenv cache text model_name speaker cfg steps user =
           (cache',
            UpdateState ''PROGRESS'' ''Loading model...'' # es0 @
            UpdateState ''PROGRESS'' (''Configuring voice: '' @ str_opt speaker @ ''...'') # es1 @
            UpdateState ''PROGRESS'' ''Synthesizing audio...'' # es2 @ fst (on_exception e),
            snd (on_exception e))"
  unfolding generate_audio_task_def task_after_branch [OF l r b]
  by (simp add: and_then_Inl)

lemma task_revoked_before_saving:
  assumes l: "load_model_pipeline lenv model_name cache = (cache', es0, Inr loaded)"
    and r: "revoked_before_synthesis env = (es1, Inr False)"
    and b: "(if lo_type loaded = ''vibevoice''
             then run_vibevoice env loaded text model_name speaker cfg steps
             else run_pipeline env loaded text) = (es2, Inr (Continue (audio, rate)))"
    and s: "revoked_before_saving env = (es3, Inr True)"
  shows "generate_audio_task env lenv cache text model_name speaker cfg steps user =
           (cache',
            UpdateState ''PROGRESS'' ''Loading model...'' # es0 @
            UpdateState ''PROGRESS'' (''Configuring voice: '' @ str_opt speaker @ ''...'') # es1 @
            UpdateState ''PROGRESS'' ''Synthesizing audio...'' # es2 @ es3,
            Cancelled ''Task was cancelled'')"
  unfolding generate_audio_task_def task_after_branch [OF l r b]
  by (simp add: and_then_Inr s ret_def)

lemma task_load_raises:
  assumes "load_model_pipeline lenv model_name cache = (cache', es0, Inl e)"
  shows "generate_audio_task env lenv cache text model_name speaker cfg steps user =
           (cache', UpdateState ''PROGRESS'' ''Loading model...'' # es0 @ fst (on_exception e),
            snd (on_exception e))"
  by (simp add: generate_audio_task_def task_body_load_raises [OF assms])

lemma run_vibevoice_raises:
  assumes "synthesize_vibevoice env loaded text model_name speaker cfg steps = (es2, Inl e)"
  shows "run_vibevoice env loaded text model_name speaker cfg steps = (es2, Inl e)"
  by (simp add: run_vibevoice_def assms and_then_Inl)

lemma run_pipeline_raises:
  assumes "pipe_call env (lo_model loaded) text = Inl e"
  shows "run_pipeline env loaded text = ([PipeCall], Inl e)"
  by (simp add: run_pipeline_def assms call_def and_then_Inl)

subsection \<open>Runs in the surroundings of the examples\<close>

lemma demo_vibevoice_load:
  "load_model_pipeline demo_loader ''VibeVoice-1.5B'' [] =
     ([(''VibeVoice-1.5B'', demo_vibevoice_entry)],
      [LoadProcessor ''local_models/VibeVoice-1.5B'',
       LoadModel ''local_models/VibeVoice-1.5B'' ''flash_attention_2'',
       LoadModel ''local_models/VibeVoice-1.5B'' ''sdpa'', CacheStored ''VibeVoice-1.5B''],
      Inr demo_vibevoice_entry)"
  by (simp add: load_model_pipeline_def demo_loader_def demo_vibevoice_entry_def Let_def
      load_vibevoice_def resolve_model_path_def get_compute_device_def startswith_def
      os_path_join_def MODELS_DIR_def endswith_def release_events_def is_realtime_name_def
      and_then_def call_def ret_def raise_def)

lemma demo_broken_load:
  "load_model_pipeline demo_broken_loader ''VibeVoice-1.5B'' [] =
     ([], [LoadProcessor ''local_models/VibeVoice-1.5B''],
      Inl (Exception ''Failed to load VibeVoice model: no such file''))"
  by (simp add: load_model_pipeline_def demo_broken_loader_def demo_loader_def Let_def
      load_vibevoice_def resolve_model_path_def get_compute_device_def startswith_def
      os_path_join_def MODELS_DIR_def endswith_def is_realtime_name_def
      and_then_def call_def ret_def raise_def)

lemma demo_not_revoked:
  "revoked_before_synthesis demo_task_env = ([BackendGet ''celery-task-meta-job-1''], Inr False)"
  by (simp add: revoked_before_synthesis_def demo_task_env_def own_id_def call_def ret_def
      and_then_Inr)

lemma demo_slow_not_revoked:
  "revoked_before_synthesis demo_slow_env = ([BackendGet ''celery-task-meta-job-1''], Inr False)"
  by (simp add: revoked_before_synthesis_def demo_task_env_def demo_slow_env_def own_id_def
      call_def ret_def and_then_Inr)

lemma demo_not_revoked_before_saving:
  "revoked_before_saving demo_task_env = ([AsyncResultState ''job-1''], Inr False)"
  by (simp add: revoked_before_saving_def demo_task_env_def own_id_def)

lemma demo_pcm:
  "to_pcm16 (np_format demo_task_env) (cast_invalid demo_task_env)
     [Finite (1 / 2), Finite (- 1), Finite (1 / 4)] = Inr [16383, - 32767, 8191]"
proof -
  have "peak [Finite (1 / 2), Finite (- 1), Finite (1 / 4)] = Inr (Finite 1)"
    by (simp add: peak_def np_max_def finite_values_def)
  then show ?thesis
    by (simp add: to_pcm16_def divide_samples_def astype_int16_def py_int_def to_format_def
        demo_task_env_def demo_format_def)
qed

lemma demo_duration:
  "round_duration demo_task_env
     (length [Finite (1 / 2), Finite (- 1), Finite (1 / 4)]) 16000 = 0"
  by (simp add: demo_task_env_def)

lemma demo_save:
  "save_audio demo_task_env ''hello'' model_name speaker 2 5 7
       [Finite (1 / 2), Finite (- 1), Finite (1 / 4)] 16000 =
     ([UpdateState ''PROGRESS'' ''Saving audio file...'',
       WavWrite ''generated_audio/audio_6f1d.wav'' 16000 [16383, - 32767, 8191],
       DbAdd \<lparr>ah_text_input = ''hello'', ah_file_path = ''/static/audio_6f1d.wav'',
              ah_model_name = model_name, ah_speaker = speaker,
              ah_cfg_scale = 2, ah_inference_steps = 5, ah_duration = 0,
              ah_timestamp = ''2024-01-01T00:00:00'', ah_user_id = 7\<rparr>,
       DbClose],
      Inr (Completed \<lparr>res_id = 42, res_text_input = ''hello'',
              res_file_path = ''/static/audio_6f1d.wav'', res_model_name = model_name,
              res_speaker = speaker, res_cfg_scale = 2, res_inference_steps = 5,
              res_duration = 0, res_timestamp = ''2024-01-01T00:00:00''\<rparr>))"
  unfolding save_audio_def demo_duration demo_pcm and_then_emit Let_def
  by (simp add: demo_task_env_def ret_def emit_def and_then_Inr store_history_def
      os_path_join_def AUDIO_DIR_def startswith_def endswith_def)

lemma demo_pipeline_run:
  "generate_audio_task demo_task_env demo_loader [] ''hello'' ''tts-a'' speaker 2 5 7 =
     ([(''tts-a'', demo_entry)],
      [UpdateState ''PROGRESS'' ''Loading model...'',
       LoadPipeline ''local_models/tts-a'' ''cuda'', CacheStored ''tts-a'',
       UpdateState ''PROGRESS'' (''Configuring voice: '' @ str_opt speaker @ ''...''),
       BackendGet ''celery-task-meta-job-1'',
       UpdateState ''PROGRESS'' ''Synthesizing audio...'', PipeCall,
       AsyncResultState ''job-1'',
       UpdateState ''PROGRESS'' ''Saving audio file...'',
       WavWrite ''generated_audio/audio_6f1d.wav'' 16000 [16383, - 32767, 8191],
       DbAdd \<lparr>ah_text_input = ''hello'', ah_file_path = ''/static/audio_6f1d.wav'',
              ah_model_name = ''tts-a'', ah_speaker = speaker,
              ah_cfg_scale = 2, ah_inference_steps = 5, ah_duration = 0,
              ah_timestamp = ''2024-01-01T00:00:00'', ah_user_id = 7\<rparr>,
       DbClose],
      Completed \<lparr>res_id = 42, res_text_input = ''hello'',
              res_file_path = ''/static/audio_6f1d.wav'', res_model_name = ''tts-a'',
              res_speaker = speaker, res_cfg_scale = 2,
              res_inference_steps = 5, res_duration = 0,
              res_timestamp = ''2024-01-01T00:00:00''\<rparr>)"
proof -
  have p: "run_pipeline demo_task_env demo_entry ''hello'' =
             ([PipeCall],
              Inr (Continue ([Finite (1 / 2), Finite (- 1), Finite (1 / 4)], 16000)))"
    by (simp add: run_pipeline_def demo_task_env_def demo_entry_def call_def ret_def and_then_Inr)
  have t: "lo_type demo_entry \<noteq> ''vibevoice''" by (simp add: demo_entry_def)
  show ?thesis
    unfolding generate_audio_task_def task_body_after_load [OF demo_first_load]
      after_load_not_revoked [OF demo_not_revoked]
    by (simp add: t p demo_save demo_not_revoked_before_saving and_then_Inr)
qed

lemma demo_synthesis:
  "synthesize_vibevoice demo_task_env demo_vibevoice_entry ''hello'' ''VibeVoice-1.5B''
       (Some ''en-Alice'') 2 5 =
     ([PathExists ''/app/VibeVoice1.5/demo/voices/en-Alice.wav'', Synthesize False],
      Inr [[Finite (1 / 2), Finite (- 1), Finite (1 / 4)]])"
  by (simp add: synthesize_vibevoice_def validate_speaker_def basename_def ret_def and_then_Inr
      is_realtime_name_def startswith_def resolve_voice_standard_def Let_def os_path_join_def
      endswith_def call_def demo_task_env_def)

lemma demo_slow_synthesis:
  "synthesize_vibevoice demo_slow_env demo_vibevoice_entry ''hello'' ''VibeVoice-1.5B''
       (Some ''en-Alice'') 2 5 =
     ([PathExists ''/app/VibeVoice1.5/demo/voices/en-Alice.wav'', Synthesize False],
      Inl (SoftTimeLimitExceeded []))"
  by (simp add: synthesize_vibevoice_def validate_speaker_def basename_def ret_def and_then_Inr
      is_realtime_name_def startswith_def resolve_voice_standard_def Let_def os_path_join_def
      endswith_def call_def demo_task_env_def demo_slow_env_def)

lemma demo_missing_voice:
  "synthesize_vibevoice demo_task_env demo_vibevoice_entry ''hello'' ''VibeVoice-1.5B''
       (Some ''en-Bob'') 2 5 =
     ([PathExists ''/app/VibeVoice1.5/demo/voices/en-Bob.wav'',
       ListDir ''/app/VibeVoice1.5/demo/voices''],
      Inl (ValueError ''Voice file for speaker en-Bob not found.''))"
  by (simp add: synthesize_vibevoice_def validate_speaker_def basename_def ret_def and_then_Inr
      is_realtime_name_def startswith_def resolve_voice_standard_def Let_def os_path_join_def
      endswith_def call_def raise_def demo_task_env_def and_then_Inl)

lemma demo_own_id: "own_id demo_task_env = Some ''job-1''"
  by (simp add: own_id_def demo_task_env_def)

subsection \<open>Speaker names\<close>

lemma bad_speaker_nonempty: "basename s \<noteq> s \<Longrightarrow> s \<noteq> []"
  by (auto simp: basename_def)

lemma validate_bad_speaker:
  "basename s \<noteq> s \<Longrightarrow>
     validate_speaker (Some s) = ([], Inl (ValueError (''Invalid speaker name: '' @ s)))"
  by (simp add: validate_speaker_def raise_def bad_speaker_nonempty)

lemma synthesize_bad_speaker:
  "basename s \<noteq> s \<Longrightarrow>
     synthesize_vibevoice env loaded text model_name (Some s) cfg steps =
       ([], Inl (ValueError (''Invalid speaker name: '' @ s)))"
  by (simp add: synthesize_vibevoice_def validate_bad_speaker and_then_Inl)

lemma run_vibevoice_bad_speaker:
  "basename s \<noteq> s \<Longrightarrow>
     run_vibevoice env loaded text model_name (Some s) cfg steps =
       ([], Inl (ValueError (''Invalid speaker name: '' @ s)))"
  by (simp add: run_vibevoice_def synthesize_bad_speaker and_then_Inl)

lemma after_load_bad_speaker_no_lookup:
  assumes "basename s \<noteq> s"
  shows "no_voice_lookup (fst (after_load env loaded text model_name (Some s) cfg steps user))"
  unfolding after_load_def no_voice_lookup_def
  by (intro list_all_and_then revoked_before_synthesis_events)
     (auto simp: emit_def ret_def run_vibevoice_bad_speaker [OF assms]
        intro!: list_all_and_then run_pipeline_events revoked_before_saving_events
          save_audio_events split: flow.splits)

lemma is_load_event_no_lookup: "is_load_event ev \<Longrightarrow> \<not> is_voice_lookup ev"
  by (cases ev) simp_all

lemma task_body_bad_speaker_no_lookup:
  assumes "basename s \<noteq> s"
  shows "no_voice_lookup
           (fst (snd (task_body env lenv cache text model_name (Some s) cfg steps user)))"
proof -
  obtain c' loading where l: "load_model_pipeline lenv model_name cache = (c', loading)"
    by (cases "load_model_pipeline lenv model_name cache") auto
  have "list_all (\<lambda>ev. \<not> is_voice_lookup ev) (fst loading)"
    using load_model_pipeline_events [of "\<lambda>ev. \<not> is_voice_lookup ev" lenv model_name cache] l
    by (simp add: is_load_event_no_lookup)
  then show ?thesis
    using after_load_bad_speaker_no_lookup [OF assms] unfolding task_body_def l no_voice_lookup_def
    by (auto simp: emit_def intro!: list_all_and_then)
qed

lemma bad_speaker_no_lookup:
  assumes "basename s \<noteq> s"
  shows "no_voice_lookup
           (fst (snd (generate_audio_task env lenv cache text model_name (Some s) cfg steps user)))"
  unfolding no_voice_lookup_def
  by (rule generate_audio_task_list_all)
     (use task_body_bad_speaker_no_lookup [OF assms] in \<open>simp_all add: no_voice_lookup_def\<close>)

text \<open>
  Claim C3 (rejection of a speaker name that is a path), as the code has it. The claim
  as stated fails for a job on a model that the generic pipeline serves: the speaker's
  name is checked only in the branch for VibeVoice models, where it is made into a file
  name. On the other branch the job completes, and the audio file and the history row,
  which holds the speaker's name, are written.
\<close>

theorem invalid_speaker_counterexample:
  "basename ''../../etc/passwd'' \<noteq> ''../../etc/passwd''
   \<and> generate_audio_task demo_task_env demo_loader [] ''hello'' ''tts-a''
        (Some ''../../etc/passwd'') 2 5 7 =
     ([(''tts-a'', demo_entry)],
      [UpdateState ''PROGRESS'' ''Loading model...'',
       LoadPipeline ''local_models/tts-a'' ''cuda'', CacheStored ''tts-a'',
       UpdateState ''PROGRESS'' ''Configuring voice: ../../etc/passwd...'',
       BackendGet ''celery-task-meta-job-1'',
       UpdateState ''PROGRESS'' ''Synthesizing audio...'', PipeCall,
       AsyncResultState ''job-1'',
       UpdateState ''PROGRESS'' ''Saving audio file...'',
       WavWrite ''generated_audio/audio_6f1d.wav'' 16000 [16383, - 32767, 8191],
       DbAdd \<lparr>ah_text_input = ''hello'', ah_file_path = ''/static/audio_6f1d.wav'',
              ah_model_name = ''tts-a'', ah_speaker = Some ''../../etc/passwd'',
              ah_cfg_scale = 2, ah_inference_steps = 5, ah_duration = 0,
              ah_timestamp = ''2024-01-01T00:00:00'', ah_user_id = 7\<rparr>,
       DbClose],
      Completed \<lparr>res_id = 42, res_text_input = ''hello'',
              res_file_path = ''/static/audio_6f1d.wav'', res_model_name = ''tts-a'',
              res_speaker = Some ''../../etc/passwd'', res_cfg_scale = 2,
              res_inference_steps = 5, res_duration = 0,
              res_timestamp = ''2024-01-01T00:00:00''\<rparr>)"
  by (simp add: demo_pipeline_run str_opt_def basename_def)

text \<open>
  Claim C3, amended. For every job whose speaker name is not its own base name: no run of
  the worker looks up a voice file. When the model is loaded and is a VibeVoice model, and
  the check before synthesis does not find the job revoked, the worker raises the
  \<^verbatim>\<open>ValueError\<close> "Invalid speaker name: ..." before any look-up and before the synthesis,
  the job returns the error result "Generation failed: Invalid speaker name: ...", and
  neither an audio file nor a history row is written.
\<close>

theorem invalid_speaker_rejected:
  assumes "basename s \<noteq> s"
  shows "no_voice_lookup
           (fst (snd (generate_audio_task env lenv cache text model_name (Some s) cfg steps user)))
   \<and> (load_model_pipeline lenv model_name cache = (cache', es0, Inr loaded)
        \<and> lo_type loaded = ''vibevoice''
        \<and> revoked_before_synthesis env = (es1, Inr False) \<longrightarrow>
      generate_audio_task env lenv cache text model_name (Some s) cfg steps user =
        (cache',
         UpdateState ''PROGRESS'' ''Loading model...'' # es0 @
         UpdateState ''PROGRESS'' (''Configuring voice: '' @ s @ ''...'') # es1 @
         [UpdateState ''PROGRESS'' ''Synthesizing audio...'', PrintTraceback],
         Error (''Generation failed: Invalid speaker name: '' @ s))
      \<and> no_synthesis
          (fst (snd (generate_audio_task env lenv cache text model_name (Some s) cfg steps user)))
      \<and> no_artifact_write
          (fst (snd (generate_audio_task env lenv cache text model_name (Some s) cfg steps user))))"
proof (intro conjI impI)
  show "no_voice_lookup
           (fst (snd (generate_audio_task env lenv cache text model_name (Some s) cfg steps user)))"
    using assms by (rule bad_speaker_no_lookup)
next
  assume h: "load_model_pipeline lenv model_name cache = (cache', es0, Inr loaded)
        \<and> lo_type loaded = ''vibevoice''
        \<and> revoked_before_synthesis env = (es1, Inr False)"
  then have l: "load_model_pipeline lenv model_name cache = (cache', es0, Inr loaded)"
    and t: "lo_type loaded = ''vibevoice''"
    and r: "revoked_before_synthesis env = (es1, Inr False)" by simp_all
  show run: "generate_audio_task env lenv cache text model_name (Some s) cfg steps user =
        (cache',
         UpdateState ''PROGRESS'' ''Loading model...'' # es0 @
         UpdateState ''PROGRESS'' (''Configuring voice: '' @ s @ ''...'') # es1 @
         [UpdateState ''PROGRESS'' ''Synthesizing audio...'', PrintTraceback],
         Error (''Generation failed: Invalid speaker name: '' @ s))"
    unfolding generate_audio_task_def task_body_after_load [OF l] after_load_not_revoked [OF r]
    by (simp add: t run_vibevoice_bad_speaker [OF assms] and_then_Inr and_then_Inl str_opt_def)
  have e0: "no_synthesis es0" "no_artifact_write es0"
    using no_synthesis_loader [of lenv model_name cache]
      no_artifact_write_loader [of lenv model_name cache] l by simp_all
  have e1: "no_synthesis es1" "no_artifact_write es1"
    using revoked_before_synthesis_events [of "\<lambda>ev. \<not> is_synthesis ev" env]
      revoked_before_synthesis_events [of "\<lambda>ev. \<not> is_artifact_write ev" env] r
    by (simp_all add: no_synthesis_def no_artifact_write_def)
  from e0 e1 show "no_synthesis
          (fst (snd (generate_audio_task env lenv cache text model_name (Some s) cfg steps user)))"
    unfolding run by (simp add: no_synthesis_def)
  from e0 e1 show "no_artifact_write
          (fst (snd (generate_audio_task env lenv cache text model_name (Some s) cfg steps user)))"
    unfolding run by (simp add: no_artifact_write_def)
qed

theorem invalid_speaker_rejected_witness:
  "generate_audio_task demo_task_env demo_loader [] ''hello'' ''VibeVoice-1.5B''
        (Some ''../../etc/passwd'') 2 5 7 =
     ([(''VibeVoice-1.5B'', demo_vibevoice_entry)],
      [UpdateState ''PROGRESS'' ''Loading model...'',
       LoadProcessor ''local_models/VibeVoice-1.5B'',
       LoadModel ''local_models/VibeVoice-1.5B'' ''flash_attention_2'',
       LoadModel ''local_models/VibeVoice-1.5B'' ''sdpa'', CacheStored ''VibeVoice-1.5B'',
       UpdateState ''PROGRESS'' ''Configuring voice: ../../etc/passwd...'',
       BackendGet ''celery-task-meta-job-1'',
       UpdateState ''PROGRESS'' ''Synthesizing audio...'', PrintTraceback],
      Error ''Generation failed: Invalid speaker name: ../../etc/passwd'')"
proof -
  have b: "basename ''../../etc/passwd'' \<noteq> ''../../etc/passwd''"
    by (simp add: basename_def)
  have t: "lo_type demo_vibevoice_entry = ''vibevoice''" by (simp add: demo_vibevoice_entry_def)
  from invalid_speaker_rejected [OF b, of demo_task_env demo_loader "[]" "''hello''"
      "''VibeVoice-1.5B''" 2 5 7 "[(''VibeVoice-1.5B'', demo_vibevoice_entry)]" _ demo_vibevoice_entry
      "[BackendGet ''celery-task-meta-job-1'']"]
    demo_vibevoice_load demo_not_revoked t
  show ?thesis by simp
qed

subsection \<open>Cancellation\<close>

lemma cancelled_and_then:
  assumes "list_all (\<lambda>ev. \<not> is_artifact_write ev) (fst m)"
    and "\<And>x. snd m = Inr x \<Longrightarrow>
           \<forall>msg. snd (f x) = Inr (Cancelled msg) \<longrightarrow>
             list_all (\<lambda>ev. \<not> is_artifact_write ev) (fst (f x))"
  shows "\<forall>msg. snd (and_then m f) = Inr (Cancelled msg) \<longrightarrow>
           list_all (\<lambda>ev. \<not> is_artifact_write ev) (fst (and_then m f))"
  using assms by (cases "snd m") (auto simp: fst_and_then snd_and_then)

lemma store_history_not_cancelled: "snd (store_history env row) \<noteq> Inr (Cancelled msg)"
  by (simp add: store_history_def split: sum.splits)

lemma save_audio_not_cancelled:
  "snd (save_audio env text model_name speaker cfg steps user audio rate) \<noteq> Inr (Cancelled msg)"
  unfolding save_audio_def Let_def
  by (auto simp: snd_and_then store_history_not_cancelled split: sum.splits)

lemma before_saving_cancelled:
  "\<forall>msg. snd (and_then (revoked_before_saving env) (\<lambda>revoked.
             if revoked then ret (Cancelled ''Task was cancelled'')
             else save_audio env text model_name speaker cfg steps user audio rate))
           = Inr (Cancelled msg) \<longrightarrow>
     list_all (\<lambda>ev. \<not> is_artifact_write ev)
       (fst (and_then (revoked_before_saving env) (\<lambda>revoked.
             if revoked then ret (Cancelled ''Task was cancelled'')
             else save_audio env text model_name speaker cfg steps user audio rate)))"
proof (rule cancelled_and_then)
  show "list_all (\<lambda>ev. \<not> is_artifact_write ev) (fst (revoked_before_saving env))"
    by (rule revoked_before_saving_events) simp
next
  fix x
  show "\<forall>msg. snd (if x then ret (Cancelled ''Task was cancelled'')
                     else save_audio env text model_name speaker cfg steps user audio rate)
                = Inr (Cancelled msg) \<longrightarrow>
          list_all (\<lambda>ev. \<not> is_artifact_write ev)
            (fst (if x then ret (Cancelled ''Task was cancelled'')
                  else save_audio env text model_name speaker cfg steps user audio rate))"
    by (cases x) (simp_all add: ret_def save_audio_not_cancelled)
qed

lemma after_synthesis_cancelled:
  assumes "list_all (\<lambda>ev. \<not> is_artifact_write ev) (fst branch)"
  shows "\<forall>msg. snd (and_then branch (\<lambda>outcome.
             case outcome of
               Return result \<Rightarrow> ret result
             | Continue (audio_data, sampling_rate) \<Rightarrow>
                 and_then (revoked_before_saving env) (\<lambda>revoked.
                 if revoked then ret (Cancelled ''Task was cancelled'')
                 else save_audio env text model_name speaker cfg steps user
                        audio_data sampling_rate)))
           = Inr (Cancelled msg) \<longrightarrow>
     list_all (\<lambda>ev. \<not> is_artifact_write ev)
       (fst (and_then branch (\<lambda>outcome.
             case outcome of
               Return result \<Rightarrow> ret result
             | Continue (audio_data, sampling_rate) \<Rightarrow>
                 and_then (revoked_before_saving env) (\<lambda>revoked.
                 if revoked then ret (Cancelled ''Task was cancelled'')
                 else save_audio env text model_name speaker cfg steps user
                        audio_data sampling_rate))))"
proof (rule cancelled_and_then [OF assms])
  fix outcome :: "(sample list \<times> nat) flow"
  show "\<forall>msg. snd (case outcome of
               Return result \<Rightarrow> ret result
             | Continue (audio_data, sampling_rate) \<Rightarrow>
                 and_then (revoked_before_saving env) (\<lambda>revoked.
                 if revoked then ret (Cancelled ''Task was cancelled'')
                 else save_audio env text model_name speaker cfg steps user
                        audio_data sampling_rate))
           = Inr (Cancelled msg) \<longrightarrow>
     list_all (\<lambda>ev. \<not> is_artifact_write ev)
       (fst (case outcome of
               Return result \<Rightarrow> ret result
             | Continue (audio_data, sampling_rate) \<Rightarrow>
                 and_then (revoked_before_saving env) (\<lambda>revoked.
                 if revoked then ret (Cancelled ''Task was cancelled'')
                 else save_audio env text model_name speaker cfg steps user
                        audio_data sampling_rate)))"
  proof (cases outcome)
    case (Return r)
    then show ?thesis by (simp add: ret_def)
  next
    case (Continue a)
    obtain audio rate where "a = (audio, rate)" by (cases a)
    with Continue show ?thesis
      using before_saving_cancelled [of env "text" model_name speaker cfg steps user audio rate]
      by simp
  qed
qed

lemma branch_no_write:
  "list_all (\<lambda>ev. \<not> is_artifact_write ev)
     (fst (if lo_type loaded = ''vibevoice''
           then run_vibevoice env loaded text model_name speaker cfg steps
           else run_pipeline env loaded text))"
  by (auto intro!: run_vibevoice_events run_pipeline_events)

lemma after_load_cancelled:
  "\<forall>msg. snd (after_load env loaded text model_name speaker cfg steps user) = Inr (Cancelled msg) \<longrightarrow>
     list_all (\<lambda>ev. \<not> is_artifact_write ev)
       (fst (after_load env loaded text model_name speaker cfg steps user))"
  unfolding after_load_def
proof (rule cancelled_and_then, goal_cases)
  case 1
  show ?case by (simp add: emit_def)
next
  case (2 u)
  show ?case
  proof (rule cancelled_and_then, goal_cases)
    case 1
    show ?case by (rule revoked_before_synthesis_events) simp
  next
    case (2 revoked)
    show ?case
    proof (cases revoked)
      case True
      then show ?thesis by (simp add: ret_def)
    next
      case False
      have "\<forall>msg. snd (and_then (emit (UpdateState ''PROGRESS'' ''Synthesizing audio...''))
              (\<lambda>_. and_then
         (if lo_type loaded = ''vibevoice''
          then run_vibevoice env loaded text model_name speaker cfg steps
          else run_pipeline env loaded text) (\<lambda>outcome.
       case outcome of
         Return result \<Rightarrow> ret result
       | Continue (audio_data, sampling_rate) \<Rightarrow>
           and_then (revoked_before_saving env) (\<lambda>revoked.
           if revoked then ret (Cancelled ''Task was cancelled'')
           else save_audio env text model_name speaker cfg steps user
                  audio_data sampling_rate)))) = Inr (Cancelled msg) \<longrightarrow>
          list_all (\<lambda>ev. \<not> is_artifact_write ev)
            (fst (and_then (emit (UpdateState ''PROGRESS'' ''Synthesizing audio...''))
              (\<lambda>_. and_then
         (if lo_type loaded = ''vibevoice''
          then run_vibevoice env loaded text model_name speaker cfg steps
          else run_pipeline env loaded text) (\<lambda>outcome.
       case outcome of
         Return result \<Rightarrow> ret result
       | Continue (audio_data, sampling_rate) \<Rightarrow>
           and_then (revoked_before_saving env) (\<lambda>revoked.
           if revoked then ret (Cancelled ''Task was cancelled'')
           else save_audio env text model_name speaker cfg steps user
                  audio_data sampling_rate)))))"
        by (rule cancelled_and_then) (simp_all add: emit_def after_synthesis_cancelled [OF branch_no_write])
      with False show ?thesis by simp
    qed
  qed
qed

lemma on_exception_not_cancelled: "snd (on_exception e) \<noteq> Cancelled msg"
  by (cases e) simp_all

lemma cancelled_writes_nothing:
  assumes "generate_audio_task env lenv cache text model_name speaker cfg steps user =
             (cache', es, Cancelled msg)"
  shows "no_artifact_write es"
proof -
  obtain c1 loading where l: "load_model_pipeline lenv model_name cache = (c1, loading)"
    by (cases "load_model_pipeline lenv model_name cache") auto
  have lw: "list_all (\<lambda>ev. \<not> is_artifact_write ev) (fst loading)"
    using no_artifact_write_loader [of lenv model_name cache] l
    by (simp add: no_artifact_write_def)
  define body where "body = and_then (emit (UpdateState ''PROGRESS'' ''Loading model...'')) (\<lambda>_.
           and_then loading (\<lambda>loaded_obj.
           after_load env loaded_obj text model_name speaker cfg steps user))"
  have tb: "task_body env lenv cache text model_name speaker cfg steps user = (c1, body)"
    by (simp add: task_body_def l body_def)
  have q: "\<forall>msg. snd body = Inr (Cancelled msg) \<longrightarrow>
             list_all (\<lambda>ev. \<not> is_artifact_write ev) (fst body)"
    unfolding body_def
    by (intro cancelled_and_then lw after_load_cancelled) (simp add: emit_def)
  from assms have "snd body = Inr (Cancelled msg) \<and> es = fst body"
    unfolding generate_audio_task_def tb
    by (cases body; cases "snd body") (auto simp: on_exception_not_cancelled)
  with q show ?thesis by (simp add: no_artifact_write_def)
qed

lemma contains_nonempty: "contains b ''REVOKED'' \<Longrightarrow> b \<noteq> []"
  by (cases b) simp_all

lemma revoked_record:
  assumes "own_id env = Some i"
    and "backend_get env (''celery-task-meta-'' @ i) = Inr (Some b)"
    and "contains b ''REVOKED''"
  shows "revoked_before_synthesis env =
           ([BackendGet (''celery-task-meta-'' @ i), BackendGet (''celery-task-meta-'' @ i)],
            Inr True)"
  using assms contains_nonempty [OF assms(3)]
  by (simp add: revoked_before_synthesis_def call_def ret_def and_then_Inr)

lemma marker_after_synthesis:
  assumes "synthesize_vibevoice env loaded text model_name speaker cfg steps = (es2, Inr outs)"
    and "own_id env = Some i"
    and "client_exists env (''task_cancelled:'' @ i) = Inr True"
  shows "run_vibevoice env loaded text model_name speaker cfg steps =
           (es2 @ [ClientExists (''task_cancelled:'' @ i)],
            Inr (Return (Cancelled ''Task was cancelled during generation'')))"
  using assms
  by (simp add: run_vibevoice_def cancelled_during_generation_def call_def ret_def and_then_Inr)

lemma revoked_state_before_saving:
  assumes "own_id env = Some i" and "async_result_state env i = Inr ''REVOKED''"
  shows "revoked_before_saving env = ([AsyncResultState i], Inr True)"
  using assms by (simp add: revoked_before_saving_def)

text \<open>
  Claim C5 (two checkpoints of cooperative cancellation), as the code has it. The claim
  as stated fails: the marker \<^verbatim>\<open>task_cancelled:<id>\<close> is read once, after the synthesis
  of a VibeVoice model. The check before the synthesis reads the job's record for
  \<^verbatim>\<open>REVOKED\<close>, not the marker, and on the branch of the generic pipeline the marker is
  never read: there a job whose marker is present from start to end completes and writes
  its audio file and its history row.
\<close>

theorem cancellation_checkpoints_counterexample:
  "client_exists demo_task_env ''task_cancelled:job-1'' = Inr True
   \<and> generate_audio_task demo_task_env demo_loader [] ''hello'' ''tts-a'' None 2 5 7 =
     ([(''tts-a'', demo_entry)],
      [UpdateState ''PROGRESS'' ''Loading model...'',
       LoadPipeline ''local_models/tts-a'' ''cuda'', CacheStored ''tts-a'',
       UpdateState ''PROGRESS'' ''Configuring voice: None...'',
       BackendGet ''celery-task-meta-job-1'',
       UpdateState ''PROGRESS'' ''Synthesizing audio...'', PipeCall,
       AsyncResultState ''job-1'',
       UpdateState ''PROGRESS'' ''Saving audio file...'',
       WavWrite ''generated_audio/audio_6f1d.wav'' 16000 [16383, - 32767, 8191],
       DbAdd \<lparr>ah_text_input = ''hello'', ah_file_path = ''/static/audio_6f1d.wav'',
              ah_model_name = ''tts-a'', ah_speaker = None,
              ah_cfg_scale = 2, ah_inference_steps = 5, ah_duration = 0,
              ah_timestamp = ''2024-01-01T00:00:00'', ah_user_id = 7\<rparr>,
       DbClose],
      Completed \<lparr>res_id = 42, res_text_input = ''hello'',
              res_file_path = ''/static/audio_6f1d.wav'', res_model_name = ''tts-a'',
              res_speaker = None, res_cfg_scale = 2,
              res_inference_steps = 5, res_duration = 0,
              res_timestamp = ''2024-01-01T00:00:00''\<rparr>)"
  by (simp add: demo_pipeline_run str_opt_def) (simp add: demo_task_env_def)

text \<open>
  Claim C5, amended. Whenever the worker returns a cancelled result, it has written no
  audio file and no history row. It returns one at three checkpoints: before the
  synthesis, when the job's record in the result backend contains \<^verbatim>\<open>REVOKED\<close> (no
  synthesis is begun); on the branch for VibeVoice models, right after the synthesis has
  returned, when the marker \<^verbatim>\<open>task_cancelled:<id>\<close> is present in the store (the output is
  discarded, the message is "Task was cancelled during generation"); and before saving,
  when the state of the job reads \<^verbatim>\<open>REVOKED\<close>.
\<close>

theorem cancellation_checkpoints:
  "(generate_audio_task env lenv cache text model_name speaker cfg steps user =
      (cache', es, Cancelled msg) \<longrightarrow> no_artifact_write es)
   \<and> (load_model_pipeline lenv model_name cache = (cache', es0, Inr loaded)
        \<and> own_id env = Some i
        \<and> backend_get env (''celery-task-meta-'' @ i) = Inr (Some b)
        \<and> contains b ''REVOKED'' \<longrightarrow>
      generate_audio_task env lenv cache text model_name speaker cfg steps user =
        (cache',
         UpdateState ''PROGRESS'' ''Loading model...'' # es0 @
         [UpdateState ''PROGRESS'' (''Configuring voice: '' @ str_opt speaker @ ''...''),
          BackendGet (''celery-task-meta-'' @ i), BackendGet (''celery-task-meta-'' @ i)],
         Cancelled ''Task was cancelled''))
   \<and> (load_model_pipeline lenv model_name cache = (cache', es0, Inr loaded)
        \<and> lo_type loaded = ''vibevoice''
        \<and> revoked_before_synthesis env = (es1, Inr False)
        \<and> synthesize_vibevoice env loaded text model_name speaker cfg steps = (es2, Inr outs)
        \<and> own_id env = Some i
        \<and> client_exists env (''task_cancelled:'' @ i) = Inr True \<longrightarrow>
      generate_audio_task env lenv cache text model_name speaker cfg steps user =
        (cache',
         UpdateState ''PROGRESS'' ''Loading model...'' # es0 @
         UpdateState ''PROGRESS'' (''Configuring voice: '' @ str_opt speaker @ ''...'') # es1 @
         UpdateState ''PROGRESS'' ''Synthesizing audio...'' # es2 @
         [ClientExists (''task_cancelled:'' @ i)],
         Cancelled ''Task was cancelled during generation''))
   \<and> (load_model_pipeline lenv model_name cache = (cache', es0, Inr loaded)
        \<and> revoked_before_synthesis env = (es1, Inr False)
        \<and> (if lo_type loaded = ''vibevoice''
            then run_vibevoice env loaded text model_name speaker cfg steps
            else run_pipeline env loaded text) = (es2, Inr (Continue (audio, rate)))
        \<and> own_id env = Some i
        \<and> async_result_state env i = Inr ''REVOKED'' \<longrightarrow>
      generate_audio_task env lenv cache text model_name speaker cfg steps user =
        (cache',
         UpdateState ''PROGRESS'' ''Loading model...'' # es0 @
         UpdateState ''PROGRESS'' (''Configuring voice: '' @ str_opt speaker @ ''...'') # es1 @
         UpdateState ''PROGRESS'' ''Synthesizing audio...'' # es2 @ [AsyncResultState i],
         Cancelled ''Task was cancelled''))"
proof (intro conjI impI, goal_cases)
  case 1
  then show ?case by (rule cancelled_writes_nothing)
next
  case 2
  then have l: "load_model_pipeline lenv model_name cache = (cache', es0, Inr loaded)"
    and r: "revoked_before_synthesis env =
              ([BackendGet (''celery-task-meta-'' @ i), BackendGet (''celery-task-meta-'' @ i)],
               Inr True)"
    by (simp_all add: revoked_record)
  show ?case by (simp add: task_cancelled_before_synthesis [OF l r])
next
  case 3
  then have l: "load_model_pipeline lenv model_name cache = (cache', es0, Inr loaded)"
    and r: "revoked_before_synthesis env = (es1, Inr False)"
    and b: "(if lo_type loaded = ''vibevoice''
             then run_vibevoice env loaded text model_name speaker cfg steps
             else run_pipeline env loaded text) =
            (es2 @ [ClientExists (''task_cancelled:'' @ i)],
             Inr (Return (Cancelled ''Task was cancelled during generation'')))"
    by (simp_all add: marker_after_synthesis)
  show ?case by (simp add: task_branch_returns [OF l r b])
next
  case 4
  then have l: "load_model_pipeline lenv model_name cache = (cache', es0, Inr loaded)"
    and r: "revoked_before_synthesis env = (es1, Inr False)"
    and b: "(if lo_type loaded = ''vibevoice''
             then run_vibevoice env loaded text model_name speaker cfg steps
             else run_pipeline env loaded text) = (es2, Inr (Continue (audio, rate)))"
    and s: "revoked_before_saving env = ([AsyncResultState i], Inr True)"
    by (simp_all add: revoked_state_before_saving)
  show ?case by (simp add: task_revoked_before_saving [OF l r b s])
qed

theorem cancellation_checkpoints_witness:
  "generate_audio_task demo_task_env demo_loader [] ''hello'' ''VibeVoice-1.5B''
        (Some ''en-Alice'') 2 5 7 =
     ([(''VibeVoice-1.5B'', demo_vibevoice_entry)],
      [UpdateState ''PROGRESS'' ''Loading model...'',
       LoadProcessor ''local_models/VibeVoice-1.5B'',
       LoadModel ''local_models/VibeVoice-1.5B'' ''flash_attention_2'',
       LoadModel ''local_models/VibeVoice-1.5B'' ''sdpa'', CacheStored ''VibeVoice-1.5B'',
       UpdateState ''PROGRESS'' ''Configuring voice: en-Alice...'',
       BackendGet ''celery-task-meta-job-1'',
       UpdateState ''PROGRESS'' ''Synthesizing audio...'',
       PathExists ''/app/VibeVoice1.5/demo/voices/en-Alice.wav'', Synthesize False,
       ClientExists ''task_cancelled:job-1''],
      Cancelled ''Task was cancelled during generation'')
   \<and> no_artifact_write
       (fst (snd (generate_audio_task demo_task_env demo_loader [] ''hello'' ''VibeVoice-1.5B''
          (Some ''en-Alice'') 2 5 7)))"
proof -
  have t: "lo_type demo_vibevoice_entry = ''vibevoice''" by (simp add: demo_vibevoice_entry_def)
  have m: "client_exists demo_task_env ''task_cancelled:job-1'' = Inr True"
    by (simp add: demo_task_env_def)
  have run: "generate_audio_task demo_task_env demo_loader [] ''hello'' ''VibeVoice-1.5B''
        (Some ''en-Alice'') 2 5 7 =
     ([(''VibeVoice-1.5B'', demo_vibevoice_entry)],
      [UpdateState ''PROGRESS'' ''Loading model...'',
       LoadProcessor ''local_models/VibeVoice-1.5B'',
       LoadModel ''local_models/VibeVoice-1.5B'' ''flash_attention_2'',
       LoadModel ''local_models/VibeVoice-1.5B'' ''sdpa'', CacheStored ''VibeVoice-1.5B'',
       UpdateState ''PROGRESS'' ''Configuring voice: en-Alice...'',
       BackendGet ''celery-task-meta-job-1'',
       UpdateState ''PROGRESS'' ''Synthesizing audio...'',
       PathExists ''/app/VibeVoice1.5/demo/voices/en-Alice.wav'', Synthesize False,
       ClientExists ''task_cancelled:job-1''],
      Cancelled ''Task was cancelled during generation'')"
    using cancellation_checkpoints [of demo_task_env demo_loader "[]" "''hello''"
        "''VibeVoice-1.5B''" "Some ''en-Alice''" 2 5 7
        "[(''VibeVoice-1.5B'', demo_vibevoice_entry)]" _ _ _ demo_vibevoice_entry "''job-1''" _
        "[BackendGet ''celery-task-meta-job-1'']"
        "[PathExists ''/app/VibeVoice1.5/demo/voices/en-Alice.wav'', Synthesize False]"
        "[[Finite (1 / 2), Finite (- 1), Finite (1 / 4)]]"]
      demo_vibevoice_load demo_not_revoked demo_synthesis demo_own_id t m
    by (simp add: str_opt_def)
  show ?thesis
    using cancellation_checkpoints [of demo_task_env demo_loader "[]" "''hello''"
        "''VibeVoice-1.5B''" "Some ''en-Alice''" 2 5 7
        "[(''VibeVoice-1.5B'', demo_vibevoice_entry)]" _ "''Task was cancelled during generation''"]
      run
    by simp
qed

subsection \<open>Exceptions\<close>

lemma realtime_voice_raises:
  assumes "validate_speaker speaker = ([], Inr ())" and "is_realtime_name model_name"
    and "resolve_voice_realtime env speaker = (es3, Inl e)"
  shows "synthesize_vibevoice env loaded text model_name speaker cfg steps = (es3, Inl e)"
  using assms by (simp add: synthesize_vibevoice_def and_then_Inr and_then_Inl)

lemma standard_voice_raises:
  assumes "validate_speaker speaker = ([], Inr ())" and "\<not> is_realtime_name model_name"
    and "resolve_voice_standard env speaker = (es3, Inl e)"
  shows "synthesize_vibevoice env loaded text model_name speaker cfg steps = (es3, Inl e)"
  using assms by (simp add: synthesize_vibevoice_def and_then_Inr and_then_Inl)

lemma realtime_synthesis_raises:
  assumes "validate_speaker speaker = ([], Inr ())" and "is_realtime_name model_name"
    and "resolve_voice_realtime env speaker = (es3, Inr prompt)"
    and "synthesize env
            \<lparr>sq_model = loaded, sq_realtime = True, sq_text = text,
             sq_cached_prompt = Some prompt, sq_voice_samples = [],
             sq_cfg_scale = cfg,
             sq_num_steps = (if steps = 0 then 5 else steps),
             sq_stop_check = True\<rparr> = Inl e"
  shows "synthesize_vibevoice env loaded text model_name speaker cfg steps =
           (es3 @ [Synthesize True], Inl e)"
  using assms by (simp add: synthesize_vibevoice_def and_then_Inr call_def)

lemma standard_synthesis_raises:
  assumes "validate_speaker speaker = ([], Inr ())" and "\<not> is_realtime_name model_name"
    and "resolve_voice_standard env speaker = (es3, Inr voice_samples)"
    and "synthesize env
            \<lparr>sq_model = loaded, sq_realtime = False, sq_text = text,
             sq_cached_prompt = None, sq_voice_samples = voice_samples,
             sq_cfg_scale = cfg,
             sq_num_steps = (if steps = 0 then 5 else steps),
             sq_stop_check = False\<rparr> = Inl e"
  shows "synthesize_vibevoice env loaded text model_name speaker cfg steps =
           (es3 @ [Synthesize False], Inl e)"
  using assms by (simp add: synthesize_vibevoice_def and_then_Inr call_def)

lemma on_exception_table:
  "on_exception e =
     (if is_soft_time_limit e then ([], Timeout ''Task exceeded time limit'')
      else ([PrintTraceback], Error (''Generation failed: '' @ str_exc e)))"
  by (cases e) simp_all

lemma custom_loader_raises:
  assumes "map_of cache model_name = None"
    and "contains model_name ''VibeVoice''" and "VIBEVOICE_AVAILABLE lenv"
    and "load_vibevoice lenv model_name (resolve_model_path lenv model_name)
           (get_compute_device lenv) = (es0, Inl e)"
  shows "load_model_pipeline lenv model_name cache =
           ([], (if cache = [] then [] else CacheCleared # release_events lenv) @ es0,
            Inl (Exception (''Failed to load VibeVoice model: '' @ str_exc e)))"
  using assms by (cases cache) (simp_all add: load_model_pipeline_def Let_def)

lemma flash_attention_retry:
  assumes "processor_from_pretrained lenv (is_realtime_name model_name) model_path =
             Inr processor"
    and "model_from_pretrained lenv (is_realtime_name model_name) model_path ''bfloat16''
           (Some ''cuda'') ''flash_attention_2'' = Inl e1"
    and "model_from_pretrained lenv (is_realtime_name model_name) model_path ''bfloat16''
           (Some ''cuda'') ''sdpa'' = Inr model"
    and "model_eval lenv model = None"
  shows "load_vibevoice lenv model_name model_path ''cuda'' =
           ([LoadProcessor model_path, LoadModel model_path ''flash_attention_2'',
             LoadModel model_path ''sdpa''],
            Inr \<lparr>lo_model = model, lo_processor = Some processor, lo_type = ''vibevoice'',
                 lo_subtype = Some (if is_realtime_name model_name then ''vibevoice_streaming''
                                    else ''vibevoice_standard'')\<rparr>)"
  using assms by (simp add: load_vibevoice_def Let_def call_def ret_def and_then_Inr)

lemma pipeline_retry_result:
  assumes "map_of cache model_name = None"
    and "\<not> (contains model_name ''VibeVoice'' \<and> VIBEVOICE_AVAILABLE lenv)"
    and "pipeline lenv (resolve_model_path lenv model_name) (get_compute_device lenv) = Inl e1"
  shows "snd (snd (load_model_pipeline lenv model_name cache)) =
           map_sum id (\<lambda>pipe. \<lparr>lo_model = pipe, lo_processor = None, lo_type = ''pipeline'',
                                 lo_subtype = None\<rparr>)
             (pipeline_retry lenv (resolve_model_path lenv model_name))"
  using assms
  by (cases "pipeline_retry lenv (resolve_model_path lenv model_name)")
     (auto simp: load_model_pipeline_def Let_def load_pipeline_def)

lemma swallowed_before_saving:
  assumes "own_id env = Some i" and "async_result_state env i = Inl e"
  shows "revoked_before_saving env = ([AsyncResultState i], Inr False)"
  using assms by (simp add: revoked_before_saving_def)

lemma demo_run_with_pipeline:
  assumes l: "load_model_pipeline lenv ''tts-a'' [] = (cache', es0, Inr demo_entry)"
  shows "generate_audio_task demo_task_env lenv [] ''hello'' ''tts-a'' speaker 2 5 7 =
     (cache',
      UpdateState ''PROGRESS'' ''Loading model...'' # es0 @
      [UpdateState ''PROGRESS'' (''Configuring voice: '' @ str_opt speaker @ ''...''),
       BackendGet ''celery-task-meta-job-1'',
       UpdateState ''PROGRESS'' ''Synthesizing audio...'', PipeCall,
       AsyncResultState ''job-1'',
       UpdateState ''PROGRESS'' ''Saving audio file...'',
       WavWrite ''generated_audio/audio_6f1d.wav'' 16000 [16383, - 32767, 8191],
       DbAdd \<lparr>ah_text_input = ''hello'', ah_file_path = ''/static/audio_6f1d.wav'',
              ah_model_name = ''tts-a'', ah_speaker = speaker,
              ah_cfg_scale = 2, ah_inference_steps = 5, ah_duration = 0,
              ah_timestamp = ''2024-01-01T00:00:00'', ah_user_id = 7\<rparr>,
       DbClose],
      Completed \<lparr>res_id = 42, res_text_input = ''hello'',
              res_file_path = ''/static/audio_6f1d.wav'', res_model_name = ''tts-a'',
              res_speaker = speaker, res_cfg_scale = 2,
              res_inference_steps = 5, res_duration = 0,
              res_timestamp = ''2024-01-01T00:00:00''\<rparr>)"
proof -
  have p: "run_pipeline demo_task_env demo_entry ''hello'' =
             ([PipeCall],
              Inr (Continue ([Finite (1 / 2), Finite (- 1), Finite (1 / 4)], 16000)))"
    by (simp add: run_pipeline_def demo_task_env_def demo_entry_def call_def ret_def and_then_Inr)
  have t: "lo_type demo_entry \<noteq> ''vibevoice''" by (simp add: demo_entry_def)
  show ?thesis
    unfolding generate_audio_task_def task_body_after_load [OF l]
      after_load_not_revoked [OF demo_not_revoked]
    by (simp add: t p demo_save demo_not_revoked_before_saving and_then_Inr)
qed

lemma demo_retry_load:
  "load_model_pipeline demo_retry_loader ''tts-a'' [] =
     ([(''tts-a'', demo_entry)],
      [LoadPipeline ''local_models/tts-a'' ''cuda'', LoadPipeline ''local_models/tts-a'' ''cpu'',
       CacheStored ''tts-a''], Inr demo_entry)"
  by (simp add: load_model_pipeline_def demo_retry_loader_def demo_loader_def demo_entry_def
      Let_def load_pipeline_def resolve_model_path_def get_compute_device_def startswith_def
      os_path_join_def MODELS_DIR_def endswith_def)

lemma demo_small_load:
  "load_model_pipeline demo_small_loader ''tts-a'' [] =
     ([(''tts-a'', demo_entry)],
      [LoadPipeline ''local_models/tts-a'' ''cuda'', LoadPipeline ''local_models/tts-a'' ''cpu'',
       CacheStored ''tts-a''], Inr demo_entry)"
  by (simp add: load_model_pipeline_def demo_small_loader_def demo_loader_def demo_entry_def
      Let_def load_pipeline_def resolve_model_path_def get_compute_device_def startswith_def
      os_path_join_def MODELS_DIR_def endswith_def)

lemma demo_timeout_load:
  "load_model_pipeline demo_timeout_loader ''VibeVoice-1.5B'' [] =
     ([], [LoadProcessor ''local_models/VibeVoice-1.5B''],
      Inl (Exception ''Failed to load VibeVoice model: ''))"
  by (simp add: load_model_pipeline_def demo_timeout_loader_def demo_loader_def Let_def
      load_vibevoice_def resolve_model_path_def get_compute_device_def startswith_def
      os_path_join_def MODELS_DIR_def endswith_def is_realtime_name_def
      and_then_def call_def ret_def raise_def)

lemma demo_broken_custom_loader:
  "load_vibevoice demo_broken_loader ''VibeVoice-1.5B''
     (resolve_model_path demo_broken_loader ''VibeVoice-1.5B'')
     (get_compute_device demo_broken_loader) =
     ([LoadProcessor ''local_models/VibeVoice-1.5B''], Inl (Exception ''no such file''))"
  by (simp add: demo_broken_loader_def demo_loader_def Let_def
      load_vibevoice_def resolve_model_path_def get_compute_device_def startswith_def
      os_path_join_def MODELS_DIR_def endswith_def is_realtime_name_def
      and_then_def call_def ret_def raise_def)

text \<open>
  Claim C7 (translation of exceptions at the job boundary), as the code has it. The
  claim as stated fails in the model loading and at the head of the task.

  The soft time limit strikes while the processor of a VibeVoice model is loaded: the
  handler of the custom loader catches it and raises
  \<^verbatim>\<open>Exception("Failed to load VibeVoice model: ")\<close> in its place, and the job returns
  the error result, not the timeout result.

  The soft time limit strikes during the first call of \<^verbatim>\<open>pipeline\<close>: the handler of
  the fallback catches it and calls \<^verbatim>\<open>pipeline\<close> again on the CPU, and the job
  completes.

  An exception other than the soft time limit in the first call of \<^verbatim>\<open>pipeline\<close> (the
  accelerator is out of memory) is caught in the same way: an exception was raised during
  the model loading, and the job completes instead of failing.

  The import of \<^verbatim>\<open>transformers\<close> at the head of the task fails: the import stands
  before the \<^verbatim>\<open>try\<close> statement, and the exception leaves the task.
\<close>

theorem job_boundary_counterexample:
  "processor_from_pretrained demo_timeout_loader False ''local_models/VibeVoice-1.5B'' =
     Inl (SoftTimeLimitExceeded [])
   \<and> generate_audio_task demo_task_env demo_timeout_loader [] ''hello'' ''VibeVoice-1.5B''
        (Some ''en-Alice'') 2 5 7 =
     ([], [UpdateState ''PROGRESS'' ''Loading model...'',
           LoadProcessor ''local_models/VibeVoice-1.5B'', PrintTraceback],
      Error ''Generation failed: Failed to load VibeVoice model: '')
   \<and> pipeline demo_retry_loader ''local_models/tts-a'' ''cuda'' = Inl (SoftTimeLimitExceeded [])
   \<and> result_status (snd (snd (generate_audio_task demo_task_env demo_retry_loader []
        ''hello'' ''tts-a'' None 2 5 7))) = ''completed''
   \<and> pipeline demo_small_loader ''local_models/tts-a'' ''cuda'' =
     Inl (Exception ''CUDA out of memory'')
   \<and> result_status (snd (snd (generate_audio_task demo_task_env demo_small_loader []
        ''hello'' ''tts-a'' None 2 5 7))) = ''completed''
   \<and> generate_audio_task_entry demo_import_env demo_loader [] ''hello'' ''tts-a'' None 2 5 7 =
     Inl (Exception ''libcudart.so.12: cannot open shared object file'')"
proof -
  have a: "processor_from_pretrained demo_timeout_loader False ''local_models/VibeVoice-1.5B'' =
     Inl (SoftTimeLimitExceeded [])"
    by (simp add: demo_timeout_loader_def)
  have b: "generate_audio_task demo_task_env demo_timeout_loader [] ''hello'' ''VibeVoice-1.5B''
        (Some ''en-Alice'') 2 5 7 =
     ([], [UpdateState ''PROGRESS'' ''Loading model...'',
           LoadProcessor ''local_models/VibeVoice-1.5B'', PrintTraceback],
      Error ''Generation failed: Failed to load VibeVoice model: '')"
    by (simp add: task_load_raises [OF demo_timeout_load])
  have c: "pipeline demo_retry_loader ''local_models/tts-a'' ''cuda'' =
     Inl (SoftTimeLimitExceeded [])"
    by (simp add: demo_retry_loader_def)
  have d: "result_status (snd (snd (generate_audio_task demo_task_env demo_retry_loader []
        ''hello'' ''tts-a'' None 2 5 7))) = ''completed''"
    by (simp add: demo_run_with_pipeline [OF demo_retry_load])
  have e: "pipeline demo_small_loader ''local_models/tts-a'' ''cuda'' =
     Inl (Exception ''CUDA out of memory'')"
    by (simp add: demo_small_loader_def)
  have f: "result_status (snd (snd (generate_audio_task demo_task_env demo_small_loader []
        ''hello'' ''tts-a'' None 2 5 7))) = ''completed''"
    by (simp add: demo_run_with_pipeline [OF demo_small_load])
  have g: "generate_audio_task_entry demo_import_env demo_loader [] ''hello'' ''tts-a'' None
        2 5 7 = Inl (Exception ''libcudart.so.12: cannot open shared object file'')"
    by (simp add: generate_audio_task_entry_def demo_import_env_def)
  from a b c d e f g show ?thesis by simp
qed

text \<open>
  Claim C7, amended. When the imports at the head of the task succeed, the task returns a
  dictionary whatever happens inside its \<^verbatim>\<open>try\<close> statement; an exception of those
  imports leaves the task. Every exception that leaves the \<^verbatim>\<open>try\<close> block is translated
  at the end of the statement: a \<^verbatim>\<open>SoftTimeLimitExceeded\<close> gives the timeout result,
  every other exception the error result with the message "Generation failed: " followed
  by \<^verbatim>\<open>str(e)\<close>, and nothing else: the traceback is printed, not returned.

  An exception of the voice resolution, of the synthesis or of the pipeline call leaves the
  block as it was raised, and so does one that \<^verbatim>\<open>load_model_pipeline\<close> raises to the
  task. Inside the model loading and before saving, handlers of their own come first.
  Of an exception other than the soft time limit: one that leaves the custom VibeVoice
  loader reaches the task as \<^verbatim>\<open>Exception("Failed to load VibeVoice model: ...")\<close> and
  gives the error result; one of \<^verbatim>\<open>from_pretrained\<close> with flash attention is caught and
  the model is loaded with \<^verbatim>\<open>sdpa\<close>; one of the first call of \<^verbatim>\<open>pipeline\<close> is caught
  and the call repeated on the CPU, whose result, a pipeline or an exception, is the
  result of the loading. Every exception of the state read before saving is swallowed,
  and the job goes on to save.
\<close>

theorem job_boundary:
  "(import_transformers env = None \<longrightarrow>
      generate_audio_task_entry env lenv cache text model_name speaker cfg steps user =
        Inr (generate_audio_task env lenv cache text model_name speaker cfg steps user))
   \<and> (import_transformers env = Some e \<longrightarrow>
      generate_audio_task_entry env lenv cache text model_name speaker cfg steps user = Inl e)
   \<and> (task_body env lenv cache text model_name speaker cfg steps user = (cache', es, Inr result)
        \<longrightarrow>
      generate_audio_task env lenv cache text model_name speaker cfg steps user =
        (cache', es, result))
   \<and> (task_body env lenv cache text model_name speaker cfg steps user = (cache', es, Inl e)
        \<longrightarrow>
      generate_audio_task env lenv cache text model_name speaker cfg steps user =
        (cache', es @ fst (on_exception e), snd (on_exception e)))
   \<and> on_exception e =
       (if is_soft_time_limit e then ([], Timeout ''Task exceeded time limit'')
        else ([PrintTraceback], Error (''Generation failed: '' @ str_exc e)))
   \<and> (load_model_pipeline lenv model_name cache = (cache', es0, Inl e) \<longrightarrow>
      generate_audio_task env lenv cache text model_name speaker cfg steps user =
        (cache', UpdateState ''PROGRESS'' ''Loading model...'' # es0 @ fst (on_exception e),
         snd (on_exception e)))
   \<and> (map_of cache model_name = None
        \<and> contains model_name ''VibeVoice'' \<and> VIBEVOICE_AVAILABLE lenv
        \<and> load_vibevoice lenv model_name (resolve_model_path lenv model_name)
             (get_compute_device lenv) = (es0, Inl e)
        \<and> \<not> is_soft_time_limit e \<longrightarrow>
      generate_audio_task env lenv cache text model_name speaker cfg steps user =
        ([],
         UpdateState ''PROGRESS'' ''Loading model...'' #
         (if cache = [] then [] else CacheCleared # release_events lenv) @ es0 @ [PrintTraceback],
         Error (''Generation failed: Failed to load VibeVoice model: '' @ str_exc e)))
   \<and> (processor_from_pretrained lenv (is_realtime_name model_name) model_path = Inr processor
        \<and> model_from_pretrained lenv (is_realtime_name model_name) model_path ''bfloat16''
             (Some ''cuda'') ''flash_attention_2'' = Inl e
        \<and> \<not> is_soft_time_limit e
        \<and> model_from_pretrained lenv (is_realtime_name model_name) model_path ''bfloat16''
             (Some ''cuda'') ''sdpa'' = Inr model
        \<and> model_eval lenv model = None \<longrightarrow>
      load_vibevoice lenv model_name model_path ''cuda'' =
        ([LoadProcessor model_path, LoadModel model_path ''flash_attention_2'',
          LoadModel model_path ''sdpa''],
         Inr \<lparr>lo_model = model, lo_processor = Some processor, lo_type = ''vibevoice'',
              lo_subtype = Some (if is_realtime_name model_name then ''vibevoice_streaming''
                                 else ''vibevoice_standard'')\<rparr>))
   \<and> (map_of cache model_name = None
        \<and> \<not> (contains model_name ''VibeVoice'' \<and> VIBEVOICE_AVAILABLE lenv)
        \<and> pipeline lenv (resolve_model_path lenv model_name) (get_compute_device lenv) = Inl e
        \<and> \<not> is_soft_time_limit e \<longrightarrow>
      snd (snd (load_model_pipeline lenv model_name cache)) =
        map_sum id (\<lambda>pipe. \<lparr>lo_model = pipe, lo_processor = None, lo_type = ''pipeline'',
                              lo_subtype = None\<rparr>)
          (pipeline_retry lenv (resolve_model_path lenv model_name)))
   \<and> (load_model_pipeline lenv model_name cache = (cache', es0, Inr loaded)
        \<and> lo_type loaded = ''vibevoice''
        \<and> revoked_before_synthesis env = (es1, Inr False)
        \<and> synthesize_vibevoice env loaded text model_name speaker cfg steps = (es2, Inl e) \<longrightarrow>
      generate_audio_task env lenv cache text model_name speaker cfg steps user =
        (cache',
         UpdateState ''PROGRESS'' ''Loading model...'' # es0 @
         UpdateState ''PROGRESS'' (''Configuring voice: '' @ str_opt speaker @ ''...'') # es1 @
         UpdateState ''PROGRESS'' ''Synthesizing audio...'' # es2 @ fst (on_exception e),
         snd (on_exception e)))
   \<and> (load_model_pipeline lenv model_name cache = (cache', es0, Inr loaded)
        \<and> lo_type loaded \<noteq> ''vibevoice''
        \<and> revoked_before_synthesis env = (es1, Inr False)
        \<and> pipe_call env (lo_model loaded) text = Inl e \<longrightarrow>
      generate_audio_task env lenv cache text model_name speaker cfg steps user =
        (cache',
         UpdateState ''PROGRESS'' ''Loading model...'' # es0 @
         UpdateState ''PROGRESS'' (''Configuring voice: '' @ str_opt speaker @ ''...'') # es1 @
         [UpdateState ''PROGRESS'' ''Synthesizing audio...'', PipeCall] @ fst (on_exception e),
         snd (on_exception e)))
   \<and> (validate_speaker speaker = ([], Inr ())
        \<and> (if is_realtime_name model_name then resolve_voice_realtime env speaker = (es3, Inl e)
            else resolve_voice_standard env speaker = (es3, Inl e)) \<longrightarrow>
      synthesize_vibevoice env loaded text model_name speaker cfg steps = (es3, Inl e))
   \<and> (validate_speaker speaker = ([], Inr ())
        \<and> (if is_realtime_name model_name
            then (\<exists>prompt. resolve_voice_realtime env speaker = (es3, Inr prompt)
                   \<and> synthesize env
                        \<lparr>sq_model = loaded, sq_realtime = True, sq_text = text,
                         sq_cached_prompt = Some prompt, sq_voice_samples = [],
                         sq_cfg_scale = cfg,
                         sq_num_steps = (if steps = 0 then 5 else steps),
                         sq_stop_check = True\<rparr> = Inl e)
            else (\<exists>voice_samples. resolve_voice_standard env speaker = (es3, Inr voice_samples)
                   \<and> synthesize env
                        \<lparr>sq_model = loaded, sq_realtime = False, sq_text = text,
                         sq_cached_prompt = None, sq_voice_samples = voice_samples,
                         sq_cfg_scale = cfg,
                         sq_num_steps = (if steps = 0 then 5 else steps),
                         sq_stop_check = False\<rparr> = Inl e)) \<longrightarrow>
      synthesize_vibevoice env loaded text model_name speaker cfg steps =
        (es3 @ [Synthesize (is_realtime_name model_name)], Inl e))
   \<and> (own_id env = Some i \<and> async_result_state env i = Inl e \<longrightarrow>
      revoked_before_saving env = ([AsyncResultState i], Inr False))"
proof (intro conjI impI, goal_cases)
  case 1
  then show ?case by (simp add: generate_audio_task_entry_def)
next
  case 2
  then show ?case by (simp add: generate_audio_task_entry_def)
next
  case 3
  then show ?case by (simp add: generate_audio_task_def)
next
  case 4
  then show ?case by (simp add: generate_audio_task_def)
next
  case 5
  show ?case by (rule on_exception_table)
next
  case 6
  then show ?case by (simp add: task_load_raises)
next
  case 7
  then have l: "load_model_pipeline lenv model_name cache =
           ([], (if cache = [] then [] else CacheCleared # release_events lenv) @ es0,
            Inl (Exception (''Failed to load VibeVoice model: '' @ str_exc e)))"
    by (intro custom_loader_raises) simp_all
  show ?case by (simp add: task_load_raises [OF l])
next
  case 8
  then show ?case by (intro flash_attention_retry) simp_all
next
  case 9
  then show ?case by (intro pipeline_retry_result) simp_all
next
  case 10
  then have l: "load_model_pipeline lenv model_name cache = (cache', es0, Inr loaded)"
    and r: "revoked_before_synthesis env = (es1, Inr False)"
    and b: "(if lo_type loaded = ''vibevoice''
             then run_vibevoice env loaded text model_name speaker cfg steps
             else run_pipeline env loaded text) = (es2, Inl e)"
    by (simp_all add: run_vibevoice_raises)
  show ?case by (simp add: task_branch_raises [OF l r b])
next
  case 11
  then have l: "load_model_pipeline lenv model_name cache = (cache', es0, Inr loaded)"
    and r: "revoked_before_synthesis env = (es1, Inr False)"
    and b: "(if lo_type loaded = ''vibevoice''
             then run_vibevoice env loaded text model_name speaker cfg steps
             else run_pipeline env loaded text) = ([PipeCall], Inl e)"
    by (simp_all add: run_pipeline_raises)
  show ?case by (simp add: task_branch_raises [OF l r b])
next
  case 12
  then show ?case
    by (cases "is_realtime_name model_name")
       (simp_all add: realtime_voice_raises standard_voice_raises)
next
  case 13
  then show ?case
    by (cases "is_realtime_name model_name")
       (auto simp: realtime_synthesis_raises standard_synthesis_raises)
next
  case 14
  then show ?case by (simp add: swallowed_before_saving)
qed

theorem job_boundary_witness:
  "generate_audio_task demo_task_env demo_broken_loader [] ''hello'' ''VibeVoice-1.5B''
        (Some ''en-Alice'') 2 5 7 =
     ([], [UpdateState ''PROGRESS'' ''Loading model...'',
           LoadProcessor ''local_models/VibeVoice-1.5B'', PrintTraceback],
      Error ''Generation failed: Failed to load VibeVoice model: no such file'')
   \<and> generate_audio_task demo_task_env demo_loader [] ''hello'' ''VibeVoice-1.5B''
        (Some ''en-Bob'') 2 5 7 =
     ([(''VibeVoice-1.5B'', demo_vibevoice_entry)],
      [UpdateState ''PROGRESS'' ''Loading model...'',
       LoadProcessor ''local_models/VibeVoice-1.5B'',
       LoadModel ''local_models/VibeVoice-1.5B'' ''flash_attention_2'',
       LoadModel ''local_models/VibeVoice-1.5B'' ''sdpa'', CacheStored ''VibeVoice-1.5B'',
       UpdateState ''PROGRESS'' ''Configuring voice: en-Bob...'',
       BackendGet ''celery-task-meta-job-1'',
       UpdateState ''PROGRESS'' ''Synthesizing audio...'',
       PathExists ''/app/VibeVoice1.5/demo/voices/en-Bob.wav'',
       ListDir ''/app/VibeVoice1.5/demo/voices'', PrintTraceback],
      Error ''Generation failed: Voice file for speaker en-Bob not found.'')
   \<and> generate_audio_task demo_slow_env demo_loader [] ''hello'' ''VibeVoice-1.5B''
        (Some ''en-Alice'') 2 5 7 =
     ([(''VibeVoice-1.5B'', demo_vibevoice_entry)],
      [UpdateState ''PROGRESS'' ''Loading model...'',
       LoadProcessor ''local_models/VibeVoice-1.5B'',
       LoadModel ''local_models/VibeVoice-1.5B'' ''flash_attention_2'',
       LoadModel ''local_models/VibeVoice-1.5B'' ''sdpa'', CacheStored ''VibeVoice-1.5B'',
       UpdateState ''PROGRESS'' ''Configuring voice: en-Alice...'',
       BackendGet ''celery-task-meta-job-1'',
       UpdateState ''PROGRESS'' ''Synthesizing audio...'',
       PathExists ''/app/VibeVoice1.5/demo/voices/en-Alice.wav'', Synthesize False],
      Timeout ''Task exceeded time limit'')
   \<and> generate_audio_task_entry demo_import_env demo_loader [] ''hello'' ''tts-a'' None 2 5 7 =
     Inl (Exception ''libcudart.so.12: cannot open shared object file'')
   \<and> generate_audio_task_entry demo_task_env demo_loader [] ''hello'' ''tts-a'' None 2 5 7 =
     Inr (generate_audio_task demo_task_env demo_loader [] ''hello'' ''tts-a'' None 2 5 7)
   \<and> snd (snd (load_model_pipeline demo_small_loader ''tts-a'' [])) = Inr demo_entry"
proof -
  have t: "lo_type demo_vibevoice_entry = ''vibevoice''" by (simp add: demo_vibevoice_entry_def)
  have v: "contains ''VibeVoice-1.5B'' ''VibeVoice''" by (simp add: startswith_def)
  have va: "VIBEVOICE_AVAILABLE demo_broken_loader"
    by (simp add: demo_broken_loader_def demo_loader_def)
  have a: "generate_audio_task demo_task_env demo_broken_loader [] ''hello'' ''VibeVoice-1.5B''
        (Some ''en-Alice'') 2 5 7 =
     ([], [UpdateState ''PROGRESS'' ''Loading model...'',
           LoadProcessor ''local_models/VibeVoice-1.5B'', PrintTraceback],
      Error ''Generation failed: Failed to load VibeVoice model: no such file'')"
    using job_boundary [of demo_task_env demo_broken_loader "[]" "''hello''" "''VibeVoice-1.5B''"
        "Some ''en-Alice''" 2 5 7 "Exception ''no such file''" _ _ _
        "[LoadProcessor ''local_models/VibeVoice-1.5B'']"]
      demo_broken_custom_loader v va
    by (simp add: startswith_def)
  have b: "generate_audio_task demo_task_env demo_loader [] ''hello'' ''VibeVoice-1.5B''
        (Some ''en-Bob'') 2 5 7 =
     ([(''VibeVoice-1.5B'', demo_vibevoice_entry)],
      [UpdateState ''PROGRESS'' ''Loading model...'',
       LoadProcessor ''local_models/VibeVoice-1.5B'',
       LoadModel ''local_models/VibeVoice-1.5B'' ''flash_attention_2'',
       LoadModel ''local_models/VibeVoice-1.5B'' ''sdpa'', CacheStored ''VibeVoice-1.5B'',
       UpdateState ''PROGRESS'' ''Configuring voice: en-Bob...'',
       BackendGet ''celery-task-meta-job-1'',
       UpdateState ''PROGRESS'' ''Synthesizing audio...'',
       PathExists ''/app/VibeVoice1.5/demo/voices/en-Bob.wav'',
       ListDir ''/app/VibeVoice1.5/demo/voices'', PrintTraceback],
      Error ''Generation failed: Voice file for speaker en-Bob not found.'')"
    using job_boundary [of demo_task_env demo_loader "[]" "''hello''" "''VibeVoice-1.5B''"
        "Some ''en-Bob''" 2 5 7 "ValueError ''Voice file for speaker en-Bob not found.''"
        "[(''VibeVoice-1.5B'', demo_vibevoice_entry)]" _ _
        "[LoadProcessor ''local_models/VibeVoice-1.5B'',
          LoadModel ''local_models/VibeVoice-1.5B'' ''flash_attention_2'',
          LoadModel ''local_models/VibeVoice-1.5B'' ''sdpa'', CacheStored ''VibeVoice-1.5B'']"
        _ _ _ demo_vibevoice_entry
        "[BackendGet ''celery-task-meta-job-1'']"
        "[PathExists ''/app/VibeVoice1.5/demo/voices/en-Bob.wav'',
          ListDir ''/app/VibeVoice1.5/demo/voices'']"]
      demo_vibevoice_load demo_not_revoked demo_missing_voice t
    by (simp add: str_opt_def)
  have c: "generate_audio_task demo_slow_env demo_loader [] ''hello'' ''VibeVoice-1.5B''
        (Some ''en-Alice'') 2 5 7 =
     ([(''VibeVoice-1.5B'', demo_vibevoice_entry)],
      [UpdateState ''PROGRESS'' ''Loading model...'',
       LoadProcessor ''local_models/VibeVoice-1.5B'',
       LoadModel ''local_models/VibeVoice-1.5B'' ''flash_attention_2'',
       LoadModel ''local_models/VibeVoice-1.5B'' ''sdpa'', CacheStored ''VibeVoice-1.5B'',
       UpdateState ''PROGRESS'' ''Configuring voice: en-Alice...'',
       BackendGet ''celery-task-meta-job-1'',
       UpdateState ''PROGRESS'' ''Synthesizing audio...'',
       PathExists ''/app/VibeVoice1.5/demo/voices/en-Alice.wav'', Synthesize False],
      Timeout ''Task exceeded time limit'')"
    using job_boundary [of demo_slow_env demo_loader "[]" "''hello''" "''VibeVoice-1.5B''"
        "Some ''en-Alice''" 2 5 7 "SoftTimeLimitExceeded []"
        "[(''VibeVoice-1.5B'', demo_vibevoice_entry)]" _ _
        "[LoadProcessor ''local_models/VibeVoice-1.5B'',
          LoadModel ''local_models/VibeVoice-1.5B'' ''flash_attention_2'',
          LoadModel ''local_models/VibeVoice-1.5B'' ''sdpa'', CacheStored ''VibeVoice-1.5B'']"
        _ _ _ demo_vibevoice_entry
        "[BackendGet ''celery-task-meta-job-1'']"
        "[PathExists ''/app/VibeVoice1.5/demo/voices/en-Alice.wav'', Synthesize False]"]
      demo_vibevoice_load demo_slow_not_revoked demo_slow_synthesis t
    by (simp add: str_opt_def)
  have d: "generate_audio_task_entry demo_import_env demo_loader [] ''hello'' ''tts-a'' None
        2 5 7 = Inl (Exception ''libcudart.so.12: cannot open shared object file'')"
    using job_boundary [of demo_import_env demo_loader "[]" "''hello''" "''tts-a''" None 2 5 7
        "Exception ''libcudart.so.12: cannot open shared object file''"]
    by (simp add: demo_import_env_def)
  have e: "generate_audio_task_entry demo_task_env demo_loader [] ''hello'' ''tts-a'' None
        2 5 7 =
     Inr (generate_audio_task demo_task_env demo_loader [] ''hello'' ''tts-a'' None 2 5 7)"
    using job_boundary [of demo_task_env demo_loader "[]" "''hello''" "''tts-a''" None 2 5 7]
    by (simp add: demo_task_env_def)
  have nv: "\<not> contains ''tts-a'' ''VibeVoice''" by (simp add: startswith_def)
  have pr: "pipeline demo_small_loader (resolve_model_path demo_small_loader ''tts-a'')
              (get_compute_device demo_small_loader) = Inl (Exception ''CUDA out of memory'')"
    "pipeline_retry demo_small_loader (resolve_model_path demo_small_loader ''tts-a'') = Inr 3"
    by (simp_all add: demo_small_loader_def demo_loader_def)
  have f: "snd (snd (load_model_pipeline demo_small_loader ''tts-a'' [])) = Inr demo_entry"
    using job_boundary [of demo_task_env demo_small_loader "[]" "''hello''" "''tts-a''" None 2 5 7
        "Exception ''CUDA out of memory''"]
      nv pr
    by (simp add: demo_entry_def)
  from a b c d e f show ?thesis by simp
qed

end
